theory Spec2Isabelle
  imports Main
begin

section \<open>Values exchanged between the legacy and the modern file API\<close>

text \<open>
  The adapter of \<^verbatim>\<open>env/composite_env.cc\<close> only moves values between two calling
  conventions; the types of those values are declared in headers.  Sizes, offsets
  and counts (\<^verbatim>\<open>size_t\<close>, \<^verbatim>\<open>uint64_t\<close>) are natural numbers: the adapter passes them
  on and the only arithmetic is a loop counter bounded by the request count.
  A raw buffer pointer (\<^verbatim>\<open>char*\<close>) is the address of a caller-owned buffer; the
  adapter never reads or writes through it.  A \<^verbatim>\<open>Slice\<close> is the byte string it
  denotes.
\<close>

type_synonym ptr = nat

type_synonym Slice = string

text \<open>
  Modelled from the spec: \<^verbatim>\<open>Status\<close> and \<^verbatim>\<open>IOStatus\<close> are declared in headers.  The spec
  identifies a status by its kind and its message, names the kinds success and
  not-found, mentions argument validation, and states that the modern status is the
  legacy status; so both are one type here, and the conversion from \<^verbatim>\<open>IOStatus\<close> to
  \<^verbatim>\<open>Status\<close> at a \<^verbatim>\<open>return\<close> or an assignment is the identity.  \<^verbatim>\<open>IOStatus::OK()\<close> and a
  default-constructed \<^verbatim>\<open>Status\<close> are the success status, and \<^verbatim>\<open>ok()\<close> holds of the kind
  success.
\<close>

datatype Code = kOk | kNotFound | kInvalidArgument | kIOError

record Status =
  kind :: Code
  message :: string

type_synonym IOStatus = Status

definition Status_OK :: Status where
  "Status_OK = \<lparr>kind = kOk, message = ''''\<rparr>"

definition ok :: "Status \<Rightarrow> bool" where
  "ok s = (kind s = kOk)"

text \<open>
  Modelled from the spec: \<^verbatim>\<open>IOOptions\<close> is declared in a header.  The spec names a
  deadline and a priority as the settings a per-call options value can carry, both
  absent in the default value.
\<close>

record IOOptions =
  deadline :: "nat option"
  priority :: "nat option"

definition IOOptions_default :: IOOptions where
  "IOOptions_default = \<lparr>deadline = None, priority = None\<rparr>"

text \<open>
  Modelled from the spec: \<^verbatim>\<open>IODebugContext\<close> is declared in a header.  It is the per-call
  tracing context, a list of notes; the default-constructed one is empty.
\<close>

type_synonym IODebugContext = "string list"

definition IODebugContext_default :: IODebugContext where
  "IODebugContext_default = []"

text \<open>
  Modelled from the spec: \<^verbatim>\<open>DataVerificationInfo\<close> is declared in a header; the spec
  describes the payload as a checksum.
\<close>

record DataVerificationInfo =
  checksum :: Slice

text \<open>
  Modelled from the spec: \<^verbatim>\<open>DirFsyncOptions\<close> is declared in a header.  The spec
  distinguishes the default directory-fsync behaviour from its variants.
\<close>

datatype FsyncReason = kDefault | kVariant nat

record DirFsyncOptions =
  reason :: FsyncReason

definition DirFsyncOptions_default :: DirFsyncOptions where
  "DirFsyncOptions_default = \<lparr>reason = kDefault\<rparr>"

text \<open>
  Modelled from the spec: \<^verbatim>\<open>EnvOptions\<close> and \<^verbatim>\<open>FileOptions\<close> are declared in headers.
  The legacy open options are opaque to the adapter (type \<open>'eo\<close>); the expression
  \<^verbatim>\<open>FileOptions(options)\<close> builds the modern-style options value that carries them.
\<close>

datatype 'eo FileOptions = FileOptions (env_options: 'eo)

text \<open>
  The access-pattern and write-lifetime-hint enumerations are declared in headers;
  a value is its ordinal, and the cast between the legacy and the modern
  access-pattern enumeration keeps the ordinal.
\<close>

type_synonym AccessPattern = nat

type_synonym WriteLifeTimeHint = nat

text \<open>
  The request records of the batched read; the fields are those the adapter reads
  and writes (\<^verbatim>\<open>offset\<close>, \<^verbatim>\<open>len\<close>, \<^verbatim>\<open>scratch\<close>, \<^verbatim>\<open>result\<close>, \<^verbatim>\<open>status\<close>), prefixed by the
  record they belong to.  \<^verbatim>\<open>fs_reqs.resize(num_reqs)\<close> fills the vector with value-initialised
  elements.
\<close>

record ReadRequest =
  req_offset :: nat
  req_len :: nat
  req_scratch :: ptr
  req_result :: Slice
  req_status :: Status

record FSReadRequest =
  fsreq_offset :: nat
  fsreq_len :: nat
  fsreq_scratch :: ptr
  fsreq_result :: Slice
  fsreq_status :: IOStatus

definition FSReadRequest_default :: FSReadRequest where
  "FSReadRequest_default =
     \<lparr>fsreq_offset = 0, fsreq_len = 0, fsreq_scratch = 0, fsreq_result = '''',
      fsreq_status = Status_OK\<rparr>"

section \<open>The modern file API\<close>

text \<open>
  The five modern interfaces are declared in headers; a record below has one field
  for each method the adapter calls, with the parameters in the order of the call in
  \<^verbatim>\<open>composite_env.cc\<close>.  A modern handle is an object behind such an interface: its
  methods and its current state \<open>'h\<close>.  A method that can change the object takes the
  state and returns the new one; the counterpart of a legacy method declared
  \<^verbatim>\<open>const\<close> reads the state.  An output parameter passed by pointer
  (\<^verbatim>\<open>Slice* result\<close>, \<^verbatim>\<open>IODebugContext* dbg\<close>, the request array, the two preallocation
  sizes) is an argument and a component of the result.  The batched read receives
  the address of the elements of a vector and cannot resize it: the list it returns
  has the length of the list it was given.
\<close>

record 'h FSSequentialFile =
  sq_state :: 'h
  sq_Read ::
    "nat \<Rightarrow> IOOptions \<Rightarrow> Slice \<Rightarrow> ptr \<Rightarrow> IODebugContext \<Rightarrow> 'h
       \<Rightarrow> IOStatus \<times> Slice \<times> IODebugContext \<times> 'h"
  sq_Skip :: "nat \<Rightarrow> 'h \<Rightarrow> IOStatus \<times> 'h"
  sq_use_direct_io :: "'h \<Rightarrow> bool"
  sq_GetRequiredBufferAlignment :: "'h \<Rightarrow> nat"
  sq_InvalidateCache :: "nat \<Rightarrow> nat \<Rightarrow> 'h \<Rightarrow> IOStatus \<times> 'h"
  sq_PositionedRead ::
    "nat \<Rightarrow> nat \<Rightarrow> IOOptions \<Rightarrow> Slice \<Rightarrow> ptr \<Rightarrow> IODebugContext \<Rightarrow> 'h
       \<Rightarrow> IOStatus \<times> Slice \<times> IODebugContext \<times> 'h"

record 'h FSRandomAccessFile =
  ra_state :: 'h
  ra_Read ::
    "nat \<Rightarrow> nat \<Rightarrow> IOOptions \<Rightarrow> Slice \<Rightarrow> ptr \<Rightarrow> IODebugContext \<Rightarrow> 'h
       \<Rightarrow> IOStatus \<times> Slice \<times> IODebugContext"
  ra_MultiRead ::
    "FSReadRequest list \<Rightarrow> nat \<Rightarrow> IOOptions \<Rightarrow> IODebugContext \<Rightarrow> 'h
       \<Rightarrow> IOStatus \<times> FSReadRequest list \<times> IODebugContext \<times> 'h"
  ra_Prefetch :: "nat \<Rightarrow> nat \<Rightarrow> IOOptions \<Rightarrow> IODebugContext \<Rightarrow> 'h \<Rightarrow> IOStatus \<times> IODebugContext \<times> 'h"
  ra_GetUniqueId :: "ptr \<Rightarrow> nat \<Rightarrow> 'h \<Rightarrow> nat"
  ra_Hint :: "AccessPattern \<Rightarrow> 'h \<Rightarrow> 'h"
  ra_use_direct_io :: "'h \<Rightarrow> bool"
  ra_GetRequiredBufferAlignment :: "'h \<Rightarrow> nat"
  ra_InvalidateCache :: "nat \<Rightarrow> nat \<Rightarrow> 'h \<Rightarrow> IOStatus \<times> 'h"

record 'h FSWritableFile =
  wf_state :: 'h
  wf_Append :: "Slice \<Rightarrow> IOOptions \<Rightarrow> IODebugContext \<Rightarrow> 'h \<Rightarrow> IOStatus \<times> IODebugContext \<times> 'h"
  wf_Append_verified ::
    "Slice \<Rightarrow> IOOptions \<Rightarrow> DataVerificationInfo \<Rightarrow> IODebugContext \<Rightarrow> 'h
       \<Rightarrow> IOStatus \<times> IODebugContext \<times> 'h"
  wf_PositionedAppend ::
    "Slice \<Rightarrow> nat \<Rightarrow> IOOptions \<Rightarrow> IODebugContext \<Rightarrow> 'h
       \<Rightarrow> IOStatus \<times> IODebugContext \<times> 'h"
  wf_PositionedAppend_verified ::
    "Slice \<Rightarrow> nat \<Rightarrow> IOOptions \<Rightarrow> DataVerificationInfo \<Rightarrow> IODebugContext \<Rightarrow> 'h
       \<Rightarrow> IOStatus \<times> IODebugContext \<times> 'h"
  wf_Truncate :: "nat \<Rightarrow> IOOptions \<Rightarrow> IODebugContext \<Rightarrow> 'h \<Rightarrow> IOStatus \<times> IODebugContext \<times> 'h"
  wf_Close :: "IOOptions \<Rightarrow> IODebugContext \<Rightarrow> 'h \<Rightarrow> IOStatus \<times> IODebugContext \<times> 'h"
  wf_Flush :: "IOOptions \<Rightarrow> IODebugContext \<Rightarrow> 'h \<Rightarrow> IOStatus \<times> IODebugContext \<times> 'h"
  wf_Sync :: "IOOptions \<Rightarrow> IODebugContext \<Rightarrow> 'h \<Rightarrow> IOStatus \<times> IODebugContext \<times> 'h"
  wf_Fsync :: "IOOptions \<Rightarrow> IODebugContext \<Rightarrow> 'h \<Rightarrow> IOStatus \<times> IODebugContext \<times> 'h"
  wf_IsSyncThreadSafe :: "'h \<Rightarrow> bool"
  wf_use_direct_io :: "'h \<Rightarrow> bool"
  wf_GetRequiredBufferAlignment :: "'h \<Rightarrow> nat"
  wf_SetWriteLifeTimeHint :: "WriteLifeTimeHint \<Rightarrow> 'h \<Rightarrow> 'h"
  wf_GetWriteLifeTimeHint :: "'h \<Rightarrow> WriteLifeTimeHint \<times> 'h"
  wf_GetFileSize :: "IOOptions \<Rightarrow> IODebugContext \<Rightarrow> 'h \<Rightarrow> nat \<times> IODebugContext \<times> 'h"
  wf_SetPreallocationBlockSize :: "nat \<Rightarrow> 'h \<Rightarrow> 'h"
  wf_GetPreallocationStatus :: "nat \<Rightarrow> nat \<Rightarrow> 'h \<Rightarrow> nat \<times> nat \<times> 'h"
  wf_GetUniqueId :: "ptr \<Rightarrow> nat \<Rightarrow> 'h \<Rightarrow> nat"
  wf_InvalidateCache :: "nat \<Rightarrow> nat \<Rightarrow> 'h \<Rightarrow> IOStatus \<times> 'h"
  wf_RangeSync :: "nat \<Rightarrow> nat \<Rightarrow> IOOptions \<Rightarrow> IODebugContext \<Rightarrow> 'h \<Rightarrow> IOStatus \<times> IODebugContext \<times> 'h"
  wf_PrepareWrite :: "nat \<Rightarrow> nat \<Rightarrow> IOOptions \<Rightarrow> IODebugContext \<Rightarrow> 'h \<Rightarrow> IODebugContext \<times> 'h"
  wf_Allocate :: "nat \<Rightarrow> nat \<Rightarrow> IOOptions \<Rightarrow> IODebugContext \<Rightarrow> 'h \<Rightarrow> IOStatus \<times> IODebugContext \<times> 'h"

record 'h FSRandomRWFile =
  rw_state :: 'h
  rw_use_direct_io :: "'h \<Rightarrow> bool"
  rw_GetRequiredBufferAlignment :: "'h \<Rightarrow> nat"
  rw_Write :: "nat \<Rightarrow> Slice \<Rightarrow> IOOptions \<Rightarrow> IODebugContext \<Rightarrow> 'h \<Rightarrow> IOStatus \<times> IODebugContext \<times> 'h"
  rw_Read ::
    "nat \<Rightarrow> nat \<Rightarrow> IOOptions \<Rightarrow> Slice \<Rightarrow> ptr \<Rightarrow> IODebugContext \<Rightarrow> 'h
       \<Rightarrow> IOStatus \<times> Slice \<times> IODebugContext"
  rw_Flush :: "IOOptions \<Rightarrow> IODebugContext \<Rightarrow> 'h \<Rightarrow> IOStatus \<times> IODebugContext \<times> 'h"
  rw_Sync :: "IOOptions \<Rightarrow> IODebugContext \<Rightarrow> 'h \<Rightarrow> IOStatus \<times> IODebugContext \<times> 'h"
  rw_Fsync :: "IOOptions \<Rightarrow> IODebugContext \<Rightarrow> 'h \<Rightarrow> IOStatus \<times> IODebugContext \<times> 'h"
  rw_Close :: "IOOptions \<Rightarrow> IODebugContext \<Rightarrow> 'h \<Rightarrow> IOStatus \<times> IODebugContext \<times> 'h"

record 'h FSDirectory =
  dir_state :: 'h
  dir_FsyncWithDirOptions ::
    "IOOptions \<Rightarrow> IODebugContext \<Rightarrow> DirFsyncOptions \<Rightarrow> 'h
       \<Rightarrow> IOStatus \<times> IODebugContext \<times> 'h"
  dir_GetUniqueId :: "ptr \<Rightarrow> nat \<Rightarrow> 'h \<Rightarrow> nat"


section \<open>The leaf wrappers\<close>

text \<open>
  A wrapper holds one \<^verbatim>\<open>std::unique_ptr\<close> to a modern handle in its member \<^verbatim>\<open>target_\<close>
  (the fields \<open>sq_target\<close>, \<open>ra_target\<close>, \<open>wf_target\<close>, \<open>rw_target\<close> and \<open>dir_target\<close>
  here): \<open>None\<close> is the null pointer.  The constructor takes the caller's
  \<^verbatim>\<open>std::unique_ptr\<close> by reference and moves from it; it returns the wrapper and the
  caller's pointer after the move.  A method that dereferences a null \<^verbatim>\<open>target_\<close> has no
  defined behaviour; the model returns \<open>None\<close> there.  A method that can change the
  handle returns the wrapper holding the handle in its new state.  The parameters
  \<^verbatim>\<open>size\<close>, \<^verbatim>\<open>length\<close> and \<^verbatim>\<open>id\<close> are primed.
\<close>

subsection \<open>The sequential-read wrapper\<close>

record 'h CompositeSequentialFileWrapper =
  sq_target :: "'h FSSequentialFile option"

definition new_CompositeSequentialFileWrapper ::
  "'h FSSequentialFile option \<Rightarrow> 'h CompositeSequentialFileWrapper \<times> 'h FSSequentialFile option" where
  "new_CompositeSequentialFileWrapper target = (\<lparr>sq_target = target\<rparr>, None)"

definition CompositeSequentialFileWrapper_Read ::
  "'h CompositeSequentialFileWrapper \<Rightarrow> nat \<Rightarrow> Slice \<Rightarrow> ptr
     \<Rightarrow> (Status \<times> Slice \<times> 'h CompositeSequentialFileWrapper) option" where
  "CompositeSequentialFileWrapper_Read w n result scratch =
     (case sq_target w of
        None \<Rightarrow> None
      | Some t \<Rightarrow>
          (let io_opts = IOOptions_default;
               dbg = IODebugContext_default
           in case sq_Read t n io_opts result scratch dbg (sq_state t) of
                (status, result, dbg, s) \<Rightarrow>
                  Some (status, result, w\<lparr>sq_target := Some (t\<lparr>sq_state := s\<rparr>)\<rparr>)))"

definition CompositeSequentialFileWrapper_Skip ::
  "'h CompositeSequentialFileWrapper \<Rightarrow> nat
     \<Rightarrow> (Status \<times> 'h CompositeSequentialFileWrapper) option" where
  "CompositeSequentialFileWrapper_Skip w n =
     (case sq_target w of
        None \<Rightarrow> None
      | Some t \<Rightarrow>
          (case sq_Skip t n (sq_state t) of
             (status, s) \<Rightarrow> Some (status, w\<lparr>sq_target := Some (t\<lparr>sq_state := s\<rparr>)\<rparr>)))"

definition CompositeSequentialFileWrapper_use_direct_io ::
  "'h CompositeSequentialFileWrapper
     \<Rightarrow> bool option" where
  "CompositeSequentialFileWrapper_use_direct_io w =
     (case sq_target w of
        None \<Rightarrow> None
      | Some t \<Rightarrow>
          Some (sq_use_direct_io t (sq_state t)))"

definition CompositeSequentialFileWrapper_GetRequiredBufferAlignment ::
  "'h CompositeSequentialFileWrapper
     \<Rightarrow> nat option" where
  "CompositeSequentialFileWrapper_GetRequiredBufferAlignment w =
     (case sq_target w of
        None \<Rightarrow> None
      | Some t \<Rightarrow>
          Some (sq_GetRequiredBufferAlignment t (sq_state t)))"

definition CompositeSequentialFileWrapper_InvalidateCache ::
  "'h CompositeSequentialFileWrapper \<Rightarrow> nat \<Rightarrow> nat
     \<Rightarrow> (Status \<times> 'h CompositeSequentialFileWrapper) option" where
  "CompositeSequentialFileWrapper_InvalidateCache w offset length' =
     (case sq_target w of
        None \<Rightarrow> None
      | Some t \<Rightarrow>
          (case sq_InvalidateCache t offset length' (sq_state t) of
             (status, s) \<Rightarrow> Some (status, w\<lparr>sq_target := Some (t\<lparr>sq_state := s\<rparr>)\<rparr>)))"

definition CompositeSequentialFileWrapper_PositionedRead ::
  "'h CompositeSequentialFileWrapper \<Rightarrow> nat \<Rightarrow> nat \<Rightarrow> Slice \<Rightarrow> ptr
     \<Rightarrow> (Status \<times> Slice \<times> 'h CompositeSequentialFileWrapper) option" where
  "CompositeSequentialFileWrapper_PositionedRead w offset n result scratch =
     (case sq_target w of
        None \<Rightarrow> None
      | Some t \<Rightarrow>
          (let io_opts = IOOptions_default;
               dbg = IODebugContext_default
           in case sq_PositionedRead t offset n io_opts result scratch dbg (sq_state t) of
                (status, result, dbg, s) \<Rightarrow>
                  Some (status, result, w\<lparr>sq_target := Some (t\<lparr>sq_state := s\<rparr>)\<rparr>)))"

subsection \<open>The random-access wrapper\<close>

record 'h CompositeRandomAccessFileWrapper =
  ra_target :: "'h FSRandomAccessFile option"

definition new_CompositeRandomAccessFileWrapper ::
  "'h FSRandomAccessFile option \<Rightarrow> 'h CompositeRandomAccessFileWrapper \<times> 'h FSRandomAccessFile option" where
  "new_CompositeRandomAccessFileWrapper target = (\<lparr>ra_target = target\<rparr>, None)"

definition CompositeRandomAccessFileWrapper_Read ::
  "'h CompositeRandomAccessFileWrapper \<Rightarrow> nat \<Rightarrow> nat \<Rightarrow> Slice \<Rightarrow> ptr
     \<Rightarrow> (Status \<times> Slice) option" where
  "CompositeRandomAccessFileWrapper_Read w offset n result scratch =
     (case ra_target w of
        None \<Rightarrow> None
      | Some t \<Rightarrow>
          (let io_opts = IOOptions_default;
               dbg = IODebugContext_default
           in case ra_Read t offset n io_opts result scratch dbg (ra_state t) of
                (status, result, dbg) \<Rightarrow> Some (status, result)))"

text \<open>
  The two loops of \<^verbatim>\<open>MultiRead\<close>, from index \<open>i\<close> up to \<open>num_reqs\<close>.
\<close>

function MultiRead_copy_in ::
  "ReadRequest list \<Rightarrow> nat \<Rightarrow> nat \<Rightarrow> FSReadRequest list \<Rightarrow> FSReadRequest list" where
  "MultiRead_copy_in reqs num_reqs i fs_reqs =
     (if i < num_reqs
      then MultiRead_copy_in reqs num_reqs (Suc i)
             (fs_reqs[i := (fs_reqs ! i)
                \<lparr>fsreq_offset := req_offset (reqs ! i),
                 fsreq_len := req_len (reqs ! i),
                 fsreq_scratch := req_scratch (reqs ! i),
                 fsreq_status := Status_OK\<rparr>])
      else fs_reqs)"
  by pat_completeness auto
termination
  by (relation "measure (\<lambda>(reqs, num_reqs, i, fs_reqs). num_reqs - i)") auto

function MultiRead_copy_out ::
  "FSReadRequest list \<Rightarrow> nat \<Rightarrow> nat \<Rightarrow> ReadRequest list \<Rightarrow> ReadRequest list" where
  "MultiRead_copy_out fs_reqs num_reqs i reqs =
     (if i < num_reqs
      then MultiRead_copy_out fs_reqs num_reqs (Suc i)
             (reqs[i := (reqs ! i)
                \<lparr>req_result := fsreq_result (fs_reqs ! i),
                 req_status := fsreq_status (fs_reqs ! i)\<rparr>])
      else reqs)"
  by pat_completeness auto
termination
  by (relation "measure (\<lambda>(fs_reqs, num_reqs, i, reqs). num_reqs - i)") auto

text \<open>
  \<^verbatim>\<open>MultiRead(ReadRequest* reqs, size_t num_reqs)\<close>: the caller's array is a list and
  the count is passed beside it.  Reading \<^verbatim>\<open>reqs[i]\<close> past the end of the caller's
  array has no defined behaviour; the model returns \<open>None\<close> when the count exceeds the
  array.
\<close>

definition CompositeRandomAccessFileWrapper_MultiRead ::
  "'h CompositeRandomAccessFileWrapper \<Rightarrow> ReadRequest list \<Rightarrow> nat
     \<Rightarrow> (Status \<times> ReadRequest list \<times> 'h CompositeRandomAccessFileWrapper) option" where
  "CompositeRandomAccessFileWrapper_MultiRead w reqs num_reqs =
     (case ra_target w of
        None \<Rightarrow> None
      | Some t \<Rightarrow>
          if length reqs < num_reqs then None
          else
            (let io_opts = IOOptions_default;
                 dbg = IODebugContext_default;
                 fs_reqs = replicate num_reqs FSReadRequest_default;
                 fs_reqs = MultiRead_copy_in reqs num_reqs 0 fs_reqs
             in case ra_MultiRead t fs_reqs num_reqs io_opts dbg (ra_state t) of
                  (status, fs_reqs, dbg, s) \<Rightarrow>
                    Some (status,
                          MultiRead_copy_out fs_reqs num_reqs 0 reqs,
                          w\<lparr>ra_target := Some (t\<lparr>ra_state := s\<rparr>)\<rparr>)))"

definition CompositeRandomAccessFileWrapper_Prefetch ::
  "'h CompositeRandomAccessFileWrapper \<Rightarrow> nat \<Rightarrow> nat
     \<Rightarrow> (Status \<times> 'h CompositeRandomAccessFileWrapper) option" where
  "CompositeRandomAccessFileWrapper_Prefetch w offset n =
     (case ra_target w of
        None \<Rightarrow> None
      | Some t \<Rightarrow>
          (let io_opts = IOOptions_default;
               dbg = IODebugContext_default
           in case ra_Prefetch t offset n io_opts dbg (ra_state t) of
                (status, dbg, s) \<Rightarrow> Some (status, w\<lparr>ra_target := Some (t\<lparr>ra_state := s\<rparr>)\<rparr>)))"

definition CompositeRandomAccessFileWrapper_GetUniqueId ::
  "'h CompositeRandomAccessFileWrapper \<Rightarrow> ptr \<Rightarrow> nat
     \<Rightarrow> nat option" where
  "CompositeRandomAccessFileWrapper_GetUniqueId w id' max_size =
     (case ra_target w of
        None \<Rightarrow> None
      | Some t \<Rightarrow>
          Some (ra_GetUniqueId t id' max_size (ra_state t)))"

definition CompositeRandomAccessFileWrapper_Hint ::
  "'h CompositeRandomAccessFileWrapper \<Rightarrow> AccessPattern
     \<Rightarrow> 'h CompositeRandomAccessFileWrapper option" where
  "CompositeRandomAccessFileWrapper_Hint w pattern =
     (case ra_target w of
        None \<Rightarrow> None
      | Some t \<Rightarrow>
          (let s = ra_Hint t pattern (ra_state t)
           in Some (w\<lparr>ra_target := Some (t\<lparr>ra_state := s\<rparr>)\<rparr>)))"

definition CompositeRandomAccessFileWrapper_use_direct_io ::
  "'h CompositeRandomAccessFileWrapper
     \<Rightarrow> bool option" where
  "CompositeRandomAccessFileWrapper_use_direct_io w =
     (case ra_target w of
        None \<Rightarrow> None
      | Some t \<Rightarrow>
          Some (ra_use_direct_io t (ra_state t)))"

definition CompositeRandomAccessFileWrapper_GetRequiredBufferAlignment ::
  "'h CompositeRandomAccessFileWrapper
     \<Rightarrow> nat option" where
  "CompositeRandomAccessFileWrapper_GetRequiredBufferAlignment w =
     (case ra_target w of
        None \<Rightarrow> None
      | Some t \<Rightarrow>
          Some (ra_GetRequiredBufferAlignment t (ra_state t)))"

definition CompositeRandomAccessFileWrapper_InvalidateCache ::
  "'h CompositeRandomAccessFileWrapper \<Rightarrow> nat \<Rightarrow> nat
     \<Rightarrow> (Status \<times> 'h CompositeRandomAccessFileWrapper) option" where
  "CompositeRandomAccessFileWrapper_InvalidateCache w offset length' =
     (case ra_target w of
        None \<Rightarrow> None
      | Some t \<Rightarrow>
          (case ra_InvalidateCache t offset length' (ra_state t) of
             (status, s) \<Rightarrow> Some (status, w\<lparr>ra_target := Some (t\<lparr>ra_state := s\<rparr>)\<rparr>)))"

subsection \<open>The writable-file wrapper\<close>

text \<open>
  The two overloads of \<^verbatim>\<open>Append\<close> and of \<^verbatim>\<open>PositionedAppend\<close> that take a
  \<^verbatim>\<open>DataVerificationInfo\<close> carry the suffix \<open>_verified\<close>, in the wrapper and in the
  modern interface.
\<close>

record 'h CompositeWritableFileWrapper =
  wf_target :: "'h FSWritableFile option"

definition new_CompositeWritableFileWrapper ::
  "'h FSWritableFile option \<Rightarrow> 'h CompositeWritableFileWrapper \<times> 'h FSWritableFile option" where
  "new_CompositeWritableFileWrapper target = (\<lparr>wf_target = target\<rparr>, None)"

definition CompositeWritableFileWrapper_Append ::
  "'h CompositeWritableFileWrapper \<Rightarrow> Slice
     \<Rightarrow> (Status \<times> 'h CompositeWritableFileWrapper) option" where
  "CompositeWritableFileWrapper_Append w data =
     (case wf_target w of
        None \<Rightarrow> None
      | Some t \<Rightarrow>
          (let io_opts = IOOptions_default;
               dbg = IODebugContext_default
           in case wf_Append t data io_opts dbg (wf_state t) of
                (status, dbg, s) \<Rightarrow> Some (status, w\<lparr>wf_target := Some (t\<lparr>wf_state := s\<rparr>)\<rparr>)))"

definition CompositeWritableFileWrapper_Append_verified ::
  "'h CompositeWritableFileWrapper \<Rightarrow> Slice \<Rightarrow> DataVerificationInfo
     \<Rightarrow> (Status \<times> 'h CompositeWritableFileWrapper) option" where
  "CompositeWritableFileWrapper_Append_verified w data verification_info =
     (case wf_target w of
        None \<Rightarrow> None
      | Some t \<Rightarrow>
          (let io_opts = IOOptions_default;
               dbg = IODebugContext_default
           in case wf_Append_verified t data io_opts verification_info dbg (wf_state t) of
                (status, dbg, s) \<Rightarrow> Some (status, w\<lparr>wf_target := Some (t\<lparr>wf_state := s\<rparr>)\<rparr>)))"

definition CompositeWritableFileWrapper_PositionedAppend ::
  "'h CompositeWritableFileWrapper \<Rightarrow> Slice \<Rightarrow> nat
     \<Rightarrow> (Status \<times> 'h CompositeWritableFileWrapper) option" where
  "CompositeWritableFileWrapper_PositionedAppend w data offset =
     (case wf_target w of
        None \<Rightarrow> None
      | Some t \<Rightarrow>
          (let io_opts = IOOptions_default;
               dbg = IODebugContext_default
           in case wf_PositionedAppend t data offset io_opts dbg (wf_state t) of
                (status, dbg, s) \<Rightarrow> Some (status, w\<lparr>wf_target := Some (t\<lparr>wf_state := s\<rparr>)\<rparr>)))"

definition CompositeWritableFileWrapper_PositionedAppend_verified ::
  "'h CompositeWritableFileWrapper \<Rightarrow> Slice \<Rightarrow> nat \<Rightarrow> DataVerificationInfo
     \<Rightarrow> (Status \<times> 'h CompositeWritableFileWrapper) option" where
  "CompositeWritableFileWrapper_PositionedAppend_verified w data offset verification_info =
     (case wf_target w of
        None \<Rightarrow> None
      | Some t \<Rightarrow>
          (let io_opts = IOOptions_default;
               dbg = IODebugContext_default
           in case wf_PositionedAppend_verified t data offset io_opts verification_info dbg (wf_state t) of
                (status, dbg, s) \<Rightarrow> Some (status, w\<lparr>wf_target := Some (t\<lparr>wf_state := s\<rparr>)\<rparr>)))"

definition CompositeWritableFileWrapper_Truncate ::
  "'h CompositeWritableFileWrapper \<Rightarrow> nat
     \<Rightarrow> (Status \<times> 'h CompositeWritableFileWrapper) option" where
  "CompositeWritableFileWrapper_Truncate w size' =
     (case wf_target w of
        None \<Rightarrow> None
      | Some t \<Rightarrow>
          (let io_opts = IOOptions_default;
               dbg = IODebugContext_default
           in case wf_Truncate t size' io_opts dbg (wf_state t) of
                (status, dbg, s) \<Rightarrow> Some (status, w\<lparr>wf_target := Some (t\<lparr>wf_state := s\<rparr>)\<rparr>)))"

definition CompositeWritableFileWrapper_Close ::
  "'h CompositeWritableFileWrapper
     \<Rightarrow> (Status \<times> 'h CompositeWritableFileWrapper) option" where
  "CompositeWritableFileWrapper_Close w =
     (case wf_target w of
        None \<Rightarrow> None
      | Some t \<Rightarrow>
          (let io_opts = IOOptions_default;
               dbg = IODebugContext_default
           in case wf_Close t io_opts dbg (wf_state t) of
                (status, dbg, s) \<Rightarrow> Some (status, w\<lparr>wf_target := Some (t\<lparr>wf_state := s\<rparr>)\<rparr>)))"

definition CompositeWritableFileWrapper_Flush ::
  "'h CompositeWritableFileWrapper
     \<Rightarrow> (Status \<times> 'h CompositeWritableFileWrapper) option" where
  "CompositeWritableFileWrapper_Flush w =
     (case wf_target w of
        None \<Rightarrow> None
      | Some t \<Rightarrow>
          (let io_opts = IOOptions_default;
               dbg = IODebugContext_default
           in case wf_Flush t io_opts dbg (wf_state t) of
                (status, dbg, s) \<Rightarrow> Some (status, w\<lparr>wf_target := Some (t\<lparr>wf_state := s\<rparr>)\<rparr>)))"

definition CompositeWritableFileWrapper_Sync ::
  "'h CompositeWritableFileWrapper
     \<Rightarrow> (Status \<times> 'h CompositeWritableFileWrapper) option" where
  "CompositeWritableFileWrapper_Sync w =
     (case wf_target w of
        None \<Rightarrow> None
      | Some t \<Rightarrow>
          (let io_opts = IOOptions_default;
               dbg = IODebugContext_default
           in case wf_Sync t io_opts dbg (wf_state t) of
                (status, dbg, s) \<Rightarrow> Some (status, w\<lparr>wf_target := Some (t\<lparr>wf_state := s\<rparr>)\<rparr>)))"

definition CompositeWritableFileWrapper_Fsync ::
  "'h CompositeWritableFileWrapper
     \<Rightarrow> (Status \<times> 'h CompositeWritableFileWrapper) option" where
  "CompositeWritableFileWrapper_Fsync w =
     (case wf_target w of
        None \<Rightarrow> None
      | Some t \<Rightarrow>
          (let io_opts = IOOptions_default;
               dbg = IODebugContext_default
           in case wf_Fsync t io_opts dbg (wf_state t) of
                (status, dbg, s) \<Rightarrow> Some (status, w\<lparr>wf_target := Some (t\<lparr>wf_state := s\<rparr>)\<rparr>)))"

definition CompositeWritableFileWrapper_IsSyncThreadSafe ::
  "'h CompositeWritableFileWrapper
     \<Rightarrow> bool option" where
  "CompositeWritableFileWrapper_IsSyncThreadSafe w =
     (case wf_target w of
        None \<Rightarrow> None
      | Some t \<Rightarrow>
          Some (wf_IsSyncThreadSafe t (wf_state t)))"

definition CompositeWritableFileWrapper_use_direct_io ::
  "'h CompositeWritableFileWrapper
     \<Rightarrow> bool option" where
  "CompositeWritableFileWrapper_use_direct_io w =
     (case wf_target w of
        None \<Rightarrow> None
      | Some t \<Rightarrow>
          Some (wf_use_direct_io t (wf_state t)))"

definition CompositeWritableFileWrapper_GetRequiredBufferAlignment ::
  "'h CompositeWritableFileWrapper
     \<Rightarrow> nat option" where
  "CompositeWritableFileWrapper_GetRequiredBufferAlignment w =
     (case wf_target w of
        None \<Rightarrow> None
      | Some t \<Rightarrow>
          Some (wf_GetRequiredBufferAlignment t (wf_state t)))"

definition CompositeWritableFileWrapper_SetWriteLifeTimeHint ::
  "'h CompositeWritableFileWrapper \<Rightarrow> WriteLifeTimeHint
     \<Rightarrow> 'h CompositeWritableFileWrapper option" where
  "CompositeWritableFileWrapper_SetWriteLifeTimeHint w hint =
     (case wf_target w of
        None \<Rightarrow> None
      | Some t \<Rightarrow>
          (let s = wf_SetWriteLifeTimeHint t hint (wf_state t)
           in Some (w\<lparr>wf_target := Some (t\<lparr>wf_state := s\<rparr>)\<rparr>)))"

definition CompositeWritableFileWrapper_GetWriteLifeTimeHint ::
  "'h CompositeWritableFileWrapper
     \<Rightarrow> (WriteLifeTimeHint \<times> 'h CompositeWritableFileWrapper) option" where
  "CompositeWritableFileWrapper_GetWriteLifeTimeHint w =
     (case wf_target w of
        None \<Rightarrow> None
      | Some t \<Rightarrow>
          (case wf_GetWriteLifeTimeHint t (wf_state t) of
             (hint, s) \<Rightarrow> Some (hint, w\<lparr>wf_target := Some (t\<lparr>wf_state := s\<rparr>)\<rparr>)))"

definition CompositeWritableFileWrapper_GetFileSize ::
  "'h CompositeWritableFileWrapper
     \<Rightarrow> (nat \<times> 'h CompositeWritableFileWrapper) option" where
  "CompositeWritableFileWrapper_GetFileSize w =
     (case wf_target w of
        None \<Rightarrow> None
      | Some t \<Rightarrow>
          (let io_opts = IOOptions_default;
               dbg = IODebugContext_default
           in case wf_GetFileSize t io_opts dbg (wf_state t) of
                (file_size, dbg, s) \<Rightarrow> Some (file_size, w\<lparr>wf_target := Some (t\<lparr>wf_state := s\<rparr>)\<rparr>)))"

definition CompositeWritableFileWrapper_SetPreallocationBlockSize ::
  "'h CompositeWritableFileWrapper \<Rightarrow> nat
     \<Rightarrow> 'h CompositeWritableFileWrapper option" where
  "CompositeWritableFileWrapper_SetPreallocationBlockSize w size' =
     (case wf_target w of
        None \<Rightarrow> None
      | Some t \<Rightarrow>
          (let s = wf_SetPreallocationBlockSize t size' (wf_state t)
           in Some (w\<lparr>wf_target := Some (t\<lparr>wf_state := s\<rparr>)\<rparr>)))"

definition CompositeWritableFileWrapper_GetPreallocationStatus ::
  "'h CompositeWritableFileWrapper \<Rightarrow> nat \<Rightarrow> nat
     \<Rightarrow> (nat \<times> nat \<times> 'h CompositeWritableFileWrapper) option" where
  "CompositeWritableFileWrapper_GetPreallocationStatus w block_size last_allocated_block =
     (case wf_target w of
        None \<Rightarrow> None
      | Some t \<Rightarrow>
          (case wf_GetPreallocationStatus t block_size last_allocated_block (wf_state t) of
             (block_size, last_allocated_block, s) \<Rightarrow>
               Some (block_size, last_allocated_block, w\<lparr>wf_target := Some (t\<lparr>wf_state := s\<rparr>)\<rparr>)))"

definition CompositeWritableFileWrapper_GetUniqueId ::
  "'h CompositeWritableFileWrapper \<Rightarrow> ptr \<Rightarrow> nat
     \<Rightarrow> nat option" where
  "CompositeWritableFileWrapper_GetUniqueId w id' max_size =
     (case wf_target w of
        None \<Rightarrow> None
      | Some t \<Rightarrow>
          Some (wf_GetUniqueId t id' max_size (wf_state t)))"

definition CompositeWritableFileWrapper_InvalidateCache ::
  "'h CompositeWritableFileWrapper \<Rightarrow> nat \<Rightarrow> nat
     \<Rightarrow> (Status \<times> 'h CompositeWritableFileWrapper) option" where
  "CompositeWritableFileWrapper_InvalidateCache w offset length' =
     (case wf_target w of
        None \<Rightarrow> None
      | Some t \<Rightarrow>
          (case wf_InvalidateCache t offset length' (wf_state t) of
             (status, s) \<Rightarrow> Some (status, w\<lparr>wf_target := Some (t\<lparr>wf_state := s\<rparr>)\<rparr>)))"

definition CompositeWritableFileWrapper_RangeSync ::
  "'h CompositeWritableFileWrapper \<Rightarrow> nat \<Rightarrow> nat
     \<Rightarrow> (Status \<times> 'h CompositeWritableFileWrapper) option" where
  "CompositeWritableFileWrapper_RangeSync w offset nbytes =
     (case wf_target w of
        None \<Rightarrow> None
      | Some t \<Rightarrow>
          (let io_opts = IOOptions_default;
               dbg = IODebugContext_default
           in case wf_RangeSync t offset nbytes io_opts dbg (wf_state t) of
                (status, dbg, s) \<Rightarrow> Some (status, w\<lparr>wf_target := Some (t\<lparr>wf_state := s\<rparr>)\<rparr>)))"

definition CompositeWritableFileWrapper_PrepareWrite ::
  "'h CompositeWritableFileWrapper \<Rightarrow> nat \<Rightarrow> nat
     \<Rightarrow> 'h CompositeWritableFileWrapper option" where
  "CompositeWritableFileWrapper_PrepareWrite w offset len =
     (case wf_target w of
        None \<Rightarrow> None
      | Some t \<Rightarrow>
          (let io_opts = IOOptions_default;
               dbg = IODebugContext_default
           in case wf_PrepareWrite t offset len io_opts dbg (wf_state t) of
                (dbg, s) \<Rightarrow> Some (w\<lparr>wf_target := Some (t\<lparr>wf_state := s\<rparr>)\<rparr>)))"

definition CompositeWritableFileWrapper_Allocate ::
  "'h CompositeWritableFileWrapper \<Rightarrow> nat \<Rightarrow> nat
     \<Rightarrow> (Status \<times> 'h CompositeWritableFileWrapper) option" where
  "CompositeWritableFileWrapper_Allocate w offset len =
     (case wf_target w of
        None \<Rightarrow> None
      | Some t \<Rightarrow>
          (let io_opts = IOOptions_default;
               dbg = IODebugContext_default
           in case wf_Allocate t offset len io_opts dbg (wf_state t) of
                (status, dbg, s) \<Rightarrow> Some (status, w\<lparr>wf_target := Some (t\<lparr>wf_state := s\<rparr>)\<rparr>)))"

text \<open>
  \<^verbatim>\<open>target()\<close> returns the address of the wrapper's own \<^verbatim>\<open>target_\<close>: the caller reaches the
  handle the wrapper holds, and the wrapper keeps holding it.
\<close>

definition CompositeWritableFileWrapper_target ::
  "'h CompositeWritableFileWrapper \<Rightarrow> 'h FSWritableFile option" where
  "CompositeWritableFileWrapper_target w = wf_target w"

subsection \<open>The random read/write wrapper\<close>

record 'h CompositeRandomRWFileWrapper =
  rw_target :: "'h FSRandomRWFile option"

definition new_CompositeRandomRWFileWrapper ::
  "'h FSRandomRWFile option \<Rightarrow> 'h CompositeRandomRWFileWrapper \<times> 'h FSRandomRWFile option" where
  "new_CompositeRandomRWFileWrapper target = (\<lparr>rw_target = target\<rparr>, None)"

definition CompositeRandomRWFileWrapper_use_direct_io ::
  "'h CompositeRandomRWFileWrapper
     \<Rightarrow> bool option" where
  "CompositeRandomRWFileWrapper_use_direct_io w =
     (case rw_target w of
        None \<Rightarrow> None
      | Some t \<Rightarrow>
          Some (rw_use_direct_io t (rw_state t)))"

definition CompositeRandomRWFileWrapper_GetRequiredBufferAlignment ::
  "'h CompositeRandomRWFileWrapper
     \<Rightarrow> nat option" where
  "CompositeRandomRWFileWrapper_GetRequiredBufferAlignment w =
     (case rw_target w of
        None \<Rightarrow> None
      | Some t \<Rightarrow>
          Some (rw_GetRequiredBufferAlignment t (rw_state t)))"

definition CompositeRandomRWFileWrapper_Write ::
  "'h CompositeRandomRWFileWrapper \<Rightarrow> nat \<Rightarrow> Slice
     \<Rightarrow> (Status \<times> 'h CompositeRandomRWFileWrapper) option" where
  "CompositeRandomRWFileWrapper_Write w offset data =
     (case rw_target w of
        None \<Rightarrow> None
      | Some t \<Rightarrow>
          (let io_opts = IOOptions_default;
               dbg = IODebugContext_default
           in case rw_Write t offset data io_opts dbg (rw_state t) of
                (status, dbg, s) \<Rightarrow> Some (status, w\<lparr>rw_target := Some (t\<lparr>rw_state := s\<rparr>)\<rparr>)))"

definition CompositeRandomRWFileWrapper_Read ::
  "'h CompositeRandomRWFileWrapper \<Rightarrow> nat \<Rightarrow> nat \<Rightarrow> Slice \<Rightarrow> ptr
     \<Rightarrow> (Status \<times> Slice) option" where
  "CompositeRandomRWFileWrapper_Read w offset n result scratch =
     (case rw_target w of
        None \<Rightarrow> None
      | Some t \<Rightarrow>
          (let io_opts = IOOptions_default;
               dbg = IODebugContext_default
           in case rw_Read t offset n io_opts result scratch dbg (rw_state t) of
                (status, result, dbg) \<Rightarrow> Some (status, result)))"

definition CompositeRandomRWFileWrapper_Flush ::
  "'h CompositeRandomRWFileWrapper
     \<Rightarrow> (Status \<times> 'h CompositeRandomRWFileWrapper) option" where
  "CompositeRandomRWFileWrapper_Flush w =
     (case rw_target w of
        None \<Rightarrow> None
      | Some t \<Rightarrow>
          (let io_opts = IOOptions_default;
               dbg = IODebugContext_default
           in case rw_Flush t io_opts dbg (rw_state t) of
                (status, dbg, s) \<Rightarrow> Some (status, w\<lparr>rw_target := Some (t\<lparr>rw_state := s\<rparr>)\<rparr>)))"

definition CompositeRandomRWFileWrapper_Sync ::
  "'h CompositeRandomRWFileWrapper
     \<Rightarrow> (Status \<times> 'h CompositeRandomRWFileWrapper) option" where
  "CompositeRandomRWFileWrapper_Sync w =
     (case rw_target w of
        None \<Rightarrow> None
      | Some t \<Rightarrow>
          (let io_opts = IOOptions_default;
               dbg = IODebugContext_default
           in case rw_Sync t io_opts dbg (rw_state t) of
                (status, dbg, s) \<Rightarrow> Some (status, w\<lparr>rw_target := Some (t\<lparr>rw_state := s\<rparr>)\<rparr>)))"

definition CompositeRandomRWFileWrapper_Fsync ::
  "'h CompositeRandomRWFileWrapper
     \<Rightarrow> (Status \<times> 'h CompositeRandomRWFileWrapper) option" where
  "CompositeRandomRWFileWrapper_Fsync w =
     (case rw_target w of
        None \<Rightarrow> None
      | Some t \<Rightarrow>
          (let io_opts = IOOptions_default;
               dbg = IODebugContext_default
           in case rw_Fsync t io_opts dbg (rw_state t) of
                (status, dbg, s) \<Rightarrow> Some (status, w\<lparr>rw_target := Some (t\<lparr>rw_state := s\<rparr>)\<rparr>)))"

definition CompositeRandomRWFileWrapper_Close ::
  "'h CompositeRandomRWFileWrapper
     \<Rightarrow> (Status \<times> 'h CompositeRandomRWFileWrapper) option" where
  "CompositeRandomRWFileWrapper_Close w =
     (case rw_target w of
        None \<Rightarrow> None
      | Some t \<Rightarrow>
          (let io_opts = IOOptions_default;
               dbg = IODebugContext_default
           in case rw_Close t io_opts dbg (rw_state t) of
                (status, dbg, s) \<Rightarrow> Some (status, w\<lparr>rw_target := Some (t\<lparr>rw_state := s\<rparr>)\<rparr>)))"

subsection \<open>The directory wrapper\<close>

record 'h CompositeDirectoryWrapper =
  dir_target :: "'h FSDirectory option"

definition new_CompositeDirectoryWrapper ::
  "'h FSDirectory option \<Rightarrow> 'h CompositeDirectoryWrapper \<times> 'h FSDirectory option" where
  "new_CompositeDirectoryWrapper target = (\<lparr>dir_target = target\<rparr>, None)"

definition CompositeDirectoryWrapper_Fsync ::
  "'h CompositeDirectoryWrapper
     \<Rightarrow> (Status \<times> 'h CompositeDirectoryWrapper) option" where
  "CompositeDirectoryWrapper_Fsync w =
     (case dir_target w of
        None \<Rightarrow> None
      | Some t \<Rightarrow>
          (let io_opts = IOOptions_default;
               dbg = IODebugContext_default
           in case dir_FsyncWithDirOptions t io_opts dbg DirFsyncOptions_default (dir_state t) of
                (status, dbg, s) \<Rightarrow> Some (status, w\<lparr>dir_target := Some (t\<lparr>dir_state := s\<rparr>)\<rparr>)))"

definition CompositeDirectoryWrapper_GetUniqueId ::
  "'h CompositeDirectoryWrapper \<Rightarrow> ptr \<Rightarrow> nat
     \<Rightarrow> nat option" where
  "CompositeDirectoryWrapper_GetUniqueId w id' max_size =
     (case dir_target w of
        None \<Rightarrow> None
      | Some t \<Rightarrow>
          Some (dir_GetUniqueId t id' max_size (dir_state t)))"

section \<open>The composite environment\<close>

text \<open>
  Modelled from the spec: the class \<^verbatim>\<open>FileSystem\<close> is declared in a header.  The storage
  backend is an object with its own state \<open>'fs\<close> and one creation operation for each
  handle kind; each takes the path (two for reuse), the options, the address of the
  \<^verbatim>\<open>std::unique_ptr\<close> that receives the handle, and the debug context, and returns a
  status.  The handle argument and the handle component of the result are that
  \<^verbatim>\<open>std::unique_ptr\<close> before and after the call.
\<close>

record ('eo, 'fs, 'h) FileSystem =
  fs_state :: 'fs
  fs_NewSequentialFile ::
    "string \<Rightarrow> 'eo FileOptions \<Rightarrow> 'h FSSequentialFile option \<Rightarrow> IODebugContext \<Rightarrow> 'fs
       \<Rightarrow> IOStatus \<times> 'h FSSequentialFile option \<times> IODebugContext \<times> 'fs"
  fs_NewRandomAccessFile ::
    "string \<Rightarrow> 'eo FileOptions \<Rightarrow> 'h FSRandomAccessFile option \<Rightarrow> IODebugContext \<Rightarrow> 'fs
       \<Rightarrow> IOStatus \<times> 'h FSRandomAccessFile option \<times> IODebugContext \<times> 'fs"
  fs_NewWritableFile ::
    "string \<Rightarrow> 'eo FileOptions \<Rightarrow> 'h FSWritableFile option \<Rightarrow> IODebugContext \<Rightarrow> 'fs
       \<Rightarrow> IOStatus \<times> 'h FSWritableFile option \<times> IODebugContext \<times> 'fs"
  fs_ReopenWritableFile ::
    "string \<Rightarrow> 'eo FileOptions \<Rightarrow> 'h FSWritableFile option \<Rightarrow> IODebugContext \<Rightarrow> 'fs
       \<Rightarrow> IOStatus \<times> 'h FSWritableFile option \<times> IODebugContext \<times> 'fs"
  fs_ReuseWritableFile ::
    "string \<Rightarrow> string \<Rightarrow> 'eo FileOptions \<Rightarrow> 'h FSWritableFile option \<Rightarrow> IODebugContext
       \<Rightarrow> 'fs \<Rightarrow> IOStatus \<times> 'h FSWritableFile option \<times> IODebugContext \<times> 'fs"
  fs_NewRandomRWFile ::
    "string \<Rightarrow> 'eo FileOptions \<Rightarrow> 'h FSRandomRWFile option \<Rightarrow> IODebugContext \<Rightarrow> 'fs
       \<Rightarrow> IOStatus \<times> 'h FSRandomRWFile option \<times> IODebugContext \<times> 'fs"
  fs_NewDirectory ::
    "string \<Rightarrow> IOOptions \<Rightarrow> 'h FSDirectory option \<Rightarrow> IODebugContext \<Rightarrow> 'fs
       \<Rightarrow> IOStatus \<times> 'h FSDirectory option \<times> IODebugContext \<times> 'fs"

text \<open>
  \<^verbatim>\<open>CompositeEnv\<close> holds the backend in its member \<^verbatim>\<open>file_system_\<close> (the field
  \<open>file_system\<close> here), a shared pointer: \<open>None\<close> is the null pointer, and a creation
  operation on it has no defined behaviour (\<open>None\<close>).  Each operation takes the
  caller's output handle \<open>r\<close> and returns the returned status, the output handle
  after the call, and the environment with the backend's new state.
\<close>

record ('eo, 'fs, 'h) CompositeEnv =
  file_system :: "('eo, 'fs, 'h) FileSystem option"

definition CompositeEnv_NewSequentialFile ::
  "('eo, 'fs, 'h) CompositeEnv \<Rightarrow> string \<Rightarrow> 'h CompositeSequentialFileWrapper option \<Rightarrow> 'eo
     \<Rightarrow> (Status \<times> 'h CompositeSequentialFileWrapper option \<times> ('eo, 'fs, 'h) CompositeEnv) option" where
  "CompositeEnv_NewSequentialFile env f r options =
     (case file_system env of
        None \<Rightarrow> None
      | Some fs \<Rightarrow>
          (let dbg = IODebugContext_default;
               file = None
           in case fs_NewSequentialFile fs f (FileOptions options) file dbg (fs_state fs) of
                (status, file, dbg, s) \<Rightarrow>
                  (let env = env\<lparr>file_system := Some (fs\<lparr>fs_state := s\<rparr>)\<rparr>
                   in if ok status
                      then (case new_CompositeSequentialFileWrapper file of
                              (w, file) \<Rightarrow> Some (status, Some w, env))
                      else Some (status, r, env))))"

definition CompositeEnv_NewRandomAccessFile ::
  "('eo, 'fs, 'h) CompositeEnv \<Rightarrow> string \<Rightarrow> 'h CompositeRandomAccessFileWrapper option \<Rightarrow> 'eo
     \<Rightarrow> (Status \<times> 'h CompositeRandomAccessFileWrapper option \<times> ('eo, 'fs, 'h) CompositeEnv) option" where
  "CompositeEnv_NewRandomAccessFile env f r options =
     (case file_system env of
        None \<Rightarrow> None
      | Some fs \<Rightarrow>
          (let dbg = IODebugContext_default;
               file = None
           in case fs_NewRandomAccessFile fs f (FileOptions options) file dbg (fs_state fs) of
                (status, file, dbg, s) \<Rightarrow>
                  (let env = env\<lparr>file_system := Some (fs\<lparr>fs_state := s\<rparr>)\<rparr>
                   in if ok status
                      then (case new_CompositeRandomAccessFileWrapper file of
                              (w, file) \<Rightarrow> Some (status, Some w, env))
                      else Some (status, r, env))))"

definition CompositeEnv_NewWritableFile ::
  "('eo, 'fs, 'h) CompositeEnv \<Rightarrow> string \<Rightarrow> 'h CompositeWritableFileWrapper option \<Rightarrow> 'eo
     \<Rightarrow> (Status \<times> 'h CompositeWritableFileWrapper option \<times> ('eo, 'fs, 'h) CompositeEnv) option" where
  "CompositeEnv_NewWritableFile env f r options =
     (case file_system env of
        None \<Rightarrow> None
      | Some fs \<Rightarrow>
          (let dbg = IODebugContext_default;
               file = None
           in case fs_NewWritableFile fs f (FileOptions options) file dbg (fs_state fs) of
                (status, file, dbg, s) \<Rightarrow>
                  (let env = env\<lparr>file_system := Some (fs\<lparr>fs_state := s\<rparr>)\<rparr>
                   in if ok status
                      then (case new_CompositeWritableFileWrapper file of
                              (w, file) \<Rightarrow> Some (status, Some w, env))
                      else Some (status, r, env))))"

definition CompositeEnv_ReopenWritableFile ::
  "('eo, 'fs, 'h) CompositeEnv \<Rightarrow> string \<Rightarrow> 'h CompositeWritableFileWrapper option \<Rightarrow> 'eo
     \<Rightarrow> (Status \<times> 'h CompositeWritableFileWrapper option \<times> ('eo, 'fs, 'h) CompositeEnv) option" where
  "CompositeEnv_ReopenWritableFile env fname result options =
     (case file_system env of
        None \<Rightarrow> None
      | Some fs \<Rightarrow>
          (let dbg = IODebugContext_default;
               file = None
           in case fs_ReopenWritableFile fs fname (FileOptions options) file dbg (fs_state fs) of
                (status, file, dbg, s) \<Rightarrow>
                  (let env = env\<lparr>file_system := Some (fs\<lparr>fs_state := s\<rparr>)\<rparr>
                   in if ok status
                      then (case new_CompositeWritableFileWrapper file of
                              (w, file) \<Rightarrow> Some (status, Some w, env))
                      else Some (status, result, env))))"

definition CompositeEnv_ReuseWritableFile ::
  "('eo, 'fs, 'h) CompositeEnv \<Rightarrow> string \<Rightarrow> string \<Rightarrow> 'h CompositeWritableFileWrapper option \<Rightarrow> 'eo
     \<Rightarrow> (Status \<times> 'h CompositeWritableFileWrapper option \<times> ('eo, 'fs, 'h) CompositeEnv) option" where
  "CompositeEnv_ReuseWritableFile env fname old_fname r options =
     (case file_system env of
        None \<Rightarrow> None
      | Some fs \<Rightarrow>
          (let dbg = IODebugContext_default;
               file = None
           in case fs_ReuseWritableFile fs fname old_fname (FileOptions options) file dbg (fs_state fs) of
                (status, file, dbg, s) \<Rightarrow>
                  (let env = env\<lparr>file_system := Some (fs\<lparr>fs_state := s\<rparr>)\<rparr>
                   in if ok status
                      then (case new_CompositeWritableFileWrapper file of
                              (w, file) \<Rightarrow> Some (status, Some w, env))
                      else Some (status, r, env))))"

definition CompositeEnv_NewRandomRWFile ::
  "('eo, 'fs, 'h) CompositeEnv \<Rightarrow> string \<Rightarrow> 'h CompositeRandomRWFileWrapper option \<Rightarrow> 'eo
     \<Rightarrow> (Status \<times> 'h CompositeRandomRWFileWrapper option \<times> ('eo, 'fs, 'h) CompositeEnv) option" where
  "CompositeEnv_NewRandomRWFile env fname result options =
     (case file_system env of
        None \<Rightarrow> None
      | Some fs \<Rightarrow>
          (let dbg = IODebugContext_default;
               file = None
           in case fs_NewRandomRWFile fs fname (FileOptions options) file dbg (fs_state fs) of
                (status, file, dbg, s) \<Rightarrow>
                  (let env = env\<lparr>file_system := Some (fs\<lparr>fs_state := s\<rparr>)\<rparr>
                   in if ok status
                      then (case new_CompositeRandomRWFileWrapper file of
                              (w, file) \<Rightarrow> Some (status, Some w, env))
                      else Some (status, result, env))))"

definition CompositeEnv_NewDirectory ::
  "('eo, 'fs, 'h) CompositeEnv \<Rightarrow> string \<Rightarrow> 'h CompositeDirectoryWrapper option
     \<Rightarrow> (Status \<times> 'h CompositeDirectoryWrapper option \<times> ('eo, 'fs, 'h) CompositeEnv) option" where
  "CompositeEnv_NewDirectory env name result =
     (case file_system env of
        None \<Rightarrow> None
      | Some fs \<Rightarrow>
          (let io_opts = IOOptions_default;
               dbg = IODebugContext_default;
               dir = None
           in case fs_NewDirectory fs name io_opts dir dbg (fs_state fs) of
                (status, dir, dbg, s) \<Rightarrow>
                  (let env = env\<lparr>file_system := Some (fs\<lparr>fs_state := s\<rparr>)\<rparr>
                   in if ok status
                      then (case new_CompositeDirectoryWrapper dir of
                              (w, dir) \<Rightarrow> Some (status, Some w, env))
                      else Some (status, result, env))))"
section \<open>Recording test backends\<close>

text \<open>
  The test backend of the spec's testable properties: every handle records the
  modern calls it receives, with their arguments, in its state.  A query cannot
  record and answers with a constant.  The file behind every handle holds the ten
  bytes \<open>0123456789\<close>.
\<close>

datatype Arg =
    A_num nat
  | A_bytes Slice
  | A_io IOOptions
  | A_dbg IODebugContext
  | A_verification DataVerificationInfo
  | A_dirfsync DirFsyncOptions
  | A_reqs "FSReadRequest list"

type_synonym Call = "string \<times> Arg list"

definition recorded_content :: Slice where
  "recorded_content = ''0123456789''"

definition recording_FSSequentialFile :: "Call list FSSequentialFile" where
  "recording_FSSequentialFile =
     \<lparr>sq_state = [],
      sq_Read = (\<lambda>n io result scratch dbg s.
        (Status_OK, take n recorded_content, dbg,
         s @ [(''Read'', [A_num n, A_io io, A_num scratch, A_dbg dbg])])),
      sq_Skip = (\<lambda>n s. (Status_OK, s @ [(''Skip'', [A_num n])])),
      sq_use_direct_io = (\<lambda>s. False),
      sq_GetRequiredBufferAlignment = (\<lambda>s. 4096),
      sq_InvalidateCache = (\<lambda>offset n s.
        (Status_OK, s @ [(''InvalidateCache'', [A_num offset, A_num n])])),
      sq_PositionedRead = (\<lambda>offset n io result scratch dbg s.
        (Status_OK, take n (drop offset recorded_content), dbg,
         s @ [(''PositionedRead'', [A_num offset, A_num n, A_io io, A_num scratch, A_dbg dbg])]))\<rparr>"

text \<open>
  The batched read of the test backend skips a request of length 0 (it leaves the
  element as it is), fails a request that starts past the end of the file, and
  serves every other one; the call as a whole fails when a request was skipped.
\<close>

definition recording_serve :: "FSReadRequest \<Rightarrow> FSReadRequest" where
  "recording_serve r =
     (if fsreq_len r = 0 then r
      else if length recorded_content \<le> fsreq_offset r
      then r\<lparr>fsreq_status := \<lparr>kind = kIOError, message = ''past end''\<rparr>\<rparr>
      else r\<lparr>fsreq_result := take (fsreq_len r) (drop (fsreq_offset r) recorded_content)\<rparr>)"

definition recording_FSRandomAccessFile :: "Call list FSRandomAccessFile" where
  "recording_FSRandomAccessFile =
     \<lparr>ra_state = [],
      ra_Read = (\<lambda>offset n io result scratch dbg s.
        (Status_OK, take n (drop offset recorded_content), dbg)),
      ra_MultiRead = (\<lambda>reqs n io dbg s.
        (if list_ex (\<lambda>r. fsreq_len r = 0) reqs
         then \<lparr>kind = kInvalidArgument, message = ''empty request''\<rparr>
         else Status_OK,
         map recording_serve reqs, dbg,
         s @ [(''MultiRead'', [A_reqs reqs, A_num n, A_io io, A_dbg dbg])])),
      ra_Prefetch = (\<lambda>offset n io dbg s.
        (Status_OK, dbg, s @ [(''Prefetch'', [A_num offset, A_num n, A_io io, A_dbg dbg])])),
      ra_GetUniqueId = (\<lambda>id' max_size s. 0),
      ra_Hint = (\<lambda>pattern s. s @ [(''Hint'', [A_num pattern])]),
      ra_use_direct_io = (\<lambda>s. False),
      ra_GetRequiredBufferAlignment = (\<lambda>s. 4096),
      ra_InvalidateCache = (\<lambda>offset n s.
        (Status_OK, s @ [(''InvalidateCache'', [A_num offset, A_num n])]))\<rparr>"

text \<open>
  The write-lifetime hint of the writable test handle is the one of the last
  recorded \<^verbatim>\<open>SetWriteLifeTimeHint\<close>, or 0; reading the hint is not recorded.
\<close>

fun recorded_hint :: "Call list \<Rightarrow> WriteLifeTimeHint \<Rightarrow> WriteLifeTimeHint" where
  "recorded_hint [] h = h"
| "recorded_hint ((name, args) # cs) h =
     recorded_hint cs
       (if name = ''SetWriteLifeTimeHint'' then (case args of [A_num n] \<Rightarrow> n | _ \<Rightarrow> h) else h)"

definition recording_FSWritableFile :: "Call list FSWritableFile" where
  "recording_FSWritableFile =
     \<lparr>wf_state = [],
      wf_Append = (\<lambda>data io dbg s.
        (Status_OK, dbg, s @ [(''Append'', [A_bytes data, A_io io, A_dbg dbg])])),
      wf_Append_verified = (\<lambda>data io v dbg s.
        (Status_OK, dbg,
         s @ [(''Append_verified'', [A_bytes data, A_io io, A_verification v, A_dbg dbg])])),
      wf_PositionedAppend = (\<lambda>data offset io dbg s.
        (Status_OK, dbg,
         s @ [(''PositionedAppend'', [A_bytes data, A_num offset, A_io io, A_dbg dbg])])),
      wf_PositionedAppend_verified = (\<lambda>data offset io v dbg s.
        (Status_OK, dbg,
         s @ [(''PositionedAppend_verified'',
                   [A_bytes data, A_num offset, A_io io, A_verification v, A_dbg dbg])])),
      wf_Truncate = (\<lambda>n io dbg s.
        (Status_OK, dbg, s @ [(''Truncate'', [A_num n, A_io io, A_dbg dbg])])),
      wf_Close = (\<lambda>io dbg s. (Status_OK, dbg, s @ [(''Close'', [A_io io, A_dbg dbg])])),
      wf_Flush = (\<lambda>io dbg s. (Status_OK, dbg, s @ [(''Flush'', [A_io io, A_dbg dbg])])),
      wf_Sync = (\<lambda>io dbg s. (Status_OK, dbg, s @ [(''Sync'', [A_io io, A_dbg dbg])])),
      wf_Fsync = (\<lambda>io dbg s. (Status_OK, dbg, s @ [(''Fsync'', [A_io io, A_dbg dbg])])),
      wf_IsSyncThreadSafe = (\<lambda>s. False),
      wf_use_direct_io = (\<lambda>s. False),
      wf_GetRequiredBufferAlignment = (\<lambda>s. 4096),
      wf_SetWriteLifeTimeHint = (\<lambda>hint s. s @ [(''SetWriteLifeTimeHint'', [A_num hint])]),
      wf_GetWriteLifeTimeHint = (\<lambda>s. (recorded_hint s 0, s)),
      wf_GetFileSize = (\<lambda>io dbg s.
        (length recorded_content, dbg, s @ [(''GetFileSize'', [A_io io, A_dbg dbg])])),
      wf_SetPreallocationBlockSize = (\<lambda>n s.
        s @ [(''SetPreallocationBlockSize'', [A_num n])]),
      wf_GetPreallocationStatus = (\<lambda>block_size last_allocated_block s.
        (0, 0, s @ [(''GetPreallocationStatus'', [])])),
      wf_GetUniqueId = (\<lambda>id' max_size s. 0),
      wf_InvalidateCache = (\<lambda>offset n s.
        (Status_OK, s @ [(''InvalidateCache'', [A_num offset, A_num n])])),
      wf_RangeSync = (\<lambda>offset nbytes io dbg s.
        (Status_OK, dbg,
         s @ [(''RangeSync'', [A_num offset, A_num nbytes, A_io io, A_dbg dbg])])),
      wf_PrepareWrite = (\<lambda>offset n io dbg s.
        (dbg, s @ [(''PrepareWrite'', [A_num offset, A_num n, A_io io, A_dbg dbg])])),
      wf_Allocate = (\<lambda>offset n io dbg s.
        (Status_OK, dbg,
         s @ [(''Allocate'', [A_num offset, A_num n, A_io io, A_dbg dbg])]))\<rparr>"

definition recording_FSRandomRWFile :: "Call list FSRandomRWFile" where
  "recording_FSRandomRWFile =
     \<lparr>rw_state = [],
      rw_use_direct_io = (\<lambda>s. False),
      rw_GetRequiredBufferAlignment = (\<lambda>s. 4096),
      rw_Write = (\<lambda>offset data io dbg s.
        (Status_OK, dbg, s @ [(''Write'', [A_num offset, A_bytes data, A_io io, A_dbg dbg])])),
      rw_Read = (\<lambda>offset n io result scratch dbg s.
        (Status_OK, take n (drop offset recorded_content), dbg)),
      rw_Flush = (\<lambda>io dbg s. (Status_OK, dbg, s @ [(''Flush'', [A_io io, A_dbg dbg])])),
      rw_Sync = (\<lambda>io dbg s. (Status_OK, dbg, s @ [(''Sync'', [A_io io, A_dbg dbg])])),
      rw_Fsync = (\<lambda>io dbg s. (Status_OK, dbg, s @ [(''Fsync'', [A_io io, A_dbg dbg])])),
      rw_Close = (\<lambda>io dbg s. (Status_OK, dbg, s @ [(''Close'', [A_io io, A_dbg dbg])]))\<rparr>"

definition recording_FSDirectory :: "Call list FSDirectory" where
  "recording_FSDirectory =
     \<lparr>dir_state = [],
      dir_FsyncWithDirOptions = (\<lambda>io dbg opts s.
        (Status_OK, dbg, s @ [(''FsyncWithDirOptions'', [A_io io, A_dbg dbg, A_dirfsync opts])])),
      dir_GetUniqueId = (\<lambda>id' max_size s. 0)\<rparr>"

text \<open>
  The test storage backend records each creation call: the operation, the paths, the
  options value it was given (a \<^verbatim>\<open>FileOptions\<close> or an \<^verbatim>\<open>IOOptions\<close>) and the debug context.
  It fails with not-found when a path is \<open>missing\<close> and leaves the handle unset then;
  on any other path it succeeds and returns a fresh recording handle.
\<close>

datatype 'eo Creation =
  Creation (operation: string) (paths: "string list")
           (options_given: "'eo FileOptions + IOOptions") (dbg_given: IODebugContext)

definition recording_create ::
  "'eo Creation \<Rightarrow> 'x \<Rightarrow> 'x option \<Rightarrow> 'eo Creation list
     \<Rightarrow> IOStatus \<times> 'x option \<times> IODebugContext \<times> 'eo Creation list" where
  "recording_create c fresh handle s =
     (if ''missing'' \<in> set (paths c)
      then (\<lparr>kind = kNotFound, message = ''missing''\<rparr>, handle, dbg_given c, s @ [c])
      else (Status_OK, Some fresh, dbg_given c, s @ [c]))"

definition recording_FileSystem ::
  "('eo, 'eo Creation list, Call list) FileSystem" where
  "recording_FileSystem =
     \<lparr>fs_state = [],
      fs_NewSequentialFile = (\<lambda>f opts file dbg.
        recording_create (Creation ''NewSequentialFile'' [f] (Inl opts) dbg)
          recording_FSSequentialFile file),
      fs_NewRandomAccessFile = (\<lambda>f opts file dbg.
        recording_create (Creation ''NewRandomAccessFile'' [f] (Inl opts) dbg)
          recording_FSRandomAccessFile file),
      fs_NewWritableFile = (\<lambda>f opts file dbg.
        recording_create (Creation ''NewWritableFile'' [f] (Inl opts) dbg)
          recording_FSWritableFile file),
      fs_ReopenWritableFile = (\<lambda>f opts file dbg.
        recording_create (Creation ''ReopenWritableFile'' [f] (Inl opts) dbg)
          recording_FSWritableFile file),
      fs_ReuseWritableFile = (\<lambda>f old_f opts file dbg.
        recording_create (Creation ''ReuseWritableFile'' [f, old_f] (Inl opts) dbg)
          recording_FSWritableFile file),
      fs_NewRandomRWFile = (\<lambda>f opts file dbg.
        recording_create (Creation ''NewRandomRWFile'' [f] (Inl opts) dbg)
          recording_FSRandomRWFile file),
      fs_NewDirectory = (\<lambda>name io file dbg.
        recording_create (Creation ''NewDirectory'' [name] (Inr io) dbg)
          recording_FSDirectory file)\<rparr>"

section \<open>Handles in a store\<close>

text \<open>
  Who owns a handle, and until when, is a question about pointers, so here the
  handles live in a store: a partial map from addresses to the live handles of one
  kind.  A \<^verbatim>\<open>std::unique_ptr\<close> is then the address it holds, or \<open>None\<close> when it is null, and
  it refers to a handle only while the store has one at that address.
\<close>

type_synonym addr = nat

type_synonym 'x store = "addr \<rightharpoonup> 'x"

definition deref :: "'x store \<Rightarrow> addr option \<Rightarrow> 'x option" where
  "deref \<sigma> p = (case p of None \<Rightarrow> None | Some a \<Rightarrow> \<sigma> a)"

text \<open>
  The constructor of each of the five wrappers is \<^verbatim>\<open>target_(std::move(target))\<close> on the
  caller's \<^verbatim>\<open>std::unique_ptr&\<close>: the wrapper's \<^verbatim>\<open>target_\<close> takes the address, and the caller's
  pointer is null afterwards.  The result is the pair of \<^verbatim>\<open>target_\<close> and the caller's
  pointer after the construction.
\<close>

definition move_into_target :: "addr option \<Rightarrow> addr option \<times> addr option" where
  "move_into_target target = (target, None)"

text \<open>
  None of the five classes declares a destructor.  The implicitly-defined one
  destroys the member \<^verbatim>\<open>target_\<close>, and destroying a \<^verbatim>\<open>std::unique_ptr\<close> that is not null deletes
  the handle it points to: the store has nothing at that address any more.
\<close>

definition destroy :: "'x store \<Rightarrow> addr option \<Rightarrow> 'x store" where
  "destroy \<sigma> target = (case target of None \<Rightarrow> \<sigma> | Some a \<Rightarrow> \<sigma>(a := None))"

text \<open>
  A legacy call on a wrapper whose \<^verbatim>\<open>target_\<close> is the pointer \<open>p\<close> runs the method of the
  wrapper that holds what \<open>p\<close> refers to in the store.  What the wrapper holds after the
  call settles the pointer and the store: the handle in its new state stays at its
  address; if the method had let go of the handle, \<^verbatim>\<open>target_\<close> would be null and the
  address would hold no handle.
\<close>

definition settle :: "'x store \<Rightarrow> addr option \<Rightarrow> 'x option \<Rightarrow> addr option \<times> 'x store" where
  "settle \<sigma> p held =
     (case p of
        None \<Rightarrow> (None, \<sigma>)
      | Some a \<Rightarrow>
          (case held of
             None \<Rightarrow> (None, \<sigma>(a := None))
           | Some x \<Rightarrow> (Some a, \<sigma>(a \<mapsto> x))))"

text \<open>
  The calls a wrapper receives during its life, one after the other; a call with no
  defined behaviour ends the run with \<open>None\<close>.
\<close>

fun run_calls ::
  "('x store \<Rightarrow> addr option \<Rightarrow> 'c \<Rightarrow> (addr option \<times> 'x store) option)
     \<Rightarrow> 'x store \<Rightarrow> addr option \<Rightarrow> 'c list \<Rightarrow> (addr option \<times> 'x store) option" where
  "run_calls step \<sigma> p [] = Some (p, \<sigma>)"
| "run_calls step \<sigma> p (c # cs) =
     (case step \<sigma> p c of
        None \<Rightarrow> None
      | Some (p', \<sigma>') \<Rightarrow> run_calls step \<sigma>' p' cs)"

text \<open>
  The public methods of each wrapper, as the calls a holder of the legacy handle can
  make, and the wrapper after each call (\<open>None\<close> where the method has no defined
  behaviour).  A query leaves the wrapper as it is.
\<close>

datatype SequentialFile_call =
    Seq_Read nat Slice ptr
  | Seq_Skip nat
  | Seq_use_direct_io
  | Seq_GetRequiredBufferAlignment
  | Seq_InvalidateCache nat nat
  | Seq_PositionedRead nat nat Slice ptr

fun SequentialFile_after ::
  "'h CompositeSequentialFileWrapper \<Rightarrow> SequentialFile_call \<Rightarrow> 'h CompositeSequentialFileWrapper option" where
  "SequentialFile_after w (Seq_Read n result scratch) =
     map_option (\<lambda>(status, result, w'). w') (CompositeSequentialFileWrapper_Read w n result scratch)"
| "SequentialFile_after w (Seq_Skip n) =
     map_option (\<lambda>(status, w'). w') (CompositeSequentialFileWrapper_Skip w n)"
| "SequentialFile_after w Seq_use_direct_io =
     map_option (\<lambda>answer. w) (CompositeSequentialFileWrapper_use_direct_io w)"
| "SequentialFile_after w Seq_GetRequiredBufferAlignment =
     map_option (\<lambda>answer. w) (CompositeSequentialFileWrapper_GetRequiredBufferAlignment w)"
| "SequentialFile_after w (Seq_InvalidateCache offset length') =
     map_option (\<lambda>(status, w'). w') (CompositeSequentialFileWrapper_InvalidateCache w offset length')"
| "SequentialFile_after w (Seq_PositionedRead offset n result scratch) =
     map_option (\<lambda>(status, result, w'). w') (CompositeSequentialFileWrapper_PositionedRead w offset n result scratch)"

definition sq_step ::
  "'h FSSequentialFile store \<Rightarrow> addr option \<Rightarrow> SequentialFile_call
     \<Rightarrow> (addr option \<times> 'h FSSequentialFile store) option" where
  "sq_step \<sigma> p c =
     (case SequentialFile_after \<lparr>sq_target = deref \<sigma> p\<rparr> c of
        None \<Rightarrow> None
      | Some w' \<Rightarrow> Some (settle \<sigma> p (sq_target w')))"

datatype RandomAccessFile_call =
    Ra_Read nat nat Slice ptr
  | Ra_MultiRead "ReadRequest list" nat
  | Ra_Prefetch nat nat
  | Ra_GetUniqueId ptr nat
  | Ra_Hint AccessPattern
  | Ra_use_direct_io
  | Ra_GetRequiredBufferAlignment
  | Ra_InvalidateCache nat nat

fun RandomAccessFile_after ::
  "'h CompositeRandomAccessFileWrapper \<Rightarrow> RandomAccessFile_call \<Rightarrow> 'h CompositeRandomAccessFileWrapper option" where
  "RandomAccessFile_after w (Ra_Read offset n result scratch) =
     map_option (\<lambda>answer. w) (CompositeRandomAccessFileWrapper_Read w offset n result scratch)"
| "RandomAccessFile_after w (Ra_MultiRead reqs num_reqs) =
     map_option (\<lambda>(status, reqs, w'). w') (CompositeRandomAccessFileWrapper_MultiRead w reqs num_reqs)"
| "RandomAccessFile_after w (Ra_Prefetch offset n) =
     map_option (\<lambda>(status, w'). w') (CompositeRandomAccessFileWrapper_Prefetch w offset n)"
| "RandomAccessFile_after w (Ra_GetUniqueId id' max_size) =
     map_option (\<lambda>answer. w) (CompositeRandomAccessFileWrapper_GetUniqueId w id' max_size)"
| "RandomAccessFile_after w (Ra_Hint pattern) =
     CompositeRandomAccessFileWrapper_Hint w pattern"
| "RandomAccessFile_after w Ra_use_direct_io =
     map_option (\<lambda>answer. w) (CompositeRandomAccessFileWrapper_use_direct_io w)"
| "RandomAccessFile_after w Ra_GetRequiredBufferAlignment =
     map_option (\<lambda>answer. w) (CompositeRandomAccessFileWrapper_GetRequiredBufferAlignment w)"
| "RandomAccessFile_after w (Ra_InvalidateCache offset length') =
     map_option (\<lambda>(status, w'). w') (CompositeRandomAccessFileWrapper_InvalidateCache w offset length')"

definition ra_step ::
  "'h FSRandomAccessFile store \<Rightarrow> addr option \<Rightarrow> RandomAccessFile_call
     \<Rightarrow> (addr option \<times> 'h FSRandomAccessFile store) option" where
  "ra_step \<sigma> p c =
     (case RandomAccessFile_after \<lparr>ra_target = deref \<sigma> p\<rparr> c of
        None \<Rightarrow> None
      | Some w' \<Rightarrow> Some (settle \<sigma> p (ra_target w')))"

text \<open>
  A batched read is within bounds when its count does not exceed the caller's array.
\<close>

fun RandomAccessFile_call_in_bounds :: "RandomAccessFile_call \<Rightarrow> bool" where
  "RandomAccessFile_call_in_bounds (Ra_MultiRead reqs num_reqs) = (num_reqs \<le> length reqs)"
| "RandomAccessFile_call_in_bounds c = True"

datatype WritableFile_call =
    Wf_Append Slice
  | Wf_Append_verified Slice DataVerificationInfo
  | Wf_PositionedAppend Slice nat
  | Wf_PositionedAppend_verified Slice nat DataVerificationInfo
  | Wf_Truncate nat
  | Wf_Close
  | Wf_Flush
  | Wf_Sync
  | Wf_Fsync
  | Wf_IsSyncThreadSafe
  | Wf_use_direct_io
  | Wf_GetRequiredBufferAlignment
  | Wf_SetWriteLifeTimeHint WriteLifeTimeHint
  | Wf_GetWriteLifeTimeHint
  | Wf_GetFileSize
  | Wf_SetPreallocationBlockSize nat
  | Wf_GetPreallocationStatus nat nat
  | Wf_GetUniqueId ptr nat
  | Wf_InvalidateCache nat nat
  | Wf_RangeSync nat nat
  | Wf_PrepareWrite nat nat
  | Wf_Allocate nat nat
  | Wf_target

fun WritableFile_after ::
  "'h CompositeWritableFileWrapper \<Rightarrow> WritableFile_call \<Rightarrow> 'h CompositeWritableFileWrapper option" where
  "WritableFile_after w (Wf_Append data) =
     map_option (\<lambda>(status, w'). w') (CompositeWritableFileWrapper_Append w data)"
| "WritableFile_after w (Wf_Append_verified data verification_info) =
     map_option (\<lambda>(status, w'). w') (CompositeWritableFileWrapper_Append_verified w data verification_info)"
| "WritableFile_after w (Wf_PositionedAppend data offset) =
     map_option (\<lambda>(status, w'). w') (CompositeWritableFileWrapper_PositionedAppend w data offset)"
| "WritableFile_after w (Wf_PositionedAppend_verified data offset verification_info) =
     map_option (\<lambda>(status, w'). w') (CompositeWritableFileWrapper_PositionedAppend_verified w data offset verification_info)"
| "WritableFile_after w (Wf_Truncate size') =
     map_option (\<lambda>(status, w'). w') (CompositeWritableFileWrapper_Truncate w size')"
| "WritableFile_after w Wf_Close =
     map_option (\<lambda>(status, w'). w') (CompositeWritableFileWrapper_Close w)"
| "WritableFile_after w Wf_Flush =
     map_option (\<lambda>(status, w'). w') (CompositeWritableFileWrapper_Flush w)"
| "WritableFile_after w Wf_Sync =
     map_option (\<lambda>(status, w'). w') (CompositeWritableFileWrapper_Sync w)"
| "WritableFile_after w Wf_Fsync =
     map_option (\<lambda>(status, w'). w') (CompositeWritableFileWrapper_Fsync w)"
| "WritableFile_after w Wf_IsSyncThreadSafe =
     map_option (\<lambda>answer. w) (CompositeWritableFileWrapper_IsSyncThreadSafe w)"
| "WritableFile_after w Wf_use_direct_io =
     map_option (\<lambda>answer. w) (CompositeWritableFileWrapper_use_direct_io w)"
| "WritableFile_after w Wf_GetRequiredBufferAlignment =
     map_option (\<lambda>answer. w) (CompositeWritableFileWrapper_GetRequiredBufferAlignment w)"
| "WritableFile_after w (Wf_SetWriteLifeTimeHint hint) =
     CompositeWritableFileWrapper_SetWriteLifeTimeHint w hint"
| "WritableFile_after w Wf_GetWriteLifeTimeHint =
     map_option (\<lambda>(hint, w'). w') (CompositeWritableFileWrapper_GetWriteLifeTimeHint w)"
| "WritableFile_after w Wf_GetFileSize =
     map_option (\<lambda>(file_size, w'). w') (CompositeWritableFileWrapper_GetFileSize w)"
| "WritableFile_after w (Wf_SetPreallocationBlockSize size') =
     CompositeWritableFileWrapper_SetPreallocationBlockSize w size'"
| "WritableFile_after w (Wf_GetPreallocationStatus block_size last_allocated_block) =
     map_option (\<lambda>(block_size, last_allocated_block, w'). w') (CompositeWritableFileWrapper_GetPreallocationStatus w block_size last_allocated_block)"
| "WritableFile_after w (Wf_GetUniqueId id' max_size) =
     map_option (\<lambda>answer. w) (CompositeWritableFileWrapper_GetUniqueId w id' max_size)"
| "WritableFile_after w (Wf_InvalidateCache offset length') =
     map_option (\<lambda>(status, w'). w') (CompositeWritableFileWrapper_InvalidateCache w offset length')"
| "WritableFile_after w (Wf_RangeSync offset nbytes) =
     map_option (\<lambda>(status, w'). w') (CompositeWritableFileWrapper_RangeSync w offset nbytes)"
| "WritableFile_after w (Wf_PrepareWrite offset len) =
     CompositeWritableFileWrapper_PrepareWrite w offset len"
| "WritableFile_after w (Wf_Allocate offset len) =
     map_option (\<lambda>(status, w'). w') (CompositeWritableFileWrapper_Allocate w offset len)"
| "WritableFile_after w Wf_target =
     Some w"

definition wf_step ::
  "'h FSWritableFile store \<Rightarrow> addr option \<Rightarrow> WritableFile_call
     \<Rightarrow> (addr option \<times> 'h FSWritableFile store) option" where
  "wf_step \<sigma> p c =
     (case WritableFile_after \<lparr>wf_target = deref \<sigma> p\<rparr> c of
        None \<Rightarrow> None
      | Some w' \<Rightarrow> Some (settle \<sigma> p (wf_target w')))"

datatype RandomRWFile_call =
    Rw_use_direct_io
  | Rw_GetRequiredBufferAlignment
  | Rw_Write nat Slice
  | Rw_Read nat nat Slice ptr
  | Rw_Flush
  | Rw_Sync
  | Rw_Fsync
  | Rw_Close

fun RandomRWFile_after ::
  "'h CompositeRandomRWFileWrapper \<Rightarrow> RandomRWFile_call \<Rightarrow> 'h CompositeRandomRWFileWrapper option" where
  "RandomRWFile_after w Rw_use_direct_io =
     map_option (\<lambda>answer. w) (CompositeRandomRWFileWrapper_use_direct_io w)"
| "RandomRWFile_after w Rw_GetRequiredBufferAlignment =
     map_option (\<lambda>answer. w) (CompositeRandomRWFileWrapper_GetRequiredBufferAlignment w)"
| "RandomRWFile_after w (Rw_Write offset data) =
     map_option (\<lambda>(status, w'). w') (CompositeRandomRWFileWrapper_Write w offset data)"
| "RandomRWFile_after w (Rw_Read offset n result scratch) =
     map_option (\<lambda>answer. w) (CompositeRandomRWFileWrapper_Read w offset n result scratch)"
| "RandomRWFile_after w Rw_Flush =
     map_option (\<lambda>(status, w'). w') (CompositeRandomRWFileWrapper_Flush w)"
| "RandomRWFile_after w Rw_Sync =
     map_option (\<lambda>(status, w'). w') (CompositeRandomRWFileWrapper_Sync w)"
| "RandomRWFile_after w Rw_Fsync =
     map_option (\<lambda>(status, w'). w') (CompositeRandomRWFileWrapper_Fsync w)"
| "RandomRWFile_after w Rw_Close =
     map_option (\<lambda>(status, w'). w') (CompositeRandomRWFileWrapper_Close w)"

definition rw_step ::
  "'h FSRandomRWFile store \<Rightarrow> addr option \<Rightarrow> RandomRWFile_call
     \<Rightarrow> (addr option \<times> 'h FSRandomRWFile store) option" where
  "rw_step \<sigma> p c =
     (case RandomRWFile_after \<lparr>rw_target = deref \<sigma> p\<rparr> c of
        None \<Rightarrow> None
      | Some w' \<Rightarrow> Some (settle \<sigma> p (rw_target w')))"

datatype Directory_call =
    Dir_Fsync
  | Dir_GetUniqueId ptr nat

fun Directory_after ::
  "'h CompositeDirectoryWrapper \<Rightarrow> Directory_call \<Rightarrow> 'h CompositeDirectoryWrapper option" where
  "Directory_after w Dir_Fsync =
     map_option (\<lambda>(status, w'). w') (CompositeDirectoryWrapper_Fsync w)"
| "Directory_after w (Dir_GetUniqueId id' max_size) =
     map_option (\<lambda>answer. w) (CompositeDirectoryWrapper_GetUniqueId w id' max_size)"

definition dir_step ::
  "'h FSDirectory store \<Rightarrow> addr option \<Rightarrow> Directory_call
     \<Rightarrow> (addr option \<times> 'h FSDirectory store) option" where
  "dir_step \<sigma> p c =
     (case Directory_after \<lparr>dir_target = deref \<sigma> p\<rparr> c of
        None \<Rightarrow> None
      | Some w' \<Rightarrow> Some (settle \<sigma> p (dir_target w')))"

section \<open>The loops of the batched read\<close>

declare MultiRead_copy_in.simps [simp del] MultiRead_copy_out.simps [simp del]

lemma MultiRead_copy_in_length:
  "length (MultiRead_copy_in reqs num_reqs i fs_reqs) = length fs_reqs"
proof (induction reqs num_reqs i fs_reqs rule: MultiRead_copy_in.induct)
  case (1 reqs num_reqs i fs_reqs)
  show ?case
    by (subst MultiRead_copy_in.simps) (simp add: "1.IH")
qed

lemma MultiRead_copy_in_nth:
  "j < length fs_reqs \<Longrightarrow>
   MultiRead_copy_in reqs num_reqs i fs_reqs ! j =
     (if i \<le> j \<and> j < num_reqs
      then (fs_reqs ! j)\<lparr>fsreq_offset := req_offset (reqs ! j), fsreq_len := req_len (reqs ! j),
                         fsreq_scratch := req_scratch (reqs ! j), fsreq_status := Status_OK\<rparr>
      else fs_reqs ! j)"
proof (induction reqs num_reqs i fs_reqs rule: MultiRead_copy_in.induct)
  case (1 reqs num_reqs i fs_reqs)
  show ?case
  proof (cases "i < num_reqs")
    case True
    let ?fs = "fs_reqs[i := (fs_reqs ! i)
                \<lparr>fsreq_offset := req_offset (reqs ! i), fsreq_len := req_len (reqs ! i),
                 fsreq_scratch := req_scratch (reqs ! i), fsreq_status := Status_OK\<rparr>]"
    have unfold: "MultiRead_copy_in reqs num_reqs i fs_reqs =
                  MultiRead_copy_in reqs num_reqs (Suc i) ?fs"
      using True by (subst MultiRead_copy_in.simps) simp
    have IH: "MultiRead_copy_in reqs num_reqs (Suc i) ?fs ! j =
       (if Suc i \<le> j \<and> j < num_reqs
        then (?fs ! j)\<lparr>fsreq_offset := req_offset (reqs ! j), fsreq_len := req_len (reqs ! j),
                       fsreq_scratch := req_scratch (reqs ! j), fsreq_status := Status_OK\<rparr>
        else ?fs ! j)"
      using "1.IH" [OF True] "1.prems" by simp
    consider "j < i" | "j = i" | "Suc i \<le> j" by arith
    then show ?thesis
    proof cases
      case 1
      then show ?thesis using IH True "1.prems" by (simp add: unfold)
    next
      case 2
      then show ?thesis using IH True "1.prems" by (simp add: unfold)
    next
      case 3
      then show ?thesis using IH True "1.prems" by (simp add: unfold)
    qed
  next
    case False
    have unfold: "MultiRead_copy_in reqs num_reqs i fs_reqs = fs_reqs"
      using False by (subst MultiRead_copy_in.simps) simp
    from False have "\<not> (i \<le> j \<and> j < num_reqs)" by arith
    then show ?thesis unfolding unfold by (simp only: if_False)
  qed
qed

lemma MultiRead_copy_out_length:
  "length (MultiRead_copy_out fs_reqs num_reqs i reqs) = length reqs"
proof (induction fs_reqs num_reqs i reqs rule: MultiRead_copy_out.induct)
  case (1 fs_reqs num_reqs i reqs)
  show ?case
    by (subst MultiRead_copy_out.simps) (simp add: "1.IH")
qed

lemma MultiRead_copy_out_nth:
  "j < length reqs \<Longrightarrow>
   MultiRead_copy_out fs_reqs num_reqs i reqs ! j =
     (if i \<le> j \<and> j < num_reqs
      then (reqs ! j)\<lparr>req_result := fsreq_result (fs_reqs ! j),
                      req_status := fsreq_status (fs_reqs ! j)\<rparr>
      else reqs ! j)"
proof (induction fs_reqs num_reqs i reqs rule: MultiRead_copy_out.induct)
  case (1 fs_reqs num_reqs i reqs)
  show ?case
  proof (cases "i < num_reqs")
    case True
    let ?rs = "reqs[i := (reqs ! i)\<lparr>req_result := fsreq_result (fs_reqs ! i),
                                    req_status := fsreq_status (fs_reqs ! i)\<rparr>]"
    have unfold: "MultiRead_copy_out fs_reqs num_reqs i reqs =
                  MultiRead_copy_out fs_reqs num_reqs (Suc i) ?rs"
      using True by (subst MultiRead_copy_out.simps) simp
    have IH: "MultiRead_copy_out fs_reqs num_reqs (Suc i) ?rs ! j =
       (if Suc i \<le> j \<and> j < num_reqs
        then (?rs ! j)\<lparr>req_result := fsreq_result (fs_reqs ! j),
                       req_status := fsreq_status (fs_reqs ! j)\<rparr>
        else ?rs ! j)"
      using "1.IH" [OF True] "1.prems" by simp
    consider "j < i" | "j = i" | "Suc i \<le> j" by arith
    then show ?thesis
    proof cases
      case 1
      then show ?thesis using IH True "1.prems" by (simp add: unfold)
    next
      case 2
      then show ?thesis using IH True "1.prems" by (simp add: unfold)
    next
      case 3
      then show ?thesis using IH True "1.prems" by (simp add: unfold)
    qed
  next
    case False
    have unfold: "MultiRead_copy_out fs_reqs num_reqs i reqs = reqs"
      using False by (subst MultiRead_copy_out.simps) simp
    from False have "\<not> (i \<le> j \<and> j < num_reqs)" by arith
    then show ?thesis unfolding unfold by (simp only: if_False)
  qed
qed

text \<open>
  The first loop, run on the freshly resized vector, builds the element-wise image of
  the first \<open>num_reqs\<close> caller requests.
\<close>

lemma MultiRead_copy_in_map:
  assumes "num_reqs \<le> length reqs"
  shows "MultiRead_copy_in reqs num_reqs 0 (replicate num_reqs FSReadRequest_default) =
         map (\<lambda>r. \<lparr>fsreq_offset = req_offset r, fsreq_len = req_len r,
                   fsreq_scratch = req_scratch r, fsreq_result = '''',
                   fsreq_status = Status_OK\<rparr>) (take num_reqs reqs)"
  using assms
  by (intro nth_equalityI)
     (simp_all add: MultiRead_copy_in_length MultiRead_copy_in_nth FSReadRequest_default_def)

lemma MultiRead_unfold:
  assumes "ra_target w = Some t" and "num_reqs \<le> length reqs"
    and "ra_MultiRead t
           (map (\<lambda>r. \<lparr>fsreq_offset = req_offset r, fsreq_len = req_len r,
                      fsreq_scratch = req_scratch r, fsreq_result = '''',
                      fsreq_status = Status_OK\<rparr>) (take num_reqs reqs))
           num_reqs IOOptions_default IODebugContext_default (ra_state t) = (st, fs_out, dbg, s)"
  shows "CompositeRandomAccessFileWrapper_MultiRead w reqs num_reqs =
         Some (st, MultiRead_copy_out fs_out num_reqs 0 reqs,
               w\<lparr>ra_target := Some (t\<lparr>ra_state := s\<rparr>)\<rparr>)"
  using assms
  by (simp add: CompositeRandomAccessFileWrapper_MultiRead_def MultiRead_copy_in_map)

section \<open>Batched reads are index-aligned\<close>

text \<open>
  C1.  \<^verbatim>\<open>MultiRead\<close> with \<open>num_reqs\<close> requests on a wrapper that holds a handle: the array
  \<open>fs_in\<close> handed to the modern batched read has \<open>num_reqs\<close> elements, element \<open>i\<close> carries
  the offset, length and destination buffer of the caller's request \<open>i\<close> and the
  status success; the modern batched read is issued once, on that array, with the
  default options and the empty debug context; afterwards the caller's array has
  its length unchanged, its element \<open>i < num_reqs\<close> is the caller's request \<open>i\<close> with the
  result slice and status of the internal element \<open>i\<close>, and the elements from
  \<open>num_reqs\<close> on are untouched.  The backend writes into the \<open>num_reqs\<close> elements it is
  given (\<open>length fs_out = num_reqs\<close>).
\<close>

theorem MultiRead_index_aligned:
  assumes "ra_target w = Some t"
    and "num_reqs \<le> length reqs"
    and "fs_in = map (\<lambda>r. \<lparr>fsreq_offset = req_offset r, fsreq_len = req_len r,
                            fsreq_scratch = req_scratch r, fsreq_result = '''',
                            fsreq_status = Status_OK\<rparr>) (take num_reqs reqs)"
    and "ra_MultiRead t fs_in num_reqs IOOptions_default IODebugContext_default (ra_state t) =
           (st, fs_out, dbg, s)"
    and "length fs_out = num_reqs"
  shows "length fs_in = num_reqs
     \<and> (\<forall>i<num_reqs. fsreq_offset (fs_in ! i) = req_offset (reqs ! i)
                   \<and> fsreq_len (fs_in ! i) = req_len (reqs ! i)
                   \<and> fsreq_scratch (fs_in ! i) = req_scratch (reqs ! i)
                   \<and> fsreq_status (fs_in ! i) = Status_OK)
     \<and> (\<exists>reqs'. CompositeRandomAccessFileWrapper_MultiRead w reqs num_reqs =
                   Some (st, reqs', w\<lparr>ra_target := Some (t\<lparr>ra_state := s\<rparr>)\<rparr>)
               \<and> length reqs' = length reqs
               \<and> (\<forall>i<num_reqs. reqs' ! i =
                     (reqs ! i)\<lparr>req_result := fsreq_result (fs_out ! i),
                                req_status := fsreq_status (fs_out ! i)\<rparr>)
               \<and> (\<forall>i. num_reqs \<le> i \<and> i < length reqs \<longrightarrow> reqs' ! i = reqs ! i))"
proof (intro conjI)
  show "length fs_in = num_reqs"
    using assms(2,3) by simp
  show "\<forall>i<num_reqs. fsreq_offset (fs_in ! i) = req_offset (reqs ! i)
                   \<and> fsreq_len (fs_in ! i) = req_len (reqs ! i)
                   \<and> fsreq_scratch (fs_in ! i) = req_scratch (reqs ! i)
                   \<and> fsreq_status (fs_in ! i) = Status_OK"
    using assms(2,3) by simp
  let ?reqs' = "MultiRead_copy_out fs_out num_reqs 0 reqs"
  have run: "CompositeRandomAccessFileWrapper_MultiRead w reqs num_reqs =
             Some (st, ?reqs', w\<lparr>ra_target := Some (t\<lparr>ra_state := s\<rparr>)\<rparr>)"
    using assms(1,2) assms(4) [unfolded assms(3)] by (rule MultiRead_unfold)
  have len: "length ?reqs' = length reqs"
    by (rule MultiRead_copy_out_length)
  have served: "\<forall>i<num_reqs. ?reqs' ! i =
                  (reqs ! i)\<lparr>req_result := fsreq_result (fs_out ! i),
                             req_status := fsreq_status (fs_out ! i)\<rparr>"
    using assms(2) by (simp add: MultiRead_copy_out_nth)
  have rest: "\<forall>i. num_reqs \<le> i \<and> i < length reqs \<longrightarrow> ?reqs' ! i = reqs ! i"
    by (simp add: MultiRead_copy_out_nth)
  from run len served rest
  show "\<exists>reqs'. CompositeRandomAccessFileWrapper_MultiRead w reqs num_reqs =
                   Some (st, reqs', w\<lparr>ra_target := Some (t\<lparr>ra_state := s\<rparr>)\<rparr>)
               \<and> length reqs' = length reqs
               \<and> (\<forall>i<num_reqs. reqs' ! i =
                     (reqs ! i)\<lparr>req_result := fsreq_result (fs_out ! i),
                                req_status := fsreq_status (fs_out ! i)\<rparr>)
               \<and> (\<forall>i. num_reqs \<le> i \<and> i < length reqs \<longrightarrow> reqs' ! i = reqs ! i)"
    by blast
qed

theorem MultiRead_index_aligned_witness:
  "\<exists>reqs'.
     CompositeRandomAccessFileWrapper_MultiRead
       \<lparr>ra_target = Some recording_FSRandomAccessFile\<rparr>
       [\<lparr>req_offset = 2, req_len = 3, req_scratch = 100, req_result = ''old'',
         req_status = \<lparr>kind = kNotFound, message = ''stale''\<rparr>\<rparr>,
        \<lparr>req_offset = 7, req_len = 2, req_scratch = 200, req_result = ''old'',
         req_status = \<lparr>kind = kNotFound, message = ''stale''\<rparr>\<rparr>,
        \<lparr>req_offset = 0, req_len = 1, req_scratch = 300, req_result = ''old'',
         req_status = \<lparr>kind = kNotFound, message = ''stale''\<rparr>\<rparr>] 2 =
       Some (Status_OK, reqs',
             \<lparr>ra_target = Some (recording_FSRandomAccessFile
               \<lparr>ra_state :=
                  [(''MultiRead'',
                    [A_reqs [\<lparr>fsreq_offset = 2, fsreq_len = 3, fsreq_scratch = 100,
                              fsreq_result = '''', fsreq_status = Status_OK\<rparr>,
                             \<lparr>fsreq_offset = 7, fsreq_len = 2, fsreq_scratch = 200,
                              fsreq_result = '''', fsreq_status = Status_OK\<rparr>],
                     A_num 2, A_io IOOptions_default, A_dbg IODebugContext_default])]\<rparr>)\<rparr>)
     \<and> length reqs' = 3
     \<and> map req_result reqs' = [''234'', ''78'', ''old'']
     \<and> map req_offset reqs' = [2, 7, 0]
     \<and> map (kind \<circ> req_status) reqs' = [kOk, kOk, kNotFound]"
proof -
  let ?t = "recording_FSRandomAccessFile"
  let ?w = "\<lparr>ra_target = Some ?t\<rparr>"
  let ?stale = "\<lparr>kind = kNotFound, message = ''stale''\<rparr>"
  let ?reqs = "[\<lparr>req_offset = 2, req_len = 3, req_scratch = 100, req_result = ''old'',
                 req_status = ?stale\<rparr>,
                \<lparr>req_offset = 7, req_len = 2, req_scratch = 200, req_result = ''old'',
                 req_status = ?stale\<rparr>,
                \<lparr>req_offset = 0, req_len = 1, req_scratch = 300, req_result = ''old'',
                 req_status = ?stale\<rparr>]"
  let ?fs_in = "[\<lparr>fsreq_offset = 2, fsreq_len = 3, fsreq_scratch = 100,
                  fsreq_result = '''', fsreq_status = Status_OK\<rparr>,
                 \<lparr>fsreq_offset = 7, fsreq_len = 2, fsreq_scratch = 200,
                  fsreq_result = '''', fsreq_status = Status_OK\<rparr>]"
  let ?fs_out = "[\<lparr>fsreq_offset = 2, fsreq_len = 3, fsreq_scratch = 100,
                   fsreq_result = ''234'', fsreq_status = Status_OK\<rparr>,
                  \<lparr>fsreq_offset = 7, fsreq_len = 2, fsreq_scratch = 200,
                   fsreq_result = ''78'', fsreq_status = Status_OK\<rparr>]"
  let ?log = "[(''MultiRead'', [A_reqs ?fs_in, A_num 2, A_io IOOptions_default,
                                A_dbg IODebugContext_default])]"
  have target: "ra_target ?w = Some ?t"
    by simp
  have count: "(2::nat) \<le> length ?reqs"
    by simp
  have fs_in: "?fs_in = map (\<lambda>r. \<lparr>fsreq_offset = req_offset r, fsreq_len = req_len r,
                                    fsreq_scratch = req_scratch r, fsreq_result = '''',
                                    fsreq_status = Status_OK\<rparr>) (take 2 ?reqs)"
    by (simp add: numeral_2_eq_2)
  have call: "ra_MultiRead ?t ?fs_in 2 IOOptions_default IODebugContext_default (ra_state ?t) =
                (Status_OK, ?fs_out, IODebugContext_default, ?log)"
    by (simp add: recording_FSRandomAccessFile_def recording_serve_def recorded_content_def)
  have array: "length ?fs_out = 2"
    by simp
  from MultiRead_index_aligned [OF target count fs_in call array]
  obtain reqs' where
    run: "CompositeRandomAccessFileWrapper_MultiRead ?w ?reqs 2 =
            Some (Status_OK, reqs', ?w\<lparr>ra_target := Some (?t\<lparr>ra_state := ?log\<rparr>)\<rparr>)"
    and len: "length reqs' = length ?reqs"
    and served: "\<forall>i<2. reqs' ! i = (?reqs ! i)\<lparr>req_result := fsreq_result (?fs_out ! i),
                                                  req_status := fsreq_status (?fs_out ! i)\<rparr>"
    and rest: "\<forall>i. 2 \<le> i \<and> i < length ?reqs \<longrightarrow> reqs' ! i = ?reqs ! i"
    by blast
  from served have r0: "reqs' ! 0 = (?reqs ! 0)\<lparr>req_result := ''234'', req_status := Status_OK\<rparr>"
    by simp
  from served have r1: "reqs' ! Suc 0 = (?reqs ! 1)\<lparr>req_result := ''78'', req_status := Status_OK\<rparr>"
    by simp
  from rest have r2: "reqs' ! Suc (Suc 0) = ?reqs ! 2"
    by (simp add: numeral_2_eq_2)
  from len have shape: "reqs' = [reqs' ! 0, reqs' ! Suc 0, reqs' ! Suc (Suc 0)]"
    by (intro nth_equalityI) (auto simp: less_Suc_eq)
  have whole: "reqs' = [(?reqs ! 0)\<lparr>req_result := ''234'', req_status := Status_OK\<rparr>,
                        (?reqs ! 1)\<lparr>req_result := ''78'', req_status := Status_OK\<rparr>,
                        ?reqs ! 2]"
    unfolding r0 [symmetric] r1 [symmetric] r2 [symmetric] by (rule shape)
  have fields: "map req_result reqs' = [''234'', ''78'', ''old'']
              \<and> map req_offset reqs' = [2, 7, 0]
              \<and> map (kind \<circ> req_status) reqs' = [kOk, kOk, kNotFound]"
    unfolding whole by (simp add: Status_OK_def)
  from run len fields show ?thesis
    by auto
qed

section \<open>The copy-back does not depend on the call-level status\<close>

text \<open>
  C10.  Whatever the status \<open>st\<close> of the modern batched read, a failure included, the
  result slice and the status of every caller request \<open>i < num_reqs\<close> after
  \<^verbatim>\<open>MultiRead\<close> are those the modern call left in element \<open>i\<close> of the internal array; for an
  element the modern call did not touch, the status is the success the wrapper
  stored before the call.  \<open>st\<close> itself is returned.
\<close>

theorem MultiRead_copies_back_under_any_status:
  assumes "ra_target w = Some t"
    and "num_reqs \<le> length reqs"
    and "fs_in = map (\<lambda>r. \<lparr>fsreq_offset = req_offset r, fsreq_len = req_len r,
                            fsreq_scratch = req_scratch r, fsreq_result = '''',
                            fsreq_status = Status_OK\<rparr>) (take num_reqs reqs)"
    and "ra_MultiRead t fs_in num_reqs IOOptions_default IODebugContext_default (ra_state t) =
           (st, fs_out, dbg, s)"
    and "length fs_out = num_reqs"
  shows "\<exists>reqs'. CompositeRandomAccessFileWrapper_MultiRead w reqs num_reqs =
                   Some (st, reqs', w\<lparr>ra_target := Some (t\<lparr>ra_state := s\<rparr>)\<rparr>)
               \<and> (\<forall>i<num_reqs. req_result (reqs' ! i) = fsreq_result (fs_out ! i)
                             \<and> req_status (reqs' ! i) = fsreq_status (fs_out ! i))
               \<and> (\<forall>i<num_reqs. fs_out ! i = fs_in ! i \<longrightarrow>
                                req_status (reqs' ! i) = Status_OK)"
proof -
  let ?reqs' = "MultiRead_copy_out fs_out num_reqs 0 reqs"
  have run: "CompositeRandomAccessFileWrapper_MultiRead w reqs num_reqs =
             Some (st, ?reqs', w\<lparr>ra_target := Some (t\<lparr>ra_state := s\<rparr>)\<rparr>)"
    using assms(1,2) assms(4) [unfolded assms(3)] by (rule MultiRead_unfold)
  have copied: "\<forall>i<num_reqs. req_result (?reqs' ! i) = fsreq_result (fs_out ! i)
                           \<and> req_status (?reqs' ! i) = fsreq_status (fs_out ! i)"
    using assms(2) by (simp add: MultiRead_copy_out_nth)
  have initial: "\<forall>i<num_reqs. fsreq_status (fs_in ! i) = Status_OK"
    using assms(2,3) by simp
  from copied initial
  have untouched: "\<forall>i<num_reqs. fs_out ! i = fs_in ! i \<longrightarrow> req_status (?reqs' ! i) = Status_OK"
    by simp
  from run copied untouched show ?thesis
    by blast
qed

theorem MultiRead_copies_back_under_any_status_witness:
  "\<not> ok \<lparr>kind = kInvalidArgument, message = ''empty request''\<rparr>
   \<and> (\<exists>reqs'.
     CompositeRandomAccessFileWrapper_MultiRead
       \<lparr>ra_target = Some recording_FSRandomAccessFile\<rparr>
       [\<lparr>req_offset = 2, req_len = 3, req_scratch = 100, req_result = ''old'',
         req_status = \<lparr>kind = kNotFound, message = ''stale''\<rparr>\<rparr>,
        \<lparr>req_offset = 50, req_len = 4, req_scratch = 200, req_result = ''old'',
         req_status = \<lparr>kind = kNotFound, message = ''stale''\<rparr>\<rparr>,
        \<lparr>req_offset = 0, req_len = 0, req_scratch = 300, req_result = ''old'',
         req_status = \<lparr>kind = kNotFound, message = ''stale''\<rparr>\<rparr>] 3 =
       Some (\<lparr>kind = kInvalidArgument, message = ''empty request''\<rparr>, reqs',
             \<lparr>ra_target = Some (recording_FSRandomAccessFile
               \<lparr>ra_state :=
                  [(''MultiRead'',
                    [A_reqs [\<lparr>fsreq_offset = 2, fsreq_len = 3, fsreq_scratch = 100,
                              fsreq_result = '''', fsreq_status = Status_OK\<rparr>,
                             \<lparr>fsreq_offset = 50, fsreq_len = 4, fsreq_scratch = 200,
                              fsreq_result = '''', fsreq_status = Status_OK\<rparr>,
                             \<lparr>fsreq_offset = 0, fsreq_len = 0, fsreq_scratch = 300,
                              fsreq_result = '''', fsreq_status = Status_OK\<rparr>],
                     A_num 3, A_io IOOptions_default, A_dbg IODebugContext_default])]\<rparr>)\<rparr>)
     \<and> req_result (reqs' ! 0) = ''234'' \<and> req_status (reqs' ! 0) = Status_OK
     \<and> req_result (reqs' ! 1) = ''''
     \<and> req_status (reqs' ! 1) = \<lparr>kind = kIOError, message = ''past end''\<rparr>
     \<and> req_result (reqs' ! 2) = '''' \<and> req_status (reqs' ! 2) = Status_OK)"
proof -
  let ?t = "recording_FSRandomAccessFile"
  let ?w = "\<lparr>ra_target = Some ?t\<rparr>"
  let ?stale = "\<lparr>kind = kNotFound, message = ''stale''\<rparr>"
  let ?failed = "\<lparr>kind = kInvalidArgument, message = ''empty request''\<rparr>"
  let ?reqs = "[\<lparr>req_offset = 2, req_len = 3, req_scratch = 100, req_result = ''old'',
                 req_status = ?stale\<rparr>,
                \<lparr>req_offset = 50, req_len = 4, req_scratch = 200, req_result = ''old'',
                 req_status = ?stale\<rparr>,
                \<lparr>req_offset = 0, req_len = 0, req_scratch = 300, req_result = ''old'',
                 req_status = ?stale\<rparr>]"
  let ?fs_in = "[\<lparr>fsreq_offset = 2, fsreq_len = 3, fsreq_scratch = 100,
                  fsreq_result = '''', fsreq_status = Status_OK\<rparr>,
                 \<lparr>fsreq_offset = 50, fsreq_len = 4, fsreq_scratch = 200,
                  fsreq_result = '''', fsreq_status = Status_OK\<rparr>,
                 \<lparr>fsreq_offset = 0, fsreq_len = 0, fsreq_scratch = 300,
                  fsreq_result = '''', fsreq_status = Status_OK\<rparr>]"
  let ?fs_out = "[\<lparr>fsreq_offset = 2, fsreq_len = 3, fsreq_scratch = 100,
                   fsreq_result = ''234'', fsreq_status = Status_OK\<rparr>,
                  \<lparr>fsreq_offset = 50, fsreq_len = 4, fsreq_scratch = 200,
                   fsreq_result = '''',
                   fsreq_status = \<lparr>kind = kIOError, message = ''past end''\<rparr>\<rparr>,
                  \<lparr>fsreq_offset = 0, fsreq_len = 0, fsreq_scratch = 300,
                   fsreq_result = '''', fsreq_status = Status_OK\<rparr>]"
  let ?log = "[(''MultiRead'', [A_reqs ?fs_in, A_num 3, A_io IOOptions_default,
                                A_dbg IODebugContext_default])]"
  have failed: "\<not> ok ?failed"
    by (simp add: ok_def)
  have target: "ra_target ?w = Some ?t"
    by simp
  have count: "(3::nat) \<le> length ?reqs"
    by simp
  have fs_in: "?fs_in = map (\<lambda>r. \<lparr>fsreq_offset = req_offset r, fsreq_len = req_len r,
                                    fsreq_scratch = req_scratch r, fsreq_result = '''',
                                    fsreq_status = Status_OK\<rparr>) (take 3 ?reqs)"
    by simp
  have call: "ra_MultiRead ?t ?fs_in 3 IOOptions_default IODebugContext_default (ra_state ?t) =
                (?failed, ?fs_out, IODebugContext_default, ?log)"
    by (simp add: recording_FSRandomAccessFile_def recording_serve_def recorded_content_def)
  have array: "length ?fs_out = 3"
    by simp
  from MultiRead_copies_back_under_any_status [OF target count fs_in call array]
  obtain reqs' where
    run: "CompositeRandomAccessFileWrapper_MultiRead ?w ?reqs 3 =
            Some (?failed, reqs', ?w\<lparr>ra_target := Some (?t\<lparr>ra_state := ?log\<rparr>)\<rparr>)"
    and copied: "\<forall>i<3. req_result (reqs' ! i) = fsreq_result (?fs_out ! i)
                       \<and> req_status (reqs' ! i) = fsreq_status (?fs_out ! i)"
    by blast
  from copied have r0: "req_result (reqs' ! 0) = ''234'' \<and> req_status (reqs' ! 0) = Status_OK"
    by simp
  from copied have r1: "req_result (reqs' ! 1) = ''''
      \<and> req_status (reqs' ! 1) = \<lparr>kind = kIOError, message = ''past end''\<rparr>"
    by simp
  from copied have "req_result (reqs' ! 2) = fsreq_result (?fs_out ! 2)
      \<and> req_status (reqs' ! 2) = fsreq_status (?fs_out ! 2)"
    by simp
  then have r2: "req_result (reqs' ! 2) = '''' \<and> req_status (reqs' ! 2) = Status_OK"
    by (simp add: numeral_2_eq_2)
  from failed run r0 r1 r2 show ?thesis
    by auto
qed

section \<open>Verified appends\<close>

text \<open>
  C4.  The \<^verbatim>\<open>Append\<close> and the \<^verbatim>\<open>PositionedAppend\<close> of the writable-file wrapper that take a
  verification payload call the modern overload that takes one, and pass it the
  payload they were given, unchanged; their result and the new state of the handle
  are those of that overload, so the overload without payload plays no part.
\<close>

theorem verification_info_is_forwarded:
  assumes "wf_target w_wf = Some t_wf"
  shows "CompositeWritableFileWrapper_Append_verified w_wf data verification_info =
        (case wf_Append_verified t_wf data IOOptions_default verification_info IODebugContext_default (wf_state t_wf) of
           (status, dbg, s) \<Rightarrow>
             Some (status, w_wf\<lparr>wf_target := Some (t_wf\<lparr>wf_state := s\<rparr>)\<rparr>))
    \<and> CompositeWritableFileWrapper_PositionedAppend_verified w_wf data offset verification_info =
        (case wf_PositionedAppend_verified t_wf data offset IOOptions_default verification_info IODebugContext_default (wf_state t_wf) of
           (status, dbg, s) \<Rightarrow>
             Some (status, w_wf\<lparr>wf_target := Some (t_wf\<lparr>wf_state := s\<rparr>)\<rparr>))"
  using assms
  by (simp_all add: CompositeWritableFileWrapper_Append_verified_def
        CompositeWritableFileWrapper_PositionedAppend_verified_def)

theorem verification_info_is_forwarded_witness:
  "CompositeWritableFileWrapper_Append_verified
     \<lparr>wf_target = Some recording_FSWritableFile\<rparr> ''abc'' \<lparr>checksum = ''sentinel''\<rparr> =
     Some (Status_OK,
           \<lparr>wf_target = Some (recording_FSWritableFile
              \<lparr>wf_state :=
                 [(''Append_verified'',
                   [A_bytes ''abc'', A_io IOOptions_default,
                    A_verification \<lparr>checksum = ''sentinel''\<rparr>,
                    A_dbg IODebugContext_default])]\<rparr>)\<rparr>)
   \<and> CompositeWritableFileWrapper_PositionedAppend_verified
     \<lparr>wf_target = Some recording_FSWritableFile\<rparr> ''abc'' 7 \<lparr>checksum = ''sentinel''\<rparr> =
     Some (Status_OK,
           \<lparr>wf_target = Some (recording_FSWritableFile
              \<lparr>wf_state :=
                 [(''PositionedAppend_verified'',
                   [A_bytes ''abc'', A_num 7, A_io IOOptions_default,
                    A_verification \<lparr>checksum = ''sentinel''\<rparr>,
                    A_dbg IODebugContext_default])]\<rparr>)\<rparr>)"
proof -
  have target: "wf_target \<lparr>wf_target = Some recording_FSWritableFile\<rparr> = Some recording_FSWritableFile"
    by simp
  show ?thesis
    using verification_info_is_forwarded [OF target, of "''abc''" "\<lparr>checksum = ''sentinel''\<rparr>" 7]
    by (simp add: recording_FSWritableFile_def)
qed
section \<open>Directory fsync\<close>

text \<open>
  C5.  \<^verbatim>\<open>Fsync\<close> of the directory wrapper calls the modern directory fsync with the
  default-constructed directory-fsync options, whose reason is the default one,
  whatever the handle behind it does with other options.
\<close>

theorem directory_fsync_requests_default:
  assumes "dir_target w_dir = Some t_dir"
  shows "reason DirFsyncOptions_default = kDefault
    \<and> CompositeDirectoryWrapper_Fsync w_dir =
        (case dir_FsyncWithDirOptions t_dir IOOptions_default IODebugContext_default DirFsyncOptions_default (dir_state t_dir) of
           (status, dbg, s) \<Rightarrow>
             Some (status, w_dir\<lparr>dir_target := Some (t_dir\<lparr>dir_state := s\<rparr>)\<rparr>))"
  using assms
  by (simp_all add: DirFsyncOptions_default_def CompositeDirectoryWrapper_Fsync_def)

theorem directory_fsync_requests_default_witness:
  "CompositeDirectoryWrapper_Fsync \<lparr>dir_target = Some recording_FSDirectory\<rparr> =
     Some (Status_OK,
           \<lparr>dir_target = Some (recording_FSDirectory
              \<lparr>dir_state :=
                 [(''FsyncWithDirOptions'',
                   [A_io IOOptions_default, A_dbg IODebugContext_default,
                    A_dirfsync \<lparr>reason = kDefault\<rparr>])]\<rparr>)\<rparr>)"
proof -
  have target: "dir_target \<lparr>dir_target = Some recording_FSDirectory\<rparr> = Some recording_FSDirectory"
    by simp
  show ?thesis
    using directory_fsync_requests_default [OF target]
    by (simp add: recording_FSDirectory_def DirFsyncOptions_default_def)
qed
section \<open>Per-call options and debug context\<close>

text \<open>
  C7.  Every legacy call whose modern counterpart takes an options value and a debug
  context passes \<open>IOOptions_default\<close> and \<open>IODebugContext_default\<close>, built for that call:
  the sequential \<^verbatim>\<open>Read\<close> and \<^verbatim>\<open>PositionedRead\<close>; the random-access \<^verbatim>\<open>Read\<close>, \<^verbatim>\<open>MultiRead\<close>
  and \<^verbatim>\<open>Prefetch\<close>; the writable-file \<^verbatim>\<open>Append\<close> and \<^verbatim>\<open>PositionedAppend\<close> (both overloads),
  \<^verbatim>\<open>Truncate\<close>, \<^verbatim>\<open>Close\<close>, \<^verbatim>\<open>Flush\<close>, \<^verbatim>\<open>Sync\<close>, \<^verbatim>\<open>Fsync\<close>, \<^verbatim>\<open>GetFileSize\<close>, \<^verbatim>\<open>RangeSync\<close>,
  \<^verbatim>\<open>PrepareWrite\<close> and \<^verbatim>\<open>Allocate\<close>; the random read/write \<^verbatim>\<open>Write\<close>, \<^verbatim>\<open>Read\<close>, \<^verbatim>\<open>Flush\<close>,
  \<^verbatim>\<open>Sync\<close>, \<^verbatim>\<open>Fsync\<close> and \<^verbatim>\<open>Close\<close>; the directory \<^verbatim>\<open>Fsync\<close>.  The default options carry
  neither deadline nor priority and the default debug context is empty.  The debug
  context the modern call hands back is dropped, and the wrapper after the call
  differs from the wrapper before it in the state of its handle only: nothing of
  the options or the debug context is kept.
\<close>

theorem per_call_context_is_default:
  assumes "sq_target w_sq = Some t_sq"
    and "ra_target w_ra = Some t_ra"
    and "wf_target w_wf = Some t_wf"
    and "rw_target w_rw = Some t_rw"
    and "dir_target w_dir = Some t_dir"
  shows "deadline IOOptions_default = None \<and> priority IOOptions_default = None
    \<and> IODebugContext_default = []
    \<and> CompositeSequentialFileWrapper_Read w_sq n result scratch =
        (case sq_Read t_sq n IOOptions_default result scratch IODebugContext_default (sq_state t_sq) of
           (status, result, dbg, s) \<Rightarrow>
             Some (status, result, w_sq\<lparr>sq_target := Some (t_sq\<lparr>sq_state := s\<rparr>)\<rparr>))
    \<and> CompositeSequentialFileWrapper_PositionedRead w_sq offset n result scratch =
        (case sq_PositionedRead t_sq offset n IOOptions_default result scratch IODebugContext_default (sq_state t_sq) of
           (status, result, dbg, s) \<Rightarrow>
             Some (status, result, w_sq\<lparr>sq_target := Some (t_sq\<lparr>sq_state := s\<rparr>)\<rparr>))
    \<and> CompositeRandomAccessFileWrapper_Read w_ra offset n result scratch =
        (case ra_Read t_ra offset n IOOptions_default result scratch IODebugContext_default (ra_state t_ra) of
           (status, result, dbg) \<Rightarrow>
             Some (status, result))
    \<and> (num_reqs \<le> length reqs \<longrightarrow>
       CompositeRandomAccessFileWrapper_MultiRead w_ra reqs num_reqs =
        (case ra_MultiRead t_ra
                (MultiRead_copy_in reqs num_reqs 0 (replicate num_reqs FSReadRequest_default))
                num_reqs IOOptions_default IODebugContext_default (ra_state t_ra) of
           (status, fs_reqs, dbg, s) \<Rightarrow>
             Some (status, MultiRead_copy_out fs_reqs num_reqs 0 reqs, w_ra\<lparr>ra_target := Some (t_ra\<lparr>ra_state := s\<rparr>)\<rparr>)))
    \<and> CompositeRandomAccessFileWrapper_Prefetch w_ra offset n =
        (case ra_Prefetch t_ra offset n IOOptions_default IODebugContext_default (ra_state t_ra) of
           (status, dbg, s) \<Rightarrow>
             Some (status, w_ra\<lparr>ra_target := Some (t_ra\<lparr>ra_state := s\<rparr>)\<rparr>))
    \<and> CompositeWritableFileWrapper_Append w_wf data =
        (case wf_Append t_wf data IOOptions_default IODebugContext_default (wf_state t_wf) of
           (status, dbg, s) \<Rightarrow>
             Some (status, w_wf\<lparr>wf_target := Some (t_wf\<lparr>wf_state := s\<rparr>)\<rparr>))
    \<and> CompositeWritableFileWrapper_Append_verified w_wf data verification_info =
        (case wf_Append_verified t_wf data IOOptions_default verification_info IODebugContext_default (wf_state t_wf) of
           (status, dbg, s) \<Rightarrow>
             Some (status, w_wf\<lparr>wf_target := Some (t_wf\<lparr>wf_state := s\<rparr>)\<rparr>))
    \<and> CompositeWritableFileWrapper_PositionedAppend w_wf data offset =
        (case wf_PositionedAppend t_wf data offset IOOptions_default IODebugContext_default (wf_state t_wf) of
           (status, dbg, s) \<Rightarrow>
             Some (status, w_wf\<lparr>wf_target := Some (t_wf\<lparr>wf_state := s\<rparr>)\<rparr>))
    \<and> CompositeWritableFileWrapper_PositionedAppend_verified w_wf data offset verification_info =
        (case wf_PositionedAppend_verified t_wf data offset IOOptions_default verification_info IODebugContext_default (wf_state t_wf) of
           (status, dbg, s) \<Rightarrow>
             Some (status, w_wf\<lparr>wf_target := Some (t_wf\<lparr>wf_state := s\<rparr>)\<rparr>))
    \<and> CompositeWritableFileWrapper_Truncate w_wf size' =
        (case wf_Truncate t_wf size' IOOptions_default IODebugContext_default (wf_state t_wf) of
           (status, dbg, s) \<Rightarrow>
             Some (status, w_wf\<lparr>wf_target := Some (t_wf\<lparr>wf_state := s\<rparr>)\<rparr>))
    \<and> CompositeWritableFileWrapper_Close w_wf =
        (case wf_Close t_wf IOOptions_default IODebugContext_default (wf_state t_wf) of
           (status, dbg, s) \<Rightarrow>
             Some (status, w_wf\<lparr>wf_target := Some (t_wf\<lparr>wf_state := s\<rparr>)\<rparr>))
    \<and> CompositeWritableFileWrapper_Flush w_wf =
        (case wf_Flush t_wf IOOptions_default IODebugContext_default (wf_state t_wf) of
           (status, dbg, s) \<Rightarrow>
             Some (status, w_wf\<lparr>wf_target := Some (t_wf\<lparr>wf_state := s\<rparr>)\<rparr>))
    \<and> CompositeWritableFileWrapper_Sync w_wf =
        (case wf_Sync t_wf IOOptions_default IODebugContext_default (wf_state t_wf) of
           (status, dbg, s) \<Rightarrow>
             Some (status, w_wf\<lparr>wf_target := Some (t_wf\<lparr>wf_state := s\<rparr>)\<rparr>))
    \<and> CompositeWritableFileWrapper_Fsync w_wf =
        (case wf_Fsync t_wf IOOptions_default IODebugContext_default (wf_state t_wf) of
           (status, dbg, s) \<Rightarrow>
             Some (status, w_wf\<lparr>wf_target := Some (t_wf\<lparr>wf_state := s\<rparr>)\<rparr>))
    \<and> CompositeWritableFileWrapper_GetFileSize w_wf =
        (case wf_GetFileSize t_wf IOOptions_default IODebugContext_default (wf_state t_wf) of
           (file_size, dbg, s) \<Rightarrow>
             Some (file_size, w_wf\<lparr>wf_target := Some (t_wf\<lparr>wf_state := s\<rparr>)\<rparr>))
    \<and> CompositeWritableFileWrapper_RangeSync w_wf offset nbytes =
        (case wf_RangeSync t_wf offset nbytes IOOptions_default IODebugContext_default (wf_state t_wf) of
           (status, dbg, s) \<Rightarrow>
             Some (status, w_wf\<lparr>wf_target := Some (t_wf\<lparr>wf_state := s\<rparr>)\<rparr>))
    \<and> CompositeWritableFileWrapper_PrepareWrite w_wf offset len =
        (case wf_PrepareWrite t_wf offset len IOOptions_default IODebugContext_default (wf_state t_wf) of
           (dbg, s) \<Rightarrow>
             Some (w_wf\<lparr>wf_target := Some (t_wf\<lparr>wf_state := s\<rparr>)\<rparr>))
    \<and> CompositeWritableFileWrapper_Allocate w_wf offset len =
        (case wf_Allocate t_wf offset len IOOptions_default IODebugContext_default (wf_state t_wf) of
           (status, dbg, s) \<Rightarrow>
             Some (status, w_wf\<lparr>wf_target := Some (t_wf\<lparr>wf_state := s\<rparr>)\<rparr>))
    \<and> CompositeRandomRWFileWrapper_Write w_rw offset data =
        (case rw_Write t_rw offset data IOOptions_default IODebugContext_default (rw_state t_rw) of
           (status, dbg, s) \<Rightarrow>
             Some (status, w_rw\<lparr>rw_target := Some (t_rw\<lparr>rw_state := s\<rparr>)\<rparr>))
    \<and> CompositeRandomRWFileWrapper_Read w_rw offset n result scratch =
        (case rw_Read t_rw offset n IOOptions_default result scratch IODebugContext_default (rw_state t_rw) of
           (status, result, dbg) \<Rightarrow>
             Some (status, result))
    \<and> CompositeRandomRWFileWrapper_Flush w_rw =
        (case rw_Flush t_rw IOOptions_default IODebugContext_default (rw_state t_rw) of
           (status, dbg, s) \<Rightarrow>
             Some (status, w_rw\<lparr>rw_target := Some (t_rw\<lparr>rw_state := s\<rparr>)\<rparr>))
    \<and> CompositeRandomRWFileWrapper_Sync w_rw =
        (case rw_Sync t_rw IOOptions_default IODebugContext_default (rw_state t_rw) of
           (status, dbg, s) \<Rightarrow>
             Some (status, w_rw\<lparr>rw_target := Some (t_rw\<lparr>rw_state := s\<rparr>)\<rparr>))
    \<and> CompositeRandomRWFileWrapper_Fsync w_rw =
        (case rw_Fsync t_rw IOOptions_default IODebugContext_default (rw_state t_rw) of
           (status, dbg, s) \<Rightarrow>
             Some (status, w_rw\<lparr>rw_target := Some (t_rw\<lparr>rw_state := s\<rparr>)\<rparr>))
    \<and> CompositeRandomRWFileWrapper_Close w_rw =
        (case rw_Close t_rw IOOptions_default IODebugContext_default (rw_state t_rw) of
           (status, dbg, s) \<Rightarrow>
             Some (status, w_rw\<lparr>rw_target := Some (t_rw\<lparr>rw_state := s\<rparr>)\<rparr>))
    \<and> CompositeDirectoryWrapper_Fsync w_dir =
        (case dir_FsyncWithDirOptions t_dir IOOptions_default IODebugContext_default DirFsyncOptions_default (dir_state t_dir) of
           (status, dbg, s) \<Rightarrow>
             Some (status, w_dir\<lparr>dir_target := Some (t_dir\<lparr>dir_state := s\<rparr>)\<rparr>))"
  using assms
  by (intro conjI impI)
     (simp_all add: IOOptions_default_def IODebugContext_default_def
        CompositeSequentialFileWrapper_Read_def
        CompositeSequentialFileWrapper_PositionedRead_def
        CompositeRandomAccessFileWrapper_Read_def
        CompositeRandomAccessFileWrapper_MultiRead_def
        CompositeRandomAccessFileWrapper_Prefetch_def
        CompositeWritableFileWrapper_Append_def
        CompositeWritableFileWrapper_Append_verified_def
        CompositeWritableFileWrapper_PositionedAppend_def
        CompositeWritableFileWrapper_PositionedAppend_verified_def
        CompositeWritableFileWrapper_Truncate_def CompositeWritableFileWrapper_Close_def
        CompositeWritableFileWrapper_Flush_def CompositeWritableFileWrapper_Sync_def
        CompositeWritableFileWrapper_Fsync_def CompositeWritableFileWrapper_GetFileSize_def
        CompositeWritableFileWrapper_RangeSync_def
        CompositeWritableFileWrapper_PrepareWrite_def
        CompositeWritableFileWrapper_Allocate_def CompositeRandomRWFileWrapper_Write_def
        CompositeRandomRWFileWrapper_Read_def CompositeRandomRWFileWrapper_Flush_def
        CompositeRandomRWFileWrapper_Sync_def CompositeRandomRWFileWrapper_Fsync_def
        CompositeRandomRWFileWrapper_Close_def CompositeDirectoryWrapper_Fsync_def)

theorem per_call_context_is_default_witness:
  "CompositeSequentialFileWrapper_Read
     \<lparr>sq_target = Some recording_FSSequentialFile\<rparr> 4 '''' 100 =
     Some (Status_OK, ''0123'',
           \<lparr>sq_target = Some (recording_FSSequentialFile
              \<lparr>sq_state :=
                 [(''Read'', [A_num 4, A_io \<lparr>deadline = None, priority = None\<rparr>,
                              A_num 100, A_dbg []])]\<rparr>)\<rparr>)
   \<and> CompositeRandomAccessFileWrapper_Prefetch
     \<lparr>ra_target = Some recording_FSRandomAccessFile\<rparr> 5 4 =
     Some (Status_OK,
           \<lparr>ra_target = Some (recording_FSRandomAccessFile
              \<lparr>ra_state :=
                 [(''Prefetch'', [A_num 5, A_num 4, A_io \<lparr>deadline = None, priority = None\<rparr>,
                                  A_dbg []])]\<rparr>)\<rparr>)
   \<and> CompositeWritableFileWrapper_Append
     \<lparr>wf_target = Some recording_FSWritableFile\<rparr> ''abc'' =
     Some (Status_OK,
           \<lparr>wf_target = Some (recording_FSWritableFile
              \<lparr>wf_state :=
                 [(''Append'', [A_bytes ''abc'', A_io \<lparr>deadline = None, priority = None\<rparr>,
                                A_dbg []])]\<rparr>)\<rparr>)
   \<and> CompositeRandomRWFileWrapper_Write
     \<lparr>rw_target = Some recording_FSRandomRWFile\<rparr> 5 ''abc'' =
     Some (Status_OK,
           \<lparr>rw_target = Some (recording_FSRandomRWFile
              \<lparr>rw_state :=
                 [(''Write'', [A_num 5, A_bytes ''abc'',
                               A_io \<lparr>deadline = None, priority = None\<rparr>, A_dbg []])]\<rparr>)\<rparr>)
   \<and> CompositeDirectoryWrapper_Fsync \<lparr>dir_target = Some recording_FSDirectory\<rparr> =
     Some (Status_OK,
           \<lparr>dir_target = Some (recording_FSDirectory
              \<lparr>dir_state :=
                 [(''FsyncWithDirOptions'',
                   [A_io \<lparr>deadline = None, priority = None\<rparr>, A_dbg [],
                    A_dirfsync DirFsyncOptions_default])]\<rparr>)\<rparr>)"
proof -
  have sq: "sq_target \<lparr>sq_target = Some recording_FSSequentialFile\<rparr> =
              Some recording_FSSequentialFile"
    by simp
  have ra: "ra_target \<lparr>ra_target = Some recording_FSRandomAccessFile\<rparr> =
              Some recording_FSRandomAccessFile"
    by simp
  have wf: "wf_target \<lparr>wf_target = Some recording_FSWritableFile\<rparr> =
              Some recording_FSWritableFile"
    by simp
  have rw: "rw_target \<lparr>rw_target = Some recording_FSRandomRWFile\<rparr> =
              Some recording_FSRandomRWFile"
    by simp
  have dir: "dir_target \<lparr>dir_target = Some recording_FSDirectory\<rparr> =
              Some recording_FSDirectory"
    by simp
  note calls = per_call_context_is_default [OF sq ra wf rw dir,
      where n = 4 and result = "''''" and scratch = 100 and offset = 5 and data = "''abc''"
        and num_reqs = 0 and reqs = "[]" and verification_info = "\<lparr>checksum = ''''\<rparr>"
        and size' = 0 and nbytes = 0 and len = 0]
  have c_read: "CompositeSequentialFileWrapper_Read
       \<lparr>sq_target = Some recording_FSSequentialFile\<rparr> 4 '''' 100 =
     (case sq_Read recording_FSSequentialFile 4 IOOptions_default '''' 100
             IODebugContext_default (sq_state recording_FSSequentialFile) of
        (status, result, dbg, s) \<Rightarrow>
          Some (status, result,
                \<lparr>sq_target = Some recording_FSSequentialFile\<rparr>
                  \<lparr>sq_target := Some (recording_FSSequentialFile\<lparr>sq_state := s\<rparr>)\<rparr>))"
    using calls by blast
  have c_prefetch: "CompositeRandomAccessFileWrapper_Prefetch
       \<lparr>ra_target = Some recording_FSRandomAccessFile\<rparr> 5 4 =
     (case ra_Prefetch recording_FSRandomAccessFile 5 4 IOOptions_default
             IODebugContext_default (ra_state recording_FSRandomAccessFile) of
        (status, dbg, s) \<Rightarrow>
          Some (status,
                \<lparr>ra_target = Some recording_FSRandomAccessFile\<rparr>
                  \<lparr>ra_target := Some (recording_FSRandomAccessFile\<lparr>ra_state := s\<rparr>)\<rparr>))"
    using calls by blast
  have c_append: "CompositeWritableFileWrapper_Append
       \<lparr>wf_target = Some recording_FSWritableFile\<rparr> ''abc'' =
     (case wf_Append recording_FSWritableFile ''abc'' IOOptions_default
             IODebugContext_default (wf_state recording_FSWritableFile) of
        (status, dbg, s) \<Rightarrow>
          Some (status,
                \<lparr>wf_target = Some recording_FSWritableFile\<rparr>
                  \<lparr>wf_target := Some (recording_FSWritableFile\<lparr>wf_state := s\<rparr>)\<rparr>))"
    using calls by blast
  have c_write: "CompositeRandomRWFileWrapper_Write
       \<lparr>rw_target = Some recording_FSRandomRWFile\<rparr> 5 ''abc'' =
     (case rw_Write recording_FSRandomRWFile 5 ''abc'' IOOptions_default
             IODebugContext_default (rw_state recording_FSRandomRWFile) of
        (status, dbg, s) \<Rightarrow>
          Some (status,
                \<lparr>rw_target = Some recording_FSRandomRWFile\<rparr>
                  \<lparr>rw_target := Some (recording_FSRandomRWFile\<lparr>rw_state := s\<rparr>)\<rparr>))"
    using calls by blast
  have c_fsync: "CompositeDirectoryWrapper_Fsync \<lparr>dir_target = Some recording_FSDirectory\<rparr> =
     (case dir_FsyncWithDirOptions recording_FSDirectory IOOptions_default
             IODebugContext_default DirFsyncOptions_default (dir_state recording_FSDirectory) of
        (status, dbg, s) \<Rightarrow>
          Some (status,
                \<lparr>dir_target = Some recording_FSDirectory\<rparr>
                  \<lparr>dir_target := Some (recording_FSDirectory\<lparr>dir_state := s\<rparr>)\<rparr>))"
    using calls by blast
  show ?thesis
    unfolding c_read c_prefetch c_append c_write c_fsync
    by (simp add: recording_FSSequentialFile_def recording_FSRandomAccessFile_def
          recording_FSWritableFile_def recording_FSRandomRWFile_def recording_FSDirectory_def
          IOOptions_default_def IODebugContext_default_def recorded_content_def)
qed

section \<open>Pass-through queries\<close>

text \<open>
  C8.  The direct-I/O flag and the required buffer alignment of the four file
  wrappers, and the write-lifetime hint of the writable-file wrapper, are those of
  the wrapped handle: each query returns what the same query returns on the handle,
  setting the hint sets it on the handle, and the hint read through the wrapper
  after setting it is the hint read from the handle after setting it there.  The
  flag and the alignment are functions of the wrapper and change nothing, so asking
  again gives the same answer; reading the hint gives the same wrapper back, hence
  the same answer again, when the handle's getter leaves the handle as it is.
\<close>

theorem queries_pass_through:
  assumes "sq_target w_sq = Some t_sq"
    and "ra_target w_ra = Some t_ra"
    and "wf_target w_wf = Some t_wf"
    and "rw_target w_rw = Some t_rw"
  shows "CompositeSequentialFileWrapper_use_direct_io w_sq =
        Some (sq_use_direct_io t_sq (sq_state t_sq))
    \<and> CompositeRandomAccessFileWrapper_use_direct_io w_ra =
        Some (ra_use_direct_io t_ra (ra_state t_ra))
    \<and> CompositeWritableFileWrapper_use_direct_io w_wf =
        Some (wf_use_direct_io t_wf (wf_state t_wf))
    \<and> CompositeRandomRWFileWrapper_use_direct_io w_rw =
        Some (rw_use_direct_io t_rw (rw_state t_rw))
    \<and> CompositeSequentialFileWrapper_GetRequiredBufferAlignment w_sq =
        Some (sq_GetRequiredBufferAlignment t_sq (sq_state t_sq))
    \<and> CompositeRandomAccessFileWrapper_GetRequiredBufferAlignment w_ra =
        Some (ra_GetRequiredBufferAlignment t_ra (ra_state t_ra))
    \<and> CompositeWritableFileWrapper_GetRequiredBufferAlignment w_wf =
        Some (wf_GetRequiredBufferAlignment t_wf (wf_state t_wf))
    \<and> CompositeRandomRWFileWrapper_GetRequiredBufferAlignment w_rw =
        Some (rw_GetRequiredBufferAlignment t_rw (rw_state t_rw))
    \<and> CompositeWritableFileWrapper_SetWriteLifeTimeHint w_wf hint =
        Some (w_wf\<lparr>wf_target := Some (t_wf\<lparr>wf_state := wf_SetWriteLifeTimeHint t_wf hint (wf_state t_wf)\<rparr>)\<rparr>)
    \<and> CompositeWritableFileWrapper_GetWriteLifeTimeHint w_wf =
        (case wf_GetWriteLifeTimeHint t_wf (wf_state t_wf) of
           (hint, s) \<Rightarrow>
             Some (hint, w_wf\<lparr>wf_target := Some (t_wf\<lparr>wf_state := s\<rparr>)\<rparr>))
    \<and> (case CompositeWritableFileWrapper_SetWriteLifeTimeHint w_wf hint of
         None \<Rightarrow> False
       | Some w' \<Rightarrow>
           CompositeWritableFileWrapper_GetWriteLifeTimeHint w' =
             (case wf_GetWriteLifeTimeHint t_wf (wf_SetWriteLifeTimeHint t_wf hint (wf_state t_wf)) of
                (hint', s) \<Rightarrow>
                  Some (hint', w_wf\<lparr>wf_target := Some (t_wf\<lparr>wf_state := s\<rparr>)\<rparr>)))
    \<and> (snd (wf_GetWriteLifeTimeHint t_wf (wf_state t_wf)) = wf_state t_wf \<longrightarrow>
       CompositeWritableFileWrapper_GetWriteLifeTimeHint w_wf =
         Some (fst (wf_GetWriteLifeTimeHint t_wf (wf_state t_wf)), w_wf))"
  using assms
  by (intro conjI impI)
     (simp_all add: split_beta
        CompositeSequentialFileWrapper_use_direct_io_def
        CompositeRandomAccessFileWrapper_use_direct_io_def
        CompositeWritableFileWrapper_use_direct_io_def
        CompositeRandomRWFileWrapper_use_direct_io_def
        CompositeSequentialFileWrapper_GetRequiredBufferAlignment_def
        CompositeRandomAccessFileWrapper_GetRequiredBufferAlignment_def
        CompositeWritableFileWrapper_GetRequiredBufferAlignment_def
        CompositeRandomRWFileWrapper_GetRequiredBufferAlignment_def
        CompositeWritableFileWrapper_SetWriteLifeTimeHint_def
        CompositeWritableFileWrapper_GetWriteLifeTimeHint_def)

theorem queries_pass_through_witness:
  "CompositeSequentialFileWrapper_use_direct_io
     \<lparr>sq_target = Some recording_FSSequentialFile\<rparr> = Some False
   \<and> CompositeRandomAccessFileWrapper_GetRequiredBufferAlignment
     \<lparr>ra_target = Some recording_FSRandomAccessFile\<rparr> = Some 4096
   \<and> CompositeRandomRWFileWrapper_GetRequiredBufferAlignment
     \<lparr>rw_target = Some recording_FSRandomRWFile\<rparr> = Some 4096
   \<and> CompositeWritableFileWrapper_GetWriteLifeTimeHint
     \<lparr>wf_target = Some recording_FSWritableFile\<rparr> =
     Some (0, \<lparr>wf_target = Some recording_FSWritableFile\<rparr>)
   \<and> CompositeWritableFileWrapper_GetWriteLifeTimeHint
     \<lparr>wf_target = Some (recording_FSWritableFile
        \<lparr>wf_state := [(''SetWriteLifeTimeHint'', [A_num 3])]\<rparr>)\<rparr> =
     Some (3, \<lparr>wf_target = Some (recording_FSWritableFile
        \<lparr>wf_state := [(''SetWriteLifeTimeHint'', [A_num 3])]\<rparr>)\<rparr>)"
proof -
  have sq: "sq_target \<lparr>sq_target = Some recording_FSSequentialFile\<rparr> =
              Some recording_FSSequentialFile"
    by simp
  have ra: "ra_target \<lparr>ra_target = Some recording_FSRandomAccessFile\<rparr> =
              Some recording_FSRandomAccessFile"
    by simp
  have wf: "wf_target \<lparr>wf_target = Some recording_FSWritableFile\<rparr> =
              Some recording_FSWritableFile"
    by simp
  have rw: "rw_target \<lparr>rw_target = Some recording_FSRandomRWFile\<rparr> =
              Some recording_FSRandomRWFile"
    by simp
  show ?thesis
    using queries_pass_through [OF sq ra wf rw, of 3]
    by (simp add: recording_FSSequentialFile_def recording_FSRandomAccessFile_def
          recording_FSWritableFile_def recording_FSRandomRWFile_def
          CompositeWritableFileWrapper_SetWriteLifeTimeHint_def)
qed
section \<open>Creation through the composite environment\<close>

text \<open>
  C2.  When the backend's creation call returns a status that is not ok, each of the
  seven creation operations returns that status as it is, leaves the caller's output
  handle \<open>r\<close> as it was (empty when it was empty: no wrapper is built), and has made
  that one backend call and no other.
\<close>

theorem failed_creation_leaves_output_unset:
  assumes "file_system env = Some fs"
  shows "(fs_NewSequentialFile fs f (FileOptions options) None IODebugContext_default (fs_state fs) =
         (status, file_sq, dbg, s) \<and> \<not> ok status \<longrightarrow>
       CompositeEnv_NewSequentialFile env f r_sq options =
         Some (status, r_sq, env\<lparr>file_system := Some (fs\<lparr>fs_state := s\<rparr>)\<rparr>))
    \<and> (fs_NewRandomAccessFile fs f (FileOptions options) None IODebugContext_default (fs_state fs) =
         (status, file_ra, dbg, s) \<and> \<not> ok status \<longrightarrow>
       CompositeEnv_NewRandomAccessFile env f r_ra options =
         Some (status, r_ra, env\<lparr>file_system := Some (fs\<lparr>fs_state := s\<rparr>)\<rparr>))
    \<and> (fs_NewWritableFile fs f (FileOptions options) None IODebugContext_default (fs_state fs) =
         (status, file_wf, dbg, s) \<and> \<not> ok status \<longrightarrow>
       CompositeEnv_NewWritableFile env f r_wf options =
         Some (status, r_wf, env\<lparr>file_system := Some (fs\<lparr>fs_state := s\<rparr>)\<rparr>))
    \<and> (fs_ReopenWritableFile fs fname (FileOptions options) None IODebugContext_default (fs_state fs) =
         (status, file_wf, dbg, s) \<and> \<not> ok status \<longrightarrow>
       CompositeEnv_ReopenWritableFile env fname r_wf options =
         Some (status, r_wf, env\<lparr>file_system := Some (fs\<lparr>fs_state := s\<rparr>)\<rparr>))
    \<and> (fs_ReuseWritableFile fs fname old_fname (FileOptions options) None IODebugContext_default (fs_state fs) =
         (status, file_wf, dbg, s) \<and> \<not> ok status \<longrightarrow>
       CompositeEnv_ReuseWritableFile env fname old_fname r_wf options =
         Some (status, r_wf, env\<lparr>file_system := Some (fs\<lparr>fs_state := s\<rparr>)\<rparr>))
    \<and> (fs_NewRandomRWFile fs fname (FileOptions options) None IODebugContext_default (fs_state fs) =
         (status, file_rw, dbg, s) \<and> \<not> ok status \<longrightarrow>
       CompositeEnv_NewRandomRWFile env fname r_rw options =
         Some (status, r_rw, env\<lparr>file_system := Some (fs\<lparr>fs_state := s\<rparr>)\<rparr>))
    \<and> (fs_NewDirectory fs name IOOptions_default None IODebugContext_default (fs_state fs) =
         (status, file_dir, dbg, s) \<and> \<not> ok status \<longrightarrow>
       CompositeEnv_NewDirectory env name r_dir =
         Some (status, r_dir, env\<lparr>file_system := Some (fs\<lparr>fs_state := s\<rparr>)\<rparr>))"
  using assms
  by (intro conjI impI)
     (simp_all add:
        CompositeEnv_NewSequentialFile_def CompositeEnv_NewRandomAccessFile_def
        CompositeEnv_NewWritableFile_def CompositeEnv_ReopenWritableFile_def
        CompositeEnv_ReuseWritableFile_def CompositeEnv_NewRandomRWFile_def
        CompositeEnv_NewDirectory_def)
theorem failed_creation_leaves_output_unset_witness:
  "CompositeEnv_NewSequentialFile
     \<lparr>file_system = Some recording_FileSystem\<rparr> ''missing'' None (7::nat) =
     Some (\<lparr>kind = kNotFound, message = ''missing''\<rparr>, None,
           \<lparr>file_system = Some (recording_FileSystem
              \<lparr>fs_state :=
                 [Creation ''NewSequentialFile'' [''missing''] (Inl (FileOptions 7))
                    IODebugContext_default]\<rparr>)\<rparr>)
   \<and> CompositeEnv_NewWritableFile
     \<lparr>file_system = Some recording_FileSystem\<rparr> ''missing''
     (Some \<lparr>wf_target = Some recording_FSWritableFile\<rparr>) (7::nat) =
     Some (\<lparr>kind = kNotFound, message = ''missing''\<rparr>,
           Some \<lparr>wf_target = Some recording_FSWritableFile\<rparr>,
           \<lparr>file_system = Some (recording_FileSystem
              \<lparr>fs_state :=
                 [Creation ''NewWritableFile'' [''missing''] (Inl (FileOptions 7))
                    IODebugContext_default]\<rparr>)\<rparr>)
   \<and> \<not> ok \<lparr>kind = kNotFound, message = ''missing''\<rparr>"
proof -
  let ?fs = "recording_FileSystem :: (nat, nat Creation list, Call list) FileSystem"
  let ?env = "\<lparr>file_system = Some ?fs\<rparr>"
  let ?not_found = "\<lparr>kind = kNotFound, message = ''missing''\<rparr>"
  let ?held = "Some \<lparr>wf_target = Some recording_FSWritableFile\<rparr>"
  have env: "file_system ?env = Some ?fs"
    by simp
  have failed: "\<not> ok ?not_found"
    by (simp add: ok_def)
  have sq: "fs_NewSequentialFile ?fs ''missing'' (FileOptions 7) None IODebugContext_default
              (fs_state ?fs) =
            (?not_found, None, IODebugContext_default,
             [Creation ''NewSequentialFile'' [''missing''] (Inl (FileOptions 7))
                IODebugContext_default])"
    by (simp add: recording_FileSystem_def recording_create_def)
  have wf: "fs_NewWritableFile ?fs ''missing'' (FileOptions 7) None IODebugContext_default
              (fs_state ?fs) =
            (?not_found, None, IODebugContext_default,
             [Creation ''NewWritableFile'' [''missing''] (Inl (FileOptions 7))
                IODebugContext_default])"
    by (simp add: recording_FileSystem_def recording_create_def)
  note sq_case = failed_creation_leaves_output_unset [OF env,
      where f = "''missing''" and options = 7 and status = ?not_found and file_sq = None
        and dbg = IODebugContext_default and r_sq = None
        and s = "[Creation ''NewSequentialFile'' [''missing''] (Inl (FileOptions 7))
                    IODebugContext_default]",
      THEN conjunct1, rule_format, OF conjI, OF sq failed]
  note wf_case = failed_creation_leaves_output_unset [OF env,
      where f = "''missing''" and options = 7 and status = ?not_found and file_wf = None
        and dbg = IODebugContext_default and r_wf = ?held
        and s = "[Creation ''NewWritableFile'' [''missing''] (Inl (FileOptions 7))
                    IODebugContext_default]",
      THEN conjunct2, THEN conjunct2, THEN conjunct1, rule_format, OF conjI, OF wf failed]
  from sq_case wf_case failed show ?thesis
    by simp
qed

section \<open>A created handle delegates to the backend's handle\<close>

text \<open>
  C3.  When the backend's creation call returns an ok status, each of the seven
  creation operations returns that status and a wrapper whose \<^verbatim>\<open>target_\<close> is the handle
  the backend left in \<^verbatim>\<open>file\<close>.  Every legacy operation on a wrapper that holds a handle
  \<open>t\<close> is the operation of the same name on \<open>t\<close> (with the default options and the empty
  debug context where the modern operation takes them): it returns what \<open>t\<close> returns, and
  the wrapper afterwards holds \<open>t\<close> in the state the operation left it in.
\<close>

theorem created_handle_delegates:
  assumes "file_system env = Some fs"
    and "sq_target w_sq = Some t_sq"
    and "ra_target w_ra = Some t_ra"
    and "wf_target w_wf = Some t_wf"
    and "rw_target w_rw = Some t_rw"
    and "dir_target w_dir = Some t_dir"
  shows "(fs_NewSequentialFile fs f (FileOptions options) None IODebugContext_default (fs_state fs) =
         (status, file_sq, dbg, s) \<and> ok status \<longrightarrow>
       CompositeEnv_NewSequentialFile env f r_sq options =
         Some (status, Some \<lparr>sq_target = file_sq\<rparr>, env\<lparr>file_system := Some (fs\<lparr>fs_state := s\<rparr>)\<rparr>))
    \<and> (fs_NewRandomAccessFile fs f (FileOptions options) None IODebugContext_default (fs_state fs) =
         (status, file_ra, dbg, s) \<and> ok status \<longrightarrow>
       CompositeEnv_NewRandomAccessFile env f r_ra options =
         Some (status, Some \<lparr>ra_target = file_ra\<rparr>, env\<lparr>file_system := Some (fs\<lparr>fs_state := s\<rparr>)\<rparr>))
    \<and> (fs_NewWritableFile fs f (FileOptions options) None IODebugContext_default (fs_state fs) =
         (status, file_wf, dbg, s) \<and> ok status \<longrightarrow>
       CompositeEnv_NewWritableFile env f r_wf options =
         Some (status, Some \<lparr>wf_target = file_wf\<rparr>, env\<lparr>file_system := Some (fs\<lparr>fs_state := s\<rparr>)\<rparr>))
    \<and> (fs_ReopenWritableFile fs fname (FileOptions options) None IODebugContext_default (fs_state fs) =
         (status, file_wf, dbg, s) \<and> ok status \<longrightarrow>
       CompositeEnv_ReopenWritableFile env fname r_wf options =
         Some (status, Some \<lparr>wf_target = file_wf\<rparr>, env\<lparr>file_system := Some (fs\<lparr>fs_state := s\<rparr>)\<rparr>))
    \<and> (fs_ReuseWritableFile fs fname old_fname (FileOptions options) None IODebugContext_default (fs_state fs) =
         (status, file_wf, dbg, s) \<and> ok status \<longrightarrow>
       CompositeEnv_ReuseWritableFile env fname old_fname r_wf options =
         Some (status, Some \<lparr>wf_target = file_wf\<rparr>, env\<lparr>file_system := Some (fs\<lparr>fs_state := s\<rparr>)\<rparr>))
    \<and> (fs_NewRandomRWFile fs fname (FileOptions options) None IODebugContext_default (fs_state fs) =
         (status, file_rw, dbg, s) \<and> ok status \<longrightarrow>
       CompositeEnv_NewRandomRWFile env fname r_rw options =
         Some (status, Some \<lparr>rw_target = file_rw\<rparr>, env\<lparr>file_system := Some (fs\<lparr>fs_state := s\<rparr>)\<rparr>))
    \<and> (fs_NewDirectory fs name IOOptions_default None IODebugContext_default (fs_state fs) =
         (status, file_dir, dbg, s) \<and> ok status \<longrightarrow>
       CompositeEnv_NewDirectory env name r_dir =
         Some (status, Some \<lparr>dir_target = file_dir\<rparr>, env\<lparr>file_system := Some (fs\<lparr>fs_state := s\<rparr>)\<rparr>))
    \<and> CompositeSequentialFileWrapper_Read w_sq n result scratch =
        (case sq_Read t_sq n IOOptions_default result scratch IODebugContext_default (sq_state t_sq) of
           (status, result, dbg, s) \<Rightarrow>
             Some (status, result, w_sq\<lparr>sq_target := Some (t_sq\<lparr>sq_state := s\<rparr>)\<rparr>))
    \<and> CompositeSequentialFileWrapper_Skip w_sq n =
        (case sq_Skip t_sq n (sq_state t_sq) of
           (status, s) \<Rightarrow>
             Some (status, w_sq\<lparr>sq_target := Some (t_sq\<lparr>sq_state := s\<rparr>)\<rparr>))
    \<and> CompositeSequentialFileWrapper_use_direct_io w_sq =
        Some (sq_use_direct_io t_sq (sq_state t_sq))
    \<and> CompositeSequentialFileWrapper_GetRequiredBufferAlignment w_sq =
        Some (sq_GetRequiredBufferAlignment t_sq (sq_state t_sq))
    \<and> CompositeSequentialFileWrapper_InvalidateCache w_sq offset length' =
        (case sq_InvalidateCache t_sq offset length' (sq_state t_sq) of
           (status, s) \<Rightarrow>
             Some (status, w_sq\<lparr>sq_target := Some (t_sq\<lparr>sq_state := s\<rparr>)\<rparr>))
    \<and> CompositeSequentialFileWrapper_PositionedRead w_sq offset n result scratch =
        (case sq_PositionedRead t_sq offset n IOOptions_default result scratch IODebugContext_default (sq_state t_sq) of
           (status, result, dbg, s) \<Rightarrow>
             Some (status, result, w_sq\<lparr>sq_target := Some (t_sq\<lparr>sq_state := s\<rparr>)\<rparr>))
    \<and> CompositeRandomAccessFileWrapper_Read w_ra offset n result scratch =
        (case ra_Read t_ra offset n IOOptions_default result scratch IODebugContext_default (ra_state t_ra) of
           (status, result, dbg) \<Rightarrow>
             Some (status, result))
    \<and> (num_reqs \<le> length reqs \<longrightarrow>
       CompositeRandomAccessFileWrapper_MultiRead w_ra reqs num_reqs =
        (case ra_MultiRead t_ra
                (MultiRead_copy_in reqs num_reqs 0 (replicate num_reqs FSReadRequest_default))
                num_reqs IOOptions_default IODebugContext_default (ra_state t_ra) of
           (status, fs_reqs, dbg, s) \<Rightarrow>
             Some (status, MultiRead_copy_out fs_reqs num_reqs 0 reqs, w_ra\<lparr>ra_target := Some (t_ra\<lparr>ra_state := s\<rparr>)\<rparr>)))
    \<and> CompositeRandomAccessFileWrapper_Prefetch w_ra offset n =
        (case ra_Prefetch t_ra offset n IOOptions_default IODebugContext_default (ra_state t_ra) of
           (status, dbg, s) \<Rightarrow>
             Some (status, w_ra\<lparr>ra_target := Some (t_ra\<lparr>ra_state := s\<rparr>)\<rparr>))
    \<and> CompositeRandomAccessFileWrapper_GetUniqueId w_ra id' max_size =
        Some (ra_GetUniqueId t_ra id' max_size (ra_state t_ra))
    \<and> CompositeRandomAccessFileWrapper_Hint w_ra pattern =
        Some (w_ra\<lparr>ra_target := Some (t_ra\<lparr>ra_state := ra_Hint t_ra pattern (ra_state t_ra)\<rparr>)\<rparr>)
    \<and> CompositeRandomAccessFileWrapper_use_direct_io w_ra =
        Some (ra_use_direct_io t_ra (ra_state t_ra))
    \<and> CompositeRandomAccessFileWrapper_GetRequiredBufferAlignment w_ra =
        Some (ra_GetRequiredBufferAlignment t_ra (ra_state t_ra))
    \<and> CompositeRandomAccessFileWrapper_InvalidateCache w_ra offset length' =
        (case ra_InvalidateCache t_ra offset length' (ra_state t_ra) of
           (status, s) \<Rightarrow>
             Some (status, w_ra\<lparr>ra_target := Some (t_ra\<lparr>ra_state := s\<rparr>)\<rparr>))
    \<and> CompositeWritableFileWrapper_Append w_wf data =
        (case wf_Append t_wf data IOOptions_default IODebugContext_default (wf_state t_wf) of
           (status, dbg, s) \<Rightarrow>
             Some (status, w_wf\<lparr>wf_target := Some (t_wf\<lparr>wf_state := s\<rparr>)\<rparr>))
    \<and> CompositeWritableFileWrapper_Append_verified w_wf data verification_info =
        (case wf_Append_verified t_wf data IOOptions_default verification_info IODebugContext_default (wf_state t_wf) of
           (status, dbg, s) \<Rightarrow>
             Some (status, w_wf\<lparr>wf_target := Some (t_wf\<lparr>wf_state := s\<rparr>)\<rparr>))
    \<and> CompositeWritableFileWrapper_PositionedAppend w_wf data offset =
        (case wf_PositionedAppend t_wf data offset IOOptions_default IODebugContext_default (wf_state t_wf) of
           (status, dbg, s) \<Rightarrow>
             Some (status, w_wf\<lparr>wf_target := Some (t_wf\<lparr>wf_state := s\<rparr>)\<rparr>))
    \<and> CompositeWritableFileWrapper_PositionedAppend_verified w_wf data offset verification_info =
        (case wf_PositionedAppend_verified t_wf data offset IOOptions_default verification_info IODebugContext_default (wf_state t_wf) of
           (status, dbg, s) \<Rightarrow>
             Some (status, w_wf\<lparr>wf_target := Some (t_wf\<lparr>wf_state := s\<rparr>)\<rparr>))
    \<and> CompositeWritableFileWrapper_Truncate w_wf size' =
        (case wf_Truncate t_wf size' IOOptions_default IODebugContext_default (wf_state t_wf) of
           (status, dbg, s) \<Rightarrow>
             Some (status, w_wf\<lparr>wf_target := Some (t_wf\<lparr>wf_state := s\<rparr>)\<rparr>))
    \<and> CompositeWritableFileWrapper_Close w_wf =
        (case wf_Close t_wf IOOptions_default IODebugContext_default (wf_state t_wf) of
           (status, dbg, s) \<Rightarrow>
             Some (status, w_wf\<lparr>wf_target := Some (t_wf\<lparr>wf_state := s\<rparr>)\<rparr>))
    \<and> CompositeWritableFileWrapper_Flush w_wf =
        (case wf_Flush t_wf IOOptions_default IODebugContext_default (wf_state t_wf) of
           (status, dbg, s) \<Rightarrow>
             Some (status, w_wf\<lparr>wf_target := Some (t_wf\<lparr>wf_state := s\<rparr>)\<rparr>))
    \<and> CompositeWritableFileWrapper_Sync w_wf =
        (case wf_Sync t_wf IOOptions_default IODebugContext_default (wf_state t_wf) of
           (status, dbg, s) \<Rightarrow>
             Some (status, w_wf\<lparr>wf_target := Some (t_wf\<lparr>wf_state := s\<rparr>)\<rparr>))
    \<and> CompositeWritableFileWrapper_Fsync w_wf =
        (case wf_Fsync t_wf IOOptions_default IODebugContext_default (wf_state t_wf) of
           (status, dbg, s) \<Rightarrow>
             Some (status, w_wf\<lparr>wf_target := Some (t_wf\<lparr>wf_state := s\<rparr>)\<rparr>))
    \<and> CompositeWritableFileWrapper_IsSyncThreadSafe w_wf =
        Some (wf_IsSyncThreadSafe t_wf (wf_state t_wf))
    \<and> CompositeWritableFileWrapper_use_direct_io w_wf =
        Some (wf_use_direct_io t_wf (wf_state t_wf))
    \<and> CompositeWritableFileWrapper_GetRequiredBufferAlignment w_wf =
        Some (wf_GetRequiredBufferAlignment t_wf (wf_state t_wf))
    \<and> CompositeWritableFileWrapper_SetWriteLifeTimeHint w_wf hint =
        Some (w_wf\<lparr>wf_target := Some (t_wf\<lparr>wf_state := wf_SetWriteLifeTimeHint t_wf hint (wf_state t_wf)\<rparr>)\<rparr>)
    \<and> CompositeWritableFileWrapper_GetWriteLifeTimeHint w_wf =
        (case wf_GetWriteLifeTimeHint t_wf (wf_state t_wf) of
           (hint, s) \<Rightarrow>
             Some (hint, w_wf\<lparr>wf_target := Some (t_wf\<lparr>wf_state := s\<rparr>)\<rparr>))
    \<and> CompositeWritableFileWrapper_GetFileSize w_wf =
        (case wf_GetFileSize t_wf IOOptions_default IODebugContext_default (wf_state t_wf) of
           (file_size, dbg, s) \<Rightarrow>
             Some (file_size, w_wf\<lparr>wf_target := Some (t_wf\<lparr>wf_state := s\<rparr>)\<rparr>))
    \<and> CompositeWritableFileWrapper_SetPreallocationBlockSize w_wf size' =
        Some (w_wf\<lparr>wf_target := Some (t_wf\<lparr>wf_state := wf_SetPreallocationBlockSize t_wf size' (wf_state t_wf)\<rparr>)\<rparr>)
    \<and> CompositeWritableFileWrapper_GetPreallocationStatus w_wf block_size last_allocated_block =
        (case wf_GetPreallocationStatus t_wf block_size last_allocated_block (wf_state t_wf) of
           (block_size, last_allocated_block, s) \<Rightarrow>
             Some (block_size, last_allocated_block, w_wf\<lparr>wf_target := Some (t_wf\<lparr>wf_state := s\<rparr>)\<rparr>))
    \<and> CompositeWritableFileWrapper_GetUniqueId w_wf id' max_size =
        Some (wf_GetUniqueId t_wf id' max_size (wf_state t_wf))
    \<and> CompositeWritableFileWrapper_InvalidateCache w_wf offset length' =
        (case wf_InvalidateCache t_wf offset length' (wf_state t_wf) of
           (status, s) \<Rightarrow>
             Some (status, w_wf\<lparr>wf_target := Some (t_wf\<lparr>wf_state := s\<rparr>)\<rparr>))
    \<and> CompositeWritableFileWrapper_RangeSync w_wf offset nbytes =
        (case wf_RangeSync t_wf offset nbytes IOOptions_default IODebugContext_default (wf_state t_wf) of
           (status, dbg, s) \<Rightarrow>
             Some (status, w_wf\<lparr>wf_target := Some (t_wf\<lparr>wf_state := s\<rparr>)\<rparr>))
    \<and> CompositeWritableFileWrapper_PrepareWrite w_wf offset len =
        (case wf_PrepareWrite t_wf offset len IOOptions_default IODebugContext_default (wf_state t_wf) of
           (dbg, s) \<Rightarrow>
             Some (w_wf\<lparr>wf_target := Some (t_wf\<lparr>wf_state := s\<rparr>)\<rparr>))
    \<and> CompositeWritableFileWrapper_Allocate w_wf offset len =
        (case wf_Allocate t_wf offset len IOOptions_default IODebugContext_default (wf_state t_wf) of
           (status, dbg, s) \<Rightarrow>
             Some (status, w_wf\<lparr>wf_target := Some (t_wf\<lparr>wf_state := s\<rparr>)\<rparr>))
    \<and> CompositeRandomRWFileWrapper_use_direct_io w_rw =
        Some (rw_use_direct_io t_rw (rw_state t_rw))
    \<and> CompositeRandomRWFileWrapper_GetRequiredBufferAlignment w_rw =
        Some (rw_GetRequiredBufferAlignment t_rw (rw_state t_rw))
    \<and> CompositeRandomRWFileWrapper_Write w_rw offset data =
        (case rw_Write t_rw offset data IOOptions_default IODebugContext_default (rw_state t_rw) of
           (status, dbg, s) \<Rightarrow>
             Some (status, w_rw\<lparr>rw_target := Some (t_rw\<lparr>rw_state := s\<rparr>)\<rparr>))
    \<and> CompositeRandomRWFileWrapper_Read w_rw offset n result scratch =
        (case rw_Read t_rw offset n IOOptions_default result scratch IODebugContext_default (rw_state t_rw) of
           (status, result, dbg) \<Rightarrow>
             Some (status, result))
    \<and> CompositeRandomRWFileWrapper_Flush w_rw =
        (case rw_Flush t_rw IOOptions_default IODebugContext_default (rw_state t_rw) of
           (status, dbg, s) \<Rightarrow>
             Some (status, w_rw\<lparr>rw_target := Some (t_rw\<lparr>rw_state := s\<rparr>)\<rparr>))
    \<and> CompositeRandomRWFileWrapper_Sync w_rw =
        (case rw_Sync t_rw IOOptions_default IODebugContext_default (rw_state t_rw) of
           (status, dbg, s) \<Rightarrow>
             Some (status, w_rw\<lparr>rw_target := Some (t_rw\<lparr>rw_state := s\<rparr>)\<rparr>))
    \<and> CompositeRandomRWFileWrapper_Fsync w_rw =
        (case rw_Fsync t_rw IOOptions_default IODebugContext_default (rw_state t_rw) of
           (status, dbg, s) \<Rightarrow>
             Some (status, w_rw\<lparr>rw_target := Some (t_rw\<lparr>rw_state := s\<rparr>)\<rparr>))
    \<and> CompositeRandomRWFileWrapper_Close w_rw =
        (case rw_Close t_rw IOOptions_default IODebugContext_default (rw_state t_rw) of
           (status, dbg, s) \<Rightarrow>
             Some (status, w_rw\<lparr>rw_target := Some (t_rw\<lparr>rw_state := s\<rparr>)\<rparr>))
    \<and> CompositeDirectoryWrapper_Fsync w_dir =
        (case dir_FsyncWithDirOptions t_dir IOOptions_default IODebugContext_default DirFsyncOptions_default (dir_state t_dir) of
           (status, dbg, s) \<Rightarrow>
             Some (status, w_dir\<lparr>dir_target := Some (t_dir\<lparr>dir_state := s\<rparr>)\<rparr>))
    \<and> CompositeDirectoryWrapper_GetUniqueId w_dir id' max_size =
        Some (dir_GetUniqueId t_dir id' max_size (dir_state t_dir))
    \<and> CompositeWritableFileWrapper_target w_wf = Some t_wf"
  using assms
  by (intro conjI impI)
     (simp_all add:
        CompositeEnv_NewSequentialFile_def CompositeEnv_NewRandomAccessFile_def
        CompositeEnv_NewWritableFile_def CompositeEnv_ReopenWritableFile_def
        CompositeEnv_ReuseWritableFile_def CompositeEnv_NewRandomRWFile_def
        CompositeEnv_NewDirectory_def new_CompositeSequentialFileWrapper_def
        new_CompositeRandomAccessFileWrapper_def new_CompositeWritableFileWrapper_def
        new_CompositeRandomRWFileWrapper_def new_CompositeDirectoryWrapper_def
        CompositeSequentialFileWrapper_Read_def CompositeSequentialFileWrapper_Skip_def
        CompositeSequentialFileWrapper_use_direct_io_def
        CompositeSequentialFileWrapper_GetRequiredBufferAlignment_def
        CompositeSequentialFileWrapper_InvalidateCache_def
        CompositeSequentialFileWrapper_PositionedRead_def
        CompositeRandomAccessFileWrapper_Read_def
        CompositeRandomAccessFileWrapper_MultiRead_def
        CompositeRandomAccessFileWrapper_Prefetch_def
        CompositeRandomAccessFileWrapper_GetUniqueId_def
        CompositeRandomAccessFileWrapper_Hint_def
        CompositeRandomAccessFileWrapper_use_direct_io_def
        CompositeRandomAccessFileWrapper_GetRequiredBufferAlignment_def
        CompositeRandomAccessFileWrapper_InvalidateCache_def
        CompositeWritableFileWrapper_Append_def
        CompositeWritableFileWrapper_Append_verified_def
        CompositeWritableFileWrapper_PositionedAppend_def
        CompositeWritableFileWrapper_PositionedAppend_verified_def
        CompositeWritableFileWrapper_Truncate_def CompositeWritableFileWrapper_Close_def
        CompositeWritableFileWrapper_Flush_def CompositeWritableFileWrapper_Sync_def
        CompositeWritableFileWrapper_Fsync_def
        CompositeWritableFileWrapper_IsSyncThreadSafe_def
        CompositeWritableFileWrapper_use_direct_io_def
        CompositeWritableFileWrapper_GetRequiredBufferAlignment_def
        CompositeWritableFileWrapper_SetWriteLifeTimeHint_def
        CompositeWritableFileWrapper_GetWriteLifeTimeHint_def
        CompositeWritableFileWrapper_GetFileSize_def
        CompositeWritableFileWrapper_SetPreallocationBlockSize_def
        CompositeWritableFileWrapper_GetPreallocationStatus_def
        CompositeWritableFileWrapper_GetUniqueId_def
        CompositeWritableFileWrapper_InvalidateCache_def
        CompositeWritableFileWrapper_RangeSync_def
        CompositeWritableFileWrapper_PrepareWrite_def
        CompositeWritableFileWrapper_Allocate_def
        CompositeRandomRWFileWrapper_use_direct_io_def
        CompositeRandomRWFileWrapper_GetRequiredBufferAlignment_def
        CompositeRandomRWFileWrapper_Write_def CompositeRandomRWFileWrapper_Read_def
        CompositeRandomRWFileWrapper_Flush_def CompositeRandomRWFileWrapper_Sync_def
        CompositeRandomRWFileWrapper_Fsync_def CompositeRandomRWFileWrapper_Close_def
        CompositeDirectoryWrapper_Fsync_def CompositeDirectoryWrapper_GetUniqueId_def
        CompositeWritableFileWrapper_target_def)
theorem created_handle_delegates_witness:
  "CompositeEnv_NewWritableFile
     \<lparr>file_system = Some recording_FileSystem\<rparr> ''log'' None (7::nat) =
     Some (Status_OK, Some \<lparr>wf_target = Some recording_FSWritableFile\<rparr>,
           \<lparr>file_system = Some (recording_FileSystem
              \<lparr>fs_state :=
                 [Creation ''NewWritableFile'' [''log''] (Inl (FileOptions 7))
                    IODebugContext_default]\<rparr>)\<rparr>)
   \<and> CompositeWritableFileWrapper_Append
     \<lparr>wf_target = Some recording_FSWritableFile\<rparr> ''abc'' =
     Some (Status_OK,
           \<lparr>wf_target = Some (recording_FSWritableFile
              \<lparr>wf_state :=
                 [(''Append'', [A_bytes ''abc'', A_io IOOptions_default,
                                A_dbg IODebugContext_default])]\<rparr>)\<rparr>)"
proof -
  let ?fs = "recording_FileSystem :: (nat, nat Creation list, Call list) FileSystem"
  let ?env = "\<lparr>file_system = Some ?fs\<rparr>"
  let ?log = "[Creation ''NewWritableFile'' [''log''] (Inl (FileOptions (7::nat)))
                 IODebugContext_default]"
  have env: "file_system ?env = Some ?fs"
    by simp
  have sq: "sq_target \<lparr>sq_target = Some recording_FSSequentialFile\<rparr> =
              Some recording_FSSequentialFile"
    by simp
  have ra: "ra_target \<lparr>ra_target = Some recording_FSRandomAccessFile\<rparr> =
              Some recording_FSRandomAccessFile"
    by simp
  have wf: "wf_target \<lparr>wf_target = Some recording_FSWritableFile\<rparr> =
              Some recording_FSWritableFile"
    by simp
  have rw: "rw_target \<lparr>rw_target = Some recording_FSRandomRWFile\<rparr> =
              Some recording_FSRandomRWFile"
    by simp
  have dir: "dir_target \<lparr>dir_target = Some recording_FSDirectory\<rparr> =
              Some recording_FSDirectory"
    by simp
  have succeeded: "ok Status_OK"
    by (simp add: ok_def Status_OK_def)
  have call: "fs_NewWritableFile ?fs ''log'' (FileOptions 7) None IODebugContext_default
                (fs_state ?fs) =
              (Status_OK, Some recording_FSWritableFile, IODebugContext_default, ?log)"
    by (simp add: recording_FileSystem_def recording_create_def)
  note all = created_handle_delegates [OF env sq ra wf rw dir,
      where f = "''log''" and fname = "''log''" and old_fname = "''old''" and name = "''log''"
        and options = 7 and status = Status_OK and dbg = IODebugContext_default and s = ?log
        and file_sq = None and file_ra = None and file_wf = "Some recording_FSWritableFile"
        and file_rw = None and file_dir = None
        and r_sq = None and r_ra = None and r_wf = None and r_rw = None and r_dir = None
        and n = 0 and result = "''''" and scratch = 0 and offset = 0 and length' = 0
        and num_reqs = 0 and reqs = "[]" and id' = 0 and max_size = 0 and pattern = 0
        and data = "''abc''" and verification_info = "\<lparr>checksum = ''''\<rparr>"
        and size' = 0 and hint = 0 and block_size = 0 and last_allocated_block = 0
        and nbytes = 0 and len = 0]
  from all call succeeded
  have created: "CompositeEnv_NewWritableFile ?env ''log'' None 7 =
      Some (Status_OK, Some \<lparr>wf_target = Some recording_FSWritableFile\<rparr>,
            ?env\<lparr>file_system := Some (?fs\<lparr>fs_state := ?log\<rparr>)\<rparr>)"
    by blast
  from all
  have append: "CompositeWritableFileWrapper_Append
        \<lparr>wf_target = Some recording_FSWritableFile\<rparr> ''abc'' =
      (case wf_Append recording_FSWritableFile ''abc'' IOOptions_default
              IODebugContext_default (wf_state recording_FSWritableFile) of
         (status, dbg, s) \<Rightarrow>
           Some (status,
                 \<lparr>wf_target = Some recording_FSWritableFile\<rparr>
                   \<lparr>wf_target := Some (recording_FSWritableFile\<lparr>wf_state := s\<rparr>)\<rparr>))"
    by blast
  show ?thesis
    unfolding created append
    by (simp add: recording_FSWritableFile_def)
qed

section \<open>What a creation operation passes to the backend\<close>

text \<open>
  C6, as the code has it.  Each of the six file creation operations builds
  \<^verbatim>\<open>FileOptions(options)\<close> from the legacy open options and an empty debug context and makes
  the matching backend call with them, on an empty handle.  \<^verbatim>\<open>NewDirectory\<close> takes no
  legacy open options: it passes the default-constructed \<^verbatim>\<open>IOOptions\<close> and an empty debug
  context to the backend's directory creation.
\<close>

theorem creation_invokes_matching_modern_call:
  assumes "file_system env = Some fs"
  shows "CompositeEnv_NewSequentialFile env f r_sq options =
        (case fs_NewSequentialFile fs f (FileOptions options) None IODebugContext_default (fs_state fs) of
           (status, file, dbg, s) \<Rightarrow>
             Some (status, if ok status then Some \<lparr>sq_target = file\<rparr> else r_sq,
                   env\<lparr>file_system := Some (fs\<lparr>fs_state := s\<rparr>)\<rparr>))
    \<and> CompositeEnv_NewRandomAccessFile env f r_ra options =
        (case fs_NewRandomAccessFile fs f (FileOptions options) None IODebugContext_default (fs_state fs) of
           (status, file, dbg, s) \<Rightarrow>
             Some (status, if ok status then Some \<lparr>ra_target = file\<rparr> else r_ra,
                   env\<lparr>file_system := Some (fs\<lparr>fs_state := s\<rparr>)\<rparr>))
    \<and> CompositeEnv_NewWritableFile env f r_wf options =
        (case fs_NewWritableFile fs f (FileOptions options) None IODebugContext_default (fs_state fs) of
           (status, file, dbg, s) \<Rightarrow>
             Some (status, if ok status then Some \<lparr>wf_target = file\<rparr> else r_wf,
                   env\<lparr>file_system := Some (fs\<lparr>fs_state := s\<rparr>)\<rparr>))
    \<and> CompositeEnv_ReopenWritableFile env fname r_wf options =
        (case fs_ReopenWritableFile fs fname (FileOptions options) None IODebugContext_default (fs_state fs) of
           (status, file, dbg, s) \<Rightarrow>
             Some (status, if ok status then Some \<lparr>wf_target = file\<rparr> else r_wf,
                   env\<lparr>file_system := Some (fs\<lparr>fs_state := s\<rparr>)\<rparr>))
    \<and> CompositeEnv_ReuseWritableFile env fname old_fname r_wf options =
        (case fs_ReuseWritableFile fs fname old_fname (FileOptions options) None IODebugContext_default (fs_state fs) of
           (status, file, dbg, s) \<Rightarrow>
             Some (status, if ok status then Some \<lparr>wf_target = file\<rparr> else r_wf,
                   env\<lparr>file_system := Some (fs\<lparr>fs_state := s\<rparr>)\<rparr>))
    \<and> CompositeEnv_NewRandomRWFile env fname r_rw options =
        (case fs_NewRandomRWFile fs fname (FileOptions options) None IODebugContext_default (fs_state fs) of
           (status, file, dbg, s) \<Rightarrow>
             Some (status, if ok status then Some \<lparr>rw_target = file\<rparr> else r_rw,
                   env\<lparr>file_system := Some (fs\<lparr>fs_state := s\<rparr>)\<rparr>))
    \<and> CompositeEnv_NewDirectory env name r_dir =
        (case fs_NewDirectory fs name IOOptions_default None IODebugContext_default (fs_state fs) of
           (status, file, dbg, s) \<Rightarrow>
             Some (status, if ok status then Some \<lparr>dir_target = file\<rparr> else r_dir,
                   env\<lparr>file_system := Some (fs\<lparr>fs_state := s\<rparr>)\<rparr>))"
  using assms
  by (intro conjI)
     (simp_all add: split_beta
        CompositeEnv_NewSequentialFile_def CompositeEnv_NewRandomAccessFile_def
        CompositeEnv_NewWritableFile_def CompositeEnv_ReopenWritableFile_def
        CompositeEnv_ReuseWritableFile_def CompositeEnv_NewRandomRWFile_def
        CompositeEnv_NewDirectory_def new_CompositeSequentialFileWrapper_def
        new_CompositeRandomAccessFileWrapper_def new_CompositeWritableFileWrapper_def
        new_CompositeRandomRWFileWrapper_def new_CompositeDirectoryWrapper_def)
theorem creation_invokes_matching_modern_call_witness:
  "CompositeEnv_NewSequentialFile
     \<lparr>file_system = Some recording_FileSystem\<rparr> ''a'' None (7::nat) =
     Some (Status_OK, Some \<lparr>sq_target = Some recording_FSSequentialFile\<rparr>,
           \<lparr>file_system = Some (recording_FileSystem
              \<lparr>fs_state :=
                 [Creation ''NewSequentialFile'' [''a''] (Inl (FileOptions 7))
                    IODebugContext_default]\<rparr>)\<rparr>)
   \<and> CompositeEnv_ReuseWritableFile
     \<lparr>file_system = Some recording_FileSystem\<rparr> ''a'' ''b'' None (7::nat) =
     Some (Status_OK, Some \<lparr>wf_target = Some recording_FSWritableFile\<rparr>,
           \<lparr>file_system = Some (recording_FileSystem
              \<lparr>fs_state :=
                 [Creation ''ReuseWritableFile'' [''a'', ''b''] (Inl (FileOptions 7))
                    IODebugContext_default]\<rparr>)\<rparr>)"
proof -
  let ?fs = "recording_FileSystem :: (nat, nat Creation list, Call list) FileSystem"
  have env: "file_system \<lparr>file_system = Some ?fs\<rparr> = Some ?fs"
    by simp
  show ?thesis
    using creation_invokes_matching_modern_call [OF env,
        where f = "''a''" and fname = "''a''" and old_fname = "''b''" and name = "''a''"
          and options = 7 and r_sq = None and r_ra = None and r_wf = None and r_rw = None
          and r_dir = None]
    by (simp add: recording_FileSystem_def recording_create_def ok_def Status_OK_def)
qed

text \<open>
  C6 as stated fails for the directory: \<^verbatim>\<open>NewDirectory\<close> has no legacy open options to build
  from.  On the recording backend the options value that reaches the directory
  creation is the default \<^verbatim>\<open>IOOptions\<close>, not a \<^verbatim>\<open>FileOptions\<close>.
\<close>

theorem directory_creation_passes_no_legacy_options:
  "CompositeEnv_NewDirectory
     \<lparr>file_system = Some (recording_FileSystem
        :: (nat, nat Creation list, Call list) FileSystem)\<rparr> ''d'' None =
     Some (Status_OK, Some \<lparr>dir_target = Some recording_FSDirectory\<rparr>,
           \<lparr>file_system = Some (recording_FileSystem
              \<lparr>fs_state :=
                 [Creation ''NewDirectory'' [''d''] (Inr IOOptions_default)
                    IODebugContext_default]\<rparr>)\<rparr>)
   \<and> \<not> isl (options_given
         (Creation ''NewDirectory'' [''d'']
            (Inr IOOptions_default :: nat FileOptions + IOOptions) IODebugContext_default))"
  by (simp add: CompositeEnv_NewDirectory_def new_CompositeDirectoryWrapper_def
        recording_FileSystem_def recording_create_def ok_def Status_OK_def)

section \<open>A wrapper is the one owner of its handle until it is destroyed\<close>

text \<open>
  After any call a wrapper that holds a handle \<open>t\<close> holds \<open>t\<close> still, in the state \<open>s\<close> the
  call left it in.
\<close>

lemma SequentialFile_after_holds:
  assumes "sq_target w = Some t"
  shows "\<exists>s. SequentialFile_after w c = Some (w\<lparr>sq_target := Some (t\<lparr>sq_state := s\<rparr>)\<rparr>)"
proof (cases c)
  case (Seq_Read n result scratch)
  with assms show ?thesis
    by (auto simp: CompositeSequentialFileWrapper_Read_def split: prod.splits)
next
  case (Seq_Skip n)
  with assms show ?thesis
    by (auto simp: CompositeSequentialFileWrapper_Skip_def split: prod.splits)
next
  case Seq_use_direct_io
  have "w = w\<lparr>sq_target := Some (t\<lparr>sq_state := sq_state t\<rparr>)\<rparr>"
    using assms by simp
  then have "SequentialFile_after w c = Some (w\<lparr>sq_target := Some (t\<lparr>sq_state := sq_state t\<rparr>)\<rparr>)"
    using assms Seq_use_direct_io by (simp add: CompositeSequentialFileWrapper_use_direct_io_def split: prod.splits)
  then show ?thesis by blast
next
  case Seq_GetRequiredBufferAlignment
  have "w = w\<lparr>sq_target := Some (t\<lparr>sq_state := sq_state t\<rparr>)\<rparr>"
    using assms by simp
  then have "SequentialFile_after w c = Some (w\<lparr>sq_target := Some (t\<lparr>sq_state := sq_state t\<rparr>)\<rparr>)"
    using assms Seq_GetRequiredBufferAlignment by (simp add: CompositeSequentialFileWrapper_GetRequiredBufferAlignment_def split: prod.splits)
  then show ?thesis by blast
next
  case (Seq_InvalidateCache offset length')
  with assms show ?thesis
    by (auto simp: CompositeSequentialFileWrapper_InvalidateCache_def split: prod.splits)
next
  case (Seq_PositionedRead offset n result scratch)
  with assms show ?thesis
    by (auto simp: CompositeSequentialFileWrapper_PositionedRead_def split: prod.splits)
qed

lemma RandomAccessFile_after_holds:
  assumes "ra_target w = Some t" and "RandomAccessFile_call_in_bounds c"
  shows "\<exists>s. RandomAccessFile_after w c = Some (w\<lparr>ra_target := Some (t\<lparr>ra_state := s\<rparr>)\<rparr>)"
proof (cases c)
  case (Ra_Read offset n result scratch)
  have "w = w\<lparr>ra_target := Some (t\<lparr>ra_state := ra_state t\<rparr>)\<rparr>"
    using assms by simp
  then have "RandomAccessFile_after w c = Some (w\<lparr>ra_target := Some (t\<lparr>ra_state := ra_state t\<rparr>)\<rparr>)"
    using assms Ra_Read by (simp add: CompositeRandomAccessFileWrapper_Read_def split: prod.splits)
  then show ?thesis by blast
next
  case (Ra_MultiRead reqs num_reqs)
  with assms show ?thesis
    by (auto simp: CompositeRandomAccessFileWrapper_MultiRead_def split: prod.splits)
next
  case (Ra_Prefetch offset n)
  with assms show ?thesis
    by (auto simp: CompositeRandomAccessFileWrapper_Prefetch_def split: prod.splits)
next
  case (Ra_GetUniqueId id' max_size)
  have "w = w\<lparr>ra_target := Some (t\<lparr>ra_state := ra_state t\<rparr>)\<rparr>"
    using assms by simp
  then have "RandomAccessFile_after w c = Some (w\<lparr>ra_target := Some (t\<lparr>ra_state := ra_state t\<rparr>)\<rparr>)"
    using assms Ra_GetUniqueId by (simp add: CompositeRandomAccessFileWrapper_GetUniqueId_def split: prod.splits)
  then show ?thesis by blast
next
  case (Ra_Hint pattern)
  with assms show ?thesis
    by (auto simp: CompositeRandomAccessFileWrapper_Hint_def split: prod.splits)
next
  case Ra_use_direct_io
  have "w = w\<lparr>ra_target := Some (t\<lparr>ra_state := ra_state t\<rparr>)\<rparr>"
    using assms by simp
  then have "RandomAccessFile_after w c = Some (w\<lparr>ra_target := Some (t\<lparr>ra_state := ra_state t\<rparr>)\<rparr>)"
    using assms Ra_use_direct_io by (simp add: CompositeRandomAccessFileWrapper_use_direct_io_def split: prod.splits)
  then show ?thesis by blast
next
  case Ra_GetRequiredBufferAlignment
  have "w = w\<lparr>ra_target := Some (t\<lparr>ra_state := ra_state t\<rparr>)\<rparr>"
    using assms by simp
  then have "RandomAccessFile_after w c = Some (w\<lparr>ra_target := Some (t\<lparr>ra_state := ra_state t\<rparr>)\<rparr>)"
    using assms Ra_GetRequiredBufferAlignment by (simp add: CompositeRandomAccessFileWrapper_GetRequiredBufferAlignment_def split: prod.splits)
  then show ?thesis by blast
next
  case (Ra_InvalidateCache offset length')
  with assms show ?thesis
    by (auto simp: CompositeRandomAccessFileWrapper_InvalidateCache_def split: prod.splits)
qed

lemma WritableFile_after_holds:
  assumes "wf_target w = Some t"
  shows "\<exists>s. WritableFile_after w c = Some (w\<lparr>wf_target := Some (t\<lparr>wf_state := s\<rparr>)\<rparr>)"
proof (cases c)
  case (Wf_Append data)
  with assms show ?thesis
    by (auto simp: CompositeWritableFileWrapper_Append_def split: prod.splits)
next
  case (Wf_Append_verified data verification_info)
  with assms show ?thesis
    by (auto simp: CompositeWritableFileWrapper_Append_verified_def split: prod.splits)
next
  case (Wf_PositionedAppend data offset)
  with assms show ?thesis
    by (auto simp: CompositeWritableFileWrapper_PositionedAppend_def split: prod.splits)
next
  case (Wf_PositionedAppend_verified data offset verification_info)
  with assms show ?thesis
    by (auto simp: CompositeWritableFileWrapper_PositionedAppend_verified_def split: prod.splits)
next
  case (Wf_Truncate size')
  with assms show ?thesis
    by (auto simp: CompositeWritableFileWrapper_Truncate_def split: prod.splits)
next
  case Wf_Close
  with assms show ?thesis
    by (auto simp: CompositeWritableFileWrapper_Close_def split: prod.splits)
next
  case Wf_Flush
  with assms show ?thesis
    by (auto simp: CompositeWritableFileWrapper_Flush_def split: prod.splits)
next
  case Wf_Sync
  with assms show ?thesis
    by (auto simp: CompositeWritableFileWrapper_Sync_def split: prod.splits)
next
  case Wf_Fsync
  with assms show ?thesis
    by (auto simp: CompositeWritableFileWrapper_Fsync_def split: prod.splits)
next
  case Wf_IsSyncThreadSafe
  have "w = w\<lparr>wf_target := Some (t\<lparr>wf_state := wf_state t\<rparr>)\<rparr>"
    using assms by simp
  then have "WritableFile_after w c = Some (w\<lparr>wf_target := Some (t\<lparr>wf_state := wf_state t\<rparr>)\<rparr>)"
    using assms Wf_IsSyncThreadSafe by (simp add: CompositeWritableFileWrapper_IsSyncThreadSafe_def split: prod.splits)
  then show ?thesis by blast
next
  case Wf_use_direct_io
  have "w = w\<lparr>wf_target := Some (t\<lparr>wf_state := wf_state t\<rparr>)\<rparr>"
    using assms by simp
  then have "WritableFile_after w c = Some (w\<lparr>wf_target := Some (t\<lparr>wf_state := wf_state t\<rparr>)\<rparr>)"
    using assms Wf_use_direct_io by (simp add: CompositeWritableFileWrapper_use_direct_io_def split: prod.splits)
  then show ?thesis by blast
next
  case Wf_GetRequiredBufferAlignment
  have "w = w\<lparr>wf_target := Some (t\<lparr>wf_state := wf_state t\<rparr>)\<rparr>"
    using assms by simp
  then have "WritableFile_after w c = Some (w\<lparr>wf_target := Some (t\<lparr>wf_state := wf_state t\<rparr>)\<rparr>)"
    using assms Wf_GetRequiredBufferAlignment by (simp add: CompositeWritableFileWrapper_GetRequiredBufferAlignment_def split: prod.splits)
  then show ?thesis by blast
next
  case (Wf_SetWriteLifeTimeHint hint)
  with assms show ?thesis
    by (auto simp: CompositeWritableFileWrapper_SetWriteLifeTimeHint_def split: prod.splits)
next
  case Wf_GetWriteLifeTimeHint
  with assms show ?thesis
    by (auto simp: CompositeWritableFileWrapper_GetWriteLifeTimeHint_def split: prod.splits)
next
  case Wf_GetFileSize
  with assms show ?thesis
    by (auto simp: CompositeWritableFileWrapper_GetFileSize_def split: prod.splits)
next
  case (Wf_SetPreallocationBlockSize size')
  with assms show ?thesis
    by (auto simp: CompositeWritableFileWrapper_SetPreallocationBlockSize_def split: prod.splits)
next
  case (Wf_GetPreallocationStatus block_size last_allocated_block)
  with assms show ?thesis
    by (auto simp: CompositeWritableFileWrapper_GetPreallocationStatus_def split: prod.splits)
next
  case (Wf_GetUniqueId id' max_size)
  have "w = w\<lparr>wf_target := Some (t\<lparr>wf_state := wf_state t\<rparr>)\<rparr>"
    using assms by simp
  then have "WritableFile_after w c = Some (w\<lparr>wf_target := Some (t\<lparr>wf_state := wf_state t\<rparr>)\<rparr>)"
    using assms Wf_GetUniqueId by (simp add: CompositeWritableFileWrapper_GetUniqueId_def split: prod.splits)
  then show ?thesis by blast
next
  case (Wf_InvalidateCache offset length')
  with assms show ?thesis
    by (auto simp: CompositeWritableFileWrapper_InvalidateCache_def split: prod.splits)
next
  case (Wf_RangeSync offset nbytes)
  with assms show ?thesis
    by (auto simp: CompositeWritableFileWrapper_RangeSync_def split: prod.splits)
next
  case (Wf_PrepareWrite offset len)
  with assms show ?thesis
    by (auto simp: CompositeWritableFileWrapper_PrepareWrite_def split: prod.splits)
next
  case (Wf_Allocate offset len)
  with assms show ?thesis
    by (auto simp: CompositeWritableFileWrapper_Allocate_def split: prod.splits)
next
  case Wf_target
  have "w = w\<lparr>wf_target := Some (t\<lparr>wf_state := wf_state t\<rparr>)\<rparr>"
    using assms by simp
  then have "WritableFile_after w c = Some (w\<lparr>wf_target := Some (t\<lparr>wf_state := wf_state t\<rparr>)\<rparr>)"
    using assms Wf_target by (simp add: CompositeWritableFileWrapper_target_def split: prod.splits)
  then show ?thesis by blast
qed

lemma RandomRWFile_after_holds:
  assumes "rw_target w = Some t"
  shows "\<exists>s. RandomRWFile_after w c = Some (w\<lparr>rw_target := Some (t\<lparr>rw_state := s\<rparr>)\<rparr>)"
proof (cases c)
  case Rw_use_direct_io
  have "w = w\<lparr>rw_target := Some (t\<lparr>rw_state := rw_state t\<rparr>)\<rparr>"
    using assms by simp
  then have "RandomRWFile_after w c = Some (w\<lparr>rw_target := Some (t\<lparr>rw_state := rw_state t\<rparr>)\<rparr>)"
    using assms Rw_use_direct_io by (simp add: CompositeRandomRWFileWrapper_use_direct_io_def split: prod.splits)
  then show ?thesis by blast
next
  case Rw_GetRequiredBufferAlignment
  have "w = w\<lparr>rw_target := Some (t\<lparr>rw_state := rw_state t\<rparr>)\<rparr>"
    using assms by simp
  then have "RandomRWFile_after w c = Some (w\<lparr>rw_target := Some (t\<lparr>rw_state := rw_state t\<rparr>)\<rparr>)"
    using assms Rw_GetRequiredBufferAlignment by (simp add: CompositeRandomRWFileWrapper_GetRequiredBufferAlignment_def split: prod.splits)
  then show ?thesis by blast
next
  case (Rw_Write offset data)
  with assms show ?thesis
    by (auto simp: CompositeRandomRWFileWrapper_Write_def split: prod.splits)
next
  case (Rw_Read offset n result scratch)
  have "w = w\<lparr>rw_target := Some (t\<lparr>rw_state := rw_state t\<rparr>)\<rparr>"
    using assms by simp
  then have "RandomRWFile_after w c = Some (w\<lparr>rw_target := Some (t\<lparr>rw_state := rw_state t\<rparr>)\<rparr>)"
    using assms Rw_Read by (simp add: CompositeRandomRWFileWrapper_Read_def split: prod.splits)
  then show ?thesis by blast
next
  case Rw_Flush
  with assms show ?thesis
    by (auto simp: CompositeRandomRWFileWrapper_Flush_def split: prod.splits)
next
  case Rw_Sync
  with assms show ?thesis
    by (auto simp: CompositeRandomRWFileWrapper_Sync_def split: prod.splits)
next
  case Rw_Fsync
  with assms show ?thesis
    by (auto simp: CompositeRandomRWFileWrapper_Fsync_def split: prod.splits)
next
  case Rw_Close
  with assms show ?thesis
    by (auto simp: CompositeRandomRWFileWrapper_Close_def split: prod.splits)
qed

lemma Directory_after_holds:
  assumes "dir_target w = Some t"
  shows "\<exists>s. Directory_after w c = Some (w\<lparr>dir_target := Some (t\<lparr>dir_state := s\<rparr>)\<rparr>)"
proof (cases c)
  case Dir_Fsync
  with assms show ?thesis
    by (auto simp: CompositeDirectoryWrapper_Fsync_def split: prod.splits)
next
  case (Dir_GetUniqueId id' max_size)
  have "w = w\<lparr>dir_target := Some (t\<lparr>dir_state := dir_state t\<rparr>)\<rparr>"
    using assms by simp
  then have "Directory_after w c = Some (w\<lparr>dir_target := Some (t\<lparr>dir_state := dir_state t\<rparr>)\<rparr>)"
    using assms Dir_GetUniqueId by (simp add: CompositeDirectoryWrapper_GetUniqueId_def split: prod.splits)
  then show ?thesis by blast
qed

text \<open>
  Hence a call on a wrapper whose \<^verbatim>\<open>target_\<close> is the address \<open>a\<close> of a live handle leaves
  \<^verbatim>\<open>target_\<close> at \<open>a\<close>, the handle at \<open>a\<close>, and every other address as it was.
\<close>

lemma sq_step_keeps:
  assumes "\<sigma> a = Some t"
  shows "\<exists>s. sq_step \<sigma> (Some a) c = Some (Some a, \<sigma>(a \<mapsto> t\<lparr>sq_state := s\<rparr>))"
proof -
  from assms obtain s where
    "SequentialFile_after \<lparr>sq_target = Some t\<rparr> c = Some (\<lparr>sq_target = Some (t\<lparr>sq_state := s\<rparr>)\<rparr>)"
    using SequentialFile_after_holds [of "\<lparr>sq_target = Some t\<rparr>" t c] by auto
  with assms have "sq_step \<sigma> (Some a) c = Some (Some a, \<sigma>(a \<mapsto> t\<lparr>sq_state := s\<rparr>))"
    by (simp add: sq_step_def deref_def settle_def)
  then show ?thesis by blast
qed

lemma ra_step_keeps:
  assumes "\<sigma> a = Some t" and "RandomAccessFile_call_in_bounds c"
  shows "\<exists>s. ra_step \<sigma> (Some a) c = Some (Some a, \<sigma>(a \<mapsto> t\<lparr>ra_state := s\<rparr>))"
proof -
  from assms obtain s where
    "RandomAccessFile_after \<lparr>ra_target = Some t\<rparr> c = Some (\<lparr>ra_target = Some (t\<lparr>ra_state := s\<rparr>)\<rparr>)"
    using RandomAccessFile_after_holds [of "\<lparr>ra_target = Some t\<rparr>" t c] by auto
  with assms have "ra_step \<sigma> (Some a) c = Some (Some a, \<sigma>(a \<mapsto> t\<lparr>ra_state := s\<rparr>))"
    by (simp add: ra_step_def deref_def settle_def)
  then show ?thesis by blast
qed

lemma wf_step_keeps:
  assumes "\<sigma> a = Some t"
  shows "\<exists>s. wf_step \<sigma> (Some a) c = Some (Some a, \<sigma>(a \<mapsto> t\<lparr>wf_state := s\<rparr>))"
proof -
  from assms obtain s where
    "WritableFile_after \<lparr>wf_target = Some t\<rparr> c = Some (\<lparr>wf_target = Some (t\<lparr>wf_state := s\<rparr>)\<rparr>)"
    using WritableFile_after_holds [of "\<lparr>wf_target = Some t\<rparr>" t c] by auto
  with assms have "wf_step \<sigma> (Some a) c = Some (Some a, \<sigma>(a \<mapsto> t\<lparr>wf_state := s\<rparr>))"
    by (simp add: wf_step_def deref_def settle_def)
  then show ?thesis by blast
qed

lemma rw_step_keeps:
  assumes "\<sigma> a = Some t"
  shows "\<exists>s. rw_step \<sigma> (Some a) c = Some (Some a, \<sigma>(a \<mapsto> t\<lparr>rw_state := s\<rparr>))"
proof -
  from assms obtain s where
    "RandomRWFile_after \<lparr>rw_target = Some t\<rparr> c = Some (\<lparr>rw_target = Some (t\<lparr>rw_state := s\<rparr>)\<rparr>)"
    using RandomRWFile_after_holds [of "\<lparr>rw_target = Some t\<rparr>" t c] by auto
  with assms have "rw_step \<sigma> (Some a) c = Some (Some a, \<sigma>(a \<mapsto> t\<lparr>rw_state := s\<rparr>))"
    by (simp add: rw_step_def deref_def settle_def)
  then show ?thesis by blast
qed

lemma dir_step_keeps:
  assumes "\<sigma> a = Some t"
  shows "\<exists>s. dir_step \<sigma> (Some a) c = Some (Some a, \<sigma>(a \<mapsto> t\<lparr>dir_state := s\<rparr>))"
proof -
  from assms obtain s where
    "Directory_after \<lparr>dir_target = Some t\<rparr> c = Some (\<lparr>dir_target = Some (t\<lparr>dir_state := s\<rparr>)\<rparr>)"
    using Directory_after_holds [of "\<lparr>dir_target = Some t\<rparr>" t c] by auto
  with assms have "dir_step \<sigma> (Some a) c = Some (Some a, \<sigma>(a \<mapsto> t\<lparr>dir_state := s\<rparr>))"
    by (simp add: dir_step_def deref_def settle_def)
  then show ?thesis by blast
qed

text \<open>
  The same through any sequence of calls, by induction on the sequence; \<open>renew t s\<close> is
  the handle \<open>t\<close> in the state \<open>s\<close>.
\<close>

lemma run_calls_keeps:
  assumes step: "\<And>\<sigma> t c. \<sigma> a = Some t \<Longrightarrow> fine c \<Longrightarrow>
                   \<exists>s. step \<sigma> (Some a) c = Some (Some a, \<sigma>(a \<mapsto> renew t s))"
    and again: "\<And>t s s'. renew (renew t s) s' = renew t s'"
    and same: "\<And>t. \<exists>s. renew t s = t"
  shows "\<sigma> a = Some t \<Longrightarrow> list_all fine cs \<Longrightarrow>
         \<exists>s. run_calls step \<sigma> (Some a) cs = Some (Some a, \<sigma>(a \<mapsto> renew t s))"
proof (induction cs arbitrary: \<sigma> t)
  case Nil
  from same obtain s where "renew t s = t" by blast
  with Nil have "\<sigma>(a \<mapsto> renew t s) = \<sigma>" by (simp add: fun_upd_idem)
  then have "run_calls step \<sigma> (Some a) [] = Some (Some a, \<sigma>(a \<mapsto> renew t s))" by simp
  then show ?case by blast
next
  case (Cons c cs)
  from Cons.prems have "fine c" and rest: "list_all fine cs" by simp_all
  with step Cons.prems(1) obtain s1 where
    first: "step \<sigma> (Some a) c = Some (Some a, \<sigma>(a \<mapsto> renew t s1))" by blast
  have "(\<sigma>(a \<mapsto> renew t s1)) a = Some (renew t s1)" by simp
  from Cons.IH [of "\<sigma>(a \<mapsto> renew t s1)" "renew t s1", OF this rest] obtain s2 where
    "run_calls step (\<sigma>(a \<mapsto> renew t s1)) (Some a) cs =
       Some (Some a, \<sigma>(a \<mapsto> renew t s1, a \<mapsto> renew (renew t s1) s2))" by blast
  with first have "run_calls step \<sigma> (Some a) (c # cs) = Some (Some a, \<sigma>(a \<mapsto> renew t s2))"
    by (simp add: again)
  then show ?case by blast
qed

text \<open>
  C9.  For each of the five wrapper types, and a caller whose pointer holds the address
  \<open>a\<close> of a live handle \<open>t\<close>: constructing the wrapper leaves the caller's pointer null,
  so the wrapper's \<^verbatim>\<open>target_\<close> is the one pointer that holds \<open>a\<close> (and the constructor of the
  wrapper model, applied to what the caller's pointer refers to, is this move seen
  through the store); after any sequence of calls on the wrapper, \<^verbatim>\<open>Close\<close> among them,
  \<^verbatim>\<open>target_\<close> still holds \<open>a\<close>, the store still has \<open>t\<close> at \<open>a\<close> (in the state \<open>s\<close> the calls left it
  in) and is otherwise unchanged; and destroying the wrapper then removes the handle
  at \<open>a\<close> from the store and nothing else.  The handle is thus released at the
  destruction of the wrapper and at no call before it.
\<close>

theorem wrapper_is_sole_owner_until_destroyed:
  assumes "\<sigma>_sq a = Some t_sq"
    and "\<sigma>_ra a = Some t_ra"
    and "\<sigma>_wf a = Some t_wf"
    and "\<sigma>_rw a = Some t_rw"
    and "\<sigma>_dir a = Some t_dir"
    and "list_all RandomAccessFile_call_in_bounds cs_ra"
  shows "(\<exists>s. case move_into_target (Some a) of
       (target, caller) \<Rightarrow>
         caller = None
         \<and> new_CompositeSequentialFileWrapper (deref \<sigma>_sq (Some a)) =
             (\<lparr>sq_target = deref \<sigma>_sq target\<rparr>, deref \<sigma>_sq caller)
         \<and> (case run_calls sq_step \<sigma>_sq target cs_sq of
              None \<Rightarrow> False
            | Some (target', \<sigma>') \<Rightarrow>
                target' = Some a
                \<and> \<sigma>' = \<sigma>_sq(a \<mapsto> t_sq\<lparr>sq_state := s\<rparr>)
                \<and> destroy \<sigma>' target' = \<sigma>_sq(a := None)))
    \<and> (\<exists>s. case move_into_target (Some a) of
       (target, caller) \<Rightarrow>
         caller = None
         \<and> new_CompositeRandomAccessFileWrapper (deref \<sigma>_ra (Some a)) =
             (\<lparr>ra_target = deref \<sigma>_ra target\<rparr>, deref \<sigma>_ra caller)
         \<and> (case run_calls ra_step \<sigma>_ra target cs_ra of
              None \<Rightarrow> False
            | Some (target', \<sigma>') \<Rightarrow>
                target' = Some a
                \<and> \<sigma>' = \<sigma>_ra(a \<mapsto> t_ra\<lparr>ra_state := s\<rparr>)
                \<and> destroy \<sigma>' target' = \<sigma>_ra(a := None)))
    \<and> (\<exists>s. case move_into_target (Some a) of
       (target, caller) \<Rightarrow>
         caller = None
         \<and> new_CompositeWritableFileWrapper (deref \<sigma>_wf (Some a)) =
             (\<lparr>wf_target = deref \<sigma>_wf target\<rparr>, deref \<sigma>_wf caller)
         \<and> (case run_calls wf_step \<sigma>_wf target cs_wf of
              None \<Rightarrow> False
            | Some (target', \<sigma>') \<Rightarrow>
                target' = Some a
                \<and> \<sigma>' = \<sigma>_wf(a \<mapsto> t_wf\<lparr>wf_state := s\<rparr>)
                \<and> destroy \<sigma>' target' = \<sigma>_wf(a := None)))
    \<and> (\<exists>s. case move_into_target (Some a) of
       (target, caller) \<Rightarrow>
         caller = None
         \<and> new_CompositeRandomRWFileWrapper (deref \<sigma>_rw (Some a)) =
             (\<lparr>rw_target = deref \<sigma>_rw target\<rparr>, deref \<sigma>_rw caller)
         \<and> (case run_calls rw_step \<sigma>_rw target cs_rw of
              None \<Rightarrow> False
            | Some (target', \<sigma>') \<Rightarrow>
                target' = Some a
                \<and> \<sigma>' = \<sigma>_rw(a \<mapsto> t_rw\<lparr>rw_state := s\<rparr>)
                \<and> destroy \<sigma>' target' = \<sigma>_rw(a := None)))
    \<and> (\<exists>s. case move_into_target (Some a) of
       (target, caller) \<Rightarrow>
         caller = None
         \<and> new_CompositeDirectoryWrapper (deref \<sigma>_dir (Some a)) =
             (\<lparr>dir_target = deref \<sigma>_dir target\<rparr>, deref \<sigma>_dir caller)
         \<and> (case run_calls dir_step \<sigma>_dir target cs_dir of
              None \<Rightarrow> False
            | Some (target', \<sigma>') \<Rightarrow>
                target' = Some a
                \<and> \<sigma>' = \<sigma>_dir(a \<mapsto> t_dir\<lparr>dir_state := s\<rparr>)
                \<and> destroy \<sigma>' target' = \<sigma>_dir(a := None)))"
proof -
  have "\<exists>s. run_calls sq_step \<sigma>_sq (Some a) cs_sq =
          Some (Some a, \<sigma>_sq(a \<mapsto> t_sq\<lparr>sq_state := s\<rparr>))"
  proof (rule run_calls_keeps [where fine = "\<lambda>c. True"
        and renew = "\<lambda>t s. t\<lparr>sq_state := s\<rparr>"])
    show "\<exists>s. sq_step \<sigma> (Some a) c = Some (Some a, \<sigma>(a \<mapsto> t\<lparr>sq_state := s\<rparr>))"
      if "\<sigma> a = Some t" for \<sigma> t c
      using that by (rule sq_step_keeps)
    show "\<exists>s. t\<lparr>sq_state := s\<rparr> = t" for t :: "'h FSSequentialFile"
      by (rule exI [of _ "sq_state t"]) simp
  qed (use assms in \<open>simp_all add: list_all_iff\<close>)
  then obtain s_sq where run_sq:
    "run_calls sq_step \<sigma>_sq (Some a) cs_sq =
       Some (Some a, \<sigma>_sq(a \<mapsto> t_sq\<lparr>sq_state := s_sq\<rparr>))" by blast
  have "\<exists>s. run_calls ra_step \<sigma>_ra (Some a) cs_ra =
          Some (Some a, \<sigma>_ra(a \<mapsto> t_ra\<lparr>ra_state := s\<rparr>))"
  proof (rule run_calls_keeps [where fine = "RandomAccessFile_call_in_bounds"
        and renew = "\<lambda>t s. t\<lparr>ra_state := s\<rparr>"])
    show "\<exists>s. ra_step \<sigma> (Some a) c = Some (Some a, \<sigma>(a \<mapsto> t\<lparr>ra_state := s\<rparr>))"
      if "\<sigma> a = Some t" and "RandomAccessFile_call_in_bounds c" for \<sigma> t c
      using that by (rule ra_step_keeps)
    show "\<exists>s. t\<lparr>ra_state := s\<rparr> = t" for t :: "'h FSRandomAccessFile"
      by (rule exI [of _ "ra_state t"]) simp
  qed (use assms in \<open>simp_all add: list_all_iff\<close>)
  then obtain s_ra where run_ra:
    "run_calls ra_step \<sigma>_ra (Some a) cs_ra =
       Some (Some a, \<sigma>_ra(a \<mapsto> t_ra\<lparr>ra_state := s_ra\<rparr>))" by blast
  have "\<exists>s. run_calls wf_step \<sigma>_wf (Some a) cs_wf =
          Some (Some a, \<sigma>_wf(a \<mapsto> t_wf\<lparr>wf_state := s\<rparr>))"
  proof (rule run_calls_keeps [where fine = "\<lambda>c. True"
        and renew = "\<lambda>t s. t\<lparr>wf_state := s\<rparr>"])
    show "\<exists>s. wf_step \<sigma> (Some a) c = Some (Some a, \<sigma>(a \<mapsto> t\<lparr>wf_state := s\<rparr>))"
      if "\<sigma> a = Some t" for \<sigma> t c
      using that by (rule wf_step_keeps)
    show "\<exists>s. t\<lparr>wf_state := s\<rparr> = t" for t :: "'h FSWritableFile"
      by (rule exI [of _ "wf_state t"]) simp
  qed (use assms in \<open>simp_all add: list_all_iff\<close>)
  then obtain s_wf where run_wf:
    "run_calls wf_step \<sigma>_wf (Some a) cs_wf =
       Some (Some a, \<sigma>_wf(a \<mapsto> t_wf\<lparr>wf_state := s_wf\<rparr>))" by blast
  have "\<exists>s. run_calls rw_step \<sigma>_rw (Some a) cs_rw =
          Some (Some a, \<sigma>_rw(a \<mapsto> t_rw\<lparr>rw_state := s\<rparr>))"
  proof (rule run_calls_keeps [where fine = "\<lambda>c. True"
        and renew = "\<lambda>t s. t\<lparr>rw_state := s\<rparr>"])
    show "\<exists>s. rw_step \<sigma> (Some a) c = Some (Some a, \<sigma>(a \<mapsto> t\<lparr>rw_state := s\<rparr>))"
      if "\<sigma> a = Some t" for \<sigma> t c
      using that by (rule rw_step_keeps)
    show "\<exists>s. t\<lparr>rw_state := s\<rparr> = t" for t :: "'h FSRandomRWFile"
      by (rule exI [of _ "rw_state t"]) simp
  qed (use assms in \<open>simp_all add: list_all_iff\<close>)
  then obtain s_rw where run_rw:
    "run_calls rw_step \<sigma>_rw (Some a) cs_rw =
       Some (Some a, \<sigma>_rw(a \<mapsto> t_rw\<lparr>rw_state := s_rw\<rparr>))" by blast
  have "\<exists>s. run_calls dir_step \<sigma>_dir (Some a) cs_dir =
          Some (Some a, \<sigma>_dir(a \<mapsto> t_dir\<lparr>dir_state := s\<rparr>))"
  proof (rule run_calls_keeps [where fine = "\<lambda>c. True"
        and renew = "\<lambda>t s. t\<lparr>dir_state := s\<rparr>"])
    show "\<exists>s. dir_step \<sigma> (Some a) c = Some (Some a, \<sigma>(a \<mapsto> t\<lparr>dir_state := s\<rparr>))"
      if "\<sigma> a = Some t" for \<sigma> t c
      using that by (rule dir_step_keeps)
    show "\<exists>s. t\<lparr>dir_state := s\<rparr> = t" for t :: "'h FSDirectory"
      by (rule exI [of _ "dir_state t"]) simp
  qed (use assms in \<open>simp_all add: list_all_iff\<close>)
  then obtain s_dir where run_dir:
    "run_calls dir_step \<sigma>_dir (Some a) cs_dir =
       Some (Some a, \<sigma>_dir(a \<mapsto> t_dir\<lparr>dir_state := s_dir\<rparr>))" by blast
  have life_sq: "(\<exists>s. case move_into_target (Some a) of
       (target, caller) \<Rightarrow>
         caller = None
         \<and> new_CompositeSequentialFileWrapper (deref \<sigma>_sq (Some a)) =
             (\<lparr>sq_target = deref \<sigma>_sq target\<rparr>, deref \<sigma>_sq caller)
         \<and> (case run_calls sq_step \<sigma>_sq target cs_sq of
              None \<Rightarrow> False
            | Some (target', \<sigma>') \<Rightarrow>
                target' = Some a
                \<and> \<sigma>' = \<sigma>_sq(a \<mapsto> t_sq\<lparr>sq_state := s\<rparr>)
                \<and> destroy \<sigma>' target' = \<sigma>_sq(a := None)))"
    by (rule exI [of _ s_sq]) (simp add: move_into_target_def destroy_def deref_def new_CompositeSequentialFileWrapper_def assms run_sq)
  have life_ra: "(\<exists>s. case move_into_target (Some a) of
       (target, caller) \<Rightarrow>
         caller = None
         \<and> new_CompositeRandomAccessFileWrapper (deref \<sigma>_ra (Some a)) =
             (\<lparr>ra_target = deref \<sigma>_ra target\<rparr>, deref \<sigma>_ra caller)
         \<and> (case run_calls ra_step \<sigma>_ra target cs_ra of
              None \<Rightarrow> False
            | Some (target', \<sigma>') \<Rightarrow>
                target' = Some a
                \<and> \<sigma>' = \<sigma>_ra(a \<mapsto> t_ra\<lparr>ra_state := s\<rparr>)
                \<and> destroy \<sigma>' target' = \<sigma>_ra(a := None)))"
    by (rule exI [of _ s_ra]) (simp add: move_into_target_def destroy_def deref_def new_CompositeRandomAccessFileWrapper_def assms run_ra)
  have life_wf: "(\<exists>s. case move_into_target (Some a) of
       (target, caller) \<Rightarrow>
         caller = None
         \<and> new_CompositeWritableFileWrapper (deref \<sigma>_wf (Some a)) =
             (\<lparr>wf_target = deref \<sigma>_wf target\<rparr>, deref \<sigma>_wf caller)
         \<and> (case run_calls wf_step \<sigma>_wf target cs_wf of
              None \<Rightarrow> False
            | Some (target', \<sigma>') \<Rightarrow>
                target' = Some a
                \<and> \<sigma>' = \<sigma>_wf(a \<mapsto> t_wf\<lparr>wf_state := s\<rparr>)
                \<and> destroy \<sigma>' target' = \<sigma>_wf(a := None)))"
    by (rule exI [of _ s_wf]) (simp add: move_into_target_def destroy_def deref_def new_CompositeWritableFileWrapper_def assms run_wf)
  have life_rw: "(\<exists>s. case move_into_target (Some a) of
       (target, caller) \<Rightarrow>
         caller = None
         \<and> new_CompositeRandomRWFileWrapper (deref \<sigma>_rw (Some a)) =
             (\<lparr>rw_target = deref \<sigma>_rw target\<rparr>, deref \<sigma>_rw caller)
         \<and> (case run_calls rw_step \<sigma>_rw target cs_rw of
              None \<Rightarrow> False
            | Some (target', \<sigma>') \<Rightarrow>
                target' = Some a
                \<and> \<sigma>' = \<sigma>_rw(a \<mapsto> t_rw\<lparr>rw_state := s\<rparr>)
                \<and> destroy \<sigma>' target' = \<sigma>_rw(a := None)))"
    by (rule exI [of _ s_rw]) (simp add: move_into_target_def destroy_def deref_def new_CompositeRandomRWFileWrapper_def assms run_rw)
  have life_dir: "(\<exists>s. case move_into_target (Some a) of
       (target, caller) \<Rightarrow>
         caller = None
         \<and> new_CompositeDirectoryWrapper (deref \<sigma>_dir (Some a)) =
             (\<lparr>dir_target = deref \<sigma>_dir target\<rparr>, deref \<sigma>_dir caller)
         \<and> (case run_calls dir_step \<sigma>_dir target cs_dir of
              None \<Rightarrow> False
            | Some (target', \<sigma>') \<Rightarrow>
                target' = Some a
                \<and> \<sigma>' = \<sigma>_dir(a \<mapsto> t_dir\<lparr>dir_state := s\<rparr>)
                \<and> destroy \<sigma>' target' = \<sigma>_dir(a := None)))"
    by (rule exI [of _ s_dir]) (simp add: move_into_target_def destroy_def deref_def new_CompositeDirectoryWrapper_def assms run_dir)
  from life_sq life_ra life_wf life_rw life_dir show ?thesis
    by (intro conjI)
qed

theorem wrapper_is_sole_owner_until_destroyed_witness:
  "snd (move_into_target (Some 5)) = None
   \<and> (\<exists>s. run_calls wf_step
            [9::nat \<mapsto> recording_FSWritableFile\<lparr>wf_state := [(''Sync'', [])]\<rparr>,
             5 \<mapsto> recording_FSWritableFile]
            (fst (move_into_target (Some 5)))
            [Wf_Append ''abc'', Wf_Close, Wf_GetFileSize] =
          Some (Some 5,
                [9 \<mapsto> recording_FSWritableFile\<lparr>wf_state := [(''Sync'', [])]\<rparr>,
                 5 \<mapsto> recording_FSWritableFile\<lparr>wf_state := s\<rparr>])
      \<and> destroy
            [9 \<mapsto> recording_FSWritableFile\<lparr>wf_state := [(''Sync'', [])]\<rparr>,
             5 \<mapsto> recording_FSWritableFile\<lparr>wf_state := s\<rparr>]
            (Some 5) 5 = None
      \<and> destroy
            [9 \<mapsto> recording_FSWritableFile\<lparr>wf_state := [(''Sync'', [])]\<rparr>,
             5 \<mapsto> recording_FSWritableFile\<lparr>wf_state := s\<rparr>]
            (Some 5) 9 = Some (recording_FSWritableFile\<lparr>wf_state := [(''Sync'', [])]\<rparr>))
   \<and> run_calls wf_step [5 \<mapsto> recording_FSWritableFile] (Some 5) [Wf_Append ''abc'', Wf_Close] =
       Some (Some 5,
             [5 \<mapsto> recording_FSWritableFile
                \<lparr>wf_state :=
                   [(''Append'', [A_bytes ''abc'', A_io IOOptions_default,
                                  A_dbg IODebugContext_default]),
                    (''Close'', [A_io IOOptions_default, A_dbg IODebugContext_default])]\<rparr>])"
proof -
  let ?other = "recording_FSWritableFile\<lparr>wf_state := [(''Sync'', [])]\<rparr>"
  let ?store = "[9::nat \<mapsto> ?other, 5 \<mapsto> recording_FSWritableFile]"
  have sq: "[5 \<mapsto> recording_FSSequentialFile] (5::nat) = Some recording_FSSequentialFile"
    by simp
  have ra: "[5 \<mapsto> recording_FSRandomAccessFile] (5::nat) = Some recording_FSRandomAccessFile"
    by simp
  have wf: "?store 5 = Some recording_FSWritableFile"
    by simp
  have rw: "[5 \<mapsto> recording_FSRandomRWFile] (5::nat) = Some recording_FSRandomRWFile"
    by simp
  have dir: "[5 \<mapsto> recording_FSDirectory] (5::nat) = Some recording_FSDirectory"
    by simp
  have bounds: "list_all RandomAccessFile_call_in_bounds [Ra_MultiRead [] 0]"
    by simp
  note life = wrapper_is_sole_owner_until_destroyed [
      where a = 5 and \<sigma>_sq = "[5 \<mapsto> recording_FSSequentialFile]"
        and t_sq = recording_FSSequentialFile
        and \<sigma>_ra = "[5 \<mapsto> recording_FSRandomAccessFile]"
        and t_ra = recording_FSRandomAccessFile
        and \<sigma>_wf = ?store and t_wf = recording_FSWritableFile
        and \<sigma>_rw = "[5 \<mapsto> recording_FSRandomRWFile]"
        and t_rw = recording_FSRandomRWFile
        and \<sigma>_dir = "[5 \<mapsto> recording_FSDirectory]"
        and t_dir = recording_FSDirectory
        and cs_sq = "[]" and cs_ra = "[Ra_MultiRead [] 0]"
        and cs_wf = "[Wf_Append ''abc'', Wf_Close, Wf_GetFileSize]"
        and cs_rw = "[]" and cs_dir = "[]",
      OF sq ra wf rw dir bounds]
  from life [THEN conjunct2, THEN conjunct2, THEN conjunct1] obtain s where
    "case move_into_target (Some 5) of
       (target, caller) \<Rightarrow>
         caller = None
         \<and> new_CompositeWritableFileWrapper (deref ?store (Some 5)) =
             (\<lparr>wf_target = deref ?store target\<rparr>, deref ?store caller)
         \<and> (case run_calls wf_step ?store target
                   [Wf_Append ''abc'', Wf_Close, Wf_GetFileSize] of
              None \<Rightarrow> False
            | Some (target', \<sigma>') \<Rightarrow>
                target' = Some 5
                \<and> \<sigma>' = ?store(5 \<mapsto> recording_FSWritableFile\<lparr>wf_state := s\<rparr>)
                \<and> destroy \<sigma>' target' = ?store(5 := None))"
    ..
  then have moved: "snd (move_into_target (Some 5)) = None"
    and lived: "run_calls wf_step ?store (fst (move_into_target (Some 5)))
                  [Wf_Append ''abc'', Wf_Close, Wf_GetFileSize] =
                Some (Some 5, [9 \<mapsto> ?other, 5 \<mapsto> recording_FSWritableFile\<lparr>wf_state := s\<rparr>])"
    and freed: "destroy [9 \<mapsto> ?other, 5 \<mapsto> recording_FSWritableFile\<lparr>wf_state := s\<rparr>] (Some 5) =
                ?store(5 := None)"
    by (auto split: prod.splits option.splits)
  have traced: "run_calls wf_step [5 \<mapsto> recording_FSWritableFile] (Some 5)
                  [Wf_Append ''abc'', Wf_Close] =
       Some (Some 5,
             [5 \<mapsto> recording_FSWritableFile
                \<lparr>wf_state :=
                   [(''Append'', [A_bytes ''abc'', A_io IOOptions_default,
                                  A_dbg IODebugContext_default]),
                    (''Close'', [A_io IOOptions_default, A_dbg IODebugContext_default])]\<rparr>])"
    by (simp add: wf_step_def deref_def settle_def CompositeWritableFileWrapper_Append_def
          CompositeWritableFileWrapper_Close_def recording_FSWritableFile_def)
  from moved lived freed traced show ?thesis
    by auto
qed

end
